theory Spec2Isabelle
  imports Main
begin

section \<open>The syntax tree\<close>

text \<open>
  The rewrites of \<^verbatim>\<open>src/packages/tool/src/utils/ast.ts\<close> and
  \<^verbatim>\<open>src/packages/tool/src/transforms/sequence.ts\<close> work on the estree-shaped
  tree of the parser. One datatype holds every node kind, as the parser's \<^verbatim>\<open>t.Node\<close>
  does; a child slot that may be \<^verbatim>\<open>null\<close> is an option, an array of children is a
  list. The fragment below has the node kinds the modelled rewrites inspect or build.

  Numeric literals are restricted to the non-negative integer literals (a JavaScript
  number that is a natural number below \<open>2^53\<close>); fractional and exponent literals are
  outside the model. \<open>CallExpression\<close> carries its \<^verbatim>\<open>leadingComments\<close> (the text of
  each comment), the one node kind the modelled passes annotate. \<open>UndefinedSlot\<close> is a
  child slot holding \<^verbatim>\<open>undefined\<close> or \<^verbatim>\<open>null\<close> where the parser puts a node: it only
  arises when a rewrite stores the result of \<^verbatim>\<open>pop()\<close> on an empty array or an array
  element that does not exist, or removes the node of a slot that is not optional.
\<close>

datatype node =
    Identifier string
  | StringLiteral string
  | NumericLiteral nat
  | BooleanLiteral bool
  | NullLiteral
  | RegExpLiteral string string
  | ArrayExpression "node list"
  | UnaryExpression string node
  | BinaryExpression string node node
  | AssignmentExpression string node node
  | UpdateExpression string bool node
  | ConditionalExpression node node node
  | SequenceExpression "node list"
  | CallExpression node "node list" "string list"
  | MemberExpression node node bool
  | FunctionExpression "string option" "node list" node
  | ExpressionStatement node
  | BlockStatement "node list"
  | EmptyStatement
  | IfStatement node node "node option"
  | ReturnStatement "node option"
  | ThrowStatement node
  | BreakStatement
  | ContinueStatement
  | SwitchStatement node "node list"
  | SwitchCase "node option" "node list"
  | WhileStatement node node
  | ForStatement "node option" "node option" "node option" node
  | ForInStatement node node node
  | VariableDeclaration string "node list"
  | VariableDeclarator node "node option"
  | FunctionDeclaration string "node list" node
  | Program "node list"
  | UndefinedSlot

subsection \<open>Node-kind tests (\<^verbatim>\<open>t.isX(node)\<close>)\<close>

fun isIdentifier :: "node \<Rightarrow> bool" where
  "isIdentifier (Identifier _) = True"
| "isIdentifier _ = False"

fun isStringLiteral :: "node \<Rightarrow> bool" where
  "isStringLiteral (StringLiteral _) = True"
| "isStringLiteral _ = False"

fun isNumericLiteral :: "node \<Rightarrow> bool" where
  "isNumericLiteral (NumericLiteral _) = True"
| "isNumericLiteral _ = False"

section \<open>Property names: \<^verbatim>\<open>getPropName\<close>\<close>

text \<open>
  \<open>toString n\<close> is the decimal digit string of the natural number \<open>n\<close>, most significant
  digit first, without leading zeros. It is what \<^verbatim>\<open>Number.prototype.toString()\<close> returns
  on a natural number below \<open>10^21\<close>; from \<open>10^21\<close> on that method returns exponent
  notation, which \<open>toString\<close> does not model.
\<close>

definition digit_char :: "nat \<Rightarrow> char" where
  "digit_char d = ''0123456789'' ! d"

fun toString :: "nat \<Rightarrow> string" where
  "toString n = (if n < 10 then [digit_char n] else toString (n div 10) @ [digit_char (n mod 10)])"

declare toString.simps [simp del]

text \<open>Reading a digit string back, to state that \<open>toString\<close> is the decimal rendering.\<close>

definition digit_val :: "char \<Rightarrow> nat" where
  "digit_val c = of_char c - 48"

definition fromDecimal :: "string \<Rightarrow> nat" where
  "fromDecimal s = foldl (\<lambda>acc c. 10 * acc + digit_val c) 0 s"

text \<open>
  \<^verbatim>\<open>
  export function getPropName(node: t.Node): string {
    if (t.isIdentifier(node)) return node.name
    if (t.isStringLiteral(node)) return node.value
    if (t.isNumericLiteral(node)) return node.value.toString()
    return ''
  }
  \<close>
  \<^verbatim>\<open>node.value.toString()\<close> is the method \<^verbatim>\<open>Number.prototype.toString\<close> of the language,
  not of the repository: it is the parameter \<open>numberToString\<close> of the model, so that
  nothing is fixed about the rendering of a value from \<open>10^21\<close> on.
\<close>

definition getPropName :: "(nat \<Rightarrow> string) \<Rightarrow> node \<Rightarrow> string" where
  "getPropName numberToString n =
     (if isIdentifier n then (case n of Identifier name \<Rightarrow> name | _ \<Rightarrow> [])
      else if isStringLiteral n then (case n of StringLiteral v \<Rightarrow> v | _ \<Rightarrow> [])
      else if isNumericLiteral n then (case n of NumericLiteral v \<Rightarrow> numberToString v | _ \<Rightarrow> [])
      else [])"

section \<open>The traversal driver\<close>

text \<open>
  Modelled from the spec: the traversal driver (section 4.2) that the passes call as
  \<^verbatim>\<open>traverse(ast, visitor)\<close> is a library of the repository's dependencies and not
  part of the sources. It walks the tree depth first; for each node it calls the visitor's
  \<^verbatim>\<open>enter\<close> callback for the node's kind, walks the children in slot order, then calls
  \<^verbatim>\<open>exit\<close>. \<^verbatim>\<open>skip\<close> suppresses the descent; a node put in place on \<^verbatim>\<open>exit\<close>, or
  inserted as a sibling, is not visited again in the same walk. Each pass below is the
  driver specialised to the pass's visitor: one recursive function over the tree with an
  equation per node kind, the kinds without a callback only walking their children.

  Each pass ends with \<^verbatim>\<open>this.reParse()\<close>, which prints the tree and parses the text
  again; printer and parser are inverse on trees (section 1 of the spec), so the step is
  the identity in the model.
\<close>

section \<open>Self-invoking functions: \<^verbatim>\<open>removeSelfCallFn\<close>\<close>

text \<open>
  \<^verbatim>\<open>
  ExpressionStatement(path) {
    const expression = path.node.expression
    if (expression.type === 'UnaryExpression'
      && expression.argument.type === 'CallExpression'
      && expression.argument.callee.type === 'FunctionExpression'
      && expression.argument.arguments.length === 0) {
      path.replaceWith(expression.argument.callee.body)
      path.skip()
    }
  }
  \<close>
  \<open>selfCallBody\<close> is the test of the callback: the body to hoist, when the four
  conditions hold.
\<close>

definition selfCallBody :: "node \<Rightarrow> node option" where
  "selfCallBody expression =
     (case expression of
        UnaryExpression operator argument \<Rightarrow>
          (case argument of
             CallExpression callee arguments comments \<Rightarrow>
               (case callee of
                  FunctionExpression fid params body \<Rightarrow>
                    if length arguments = 0 then Some body else None
                | _ \<Rightarrow> None)
           | _ \<Rightarrow> None)
      | _ \<Rightarrow> None)"

fun removeSelfCallFn :: "node \<Rightarrow> node" where
  "removeSelfCallFn (ExpressionStatement e) =
     (case selfCallBody e of
        Some body \<Rightarrow> body
      | None \<Rightarrow> ExpressionStatement (removeSelfCallFn e))"
| "removeSelfCallFn (Identifier x) = Identifier x"
| "removeSelfCallFn (StringLiteral s) = StringLiteral s"
| "removeSelfCallFn (NumericLiteral v) = NumericLiteral v"
| "removeSelfCallFn (BooleanLiteral b) = BooleanLiteral b"
| "removeSelfCallFn NullLiteral = NullLiteral"
| "removeSelfCallFn (RegExpLiteral p f) = RegExpLiteral p f"
| "removeSelfCallFn (ArrayExpression es) = ArrayExpression (map removeSelfCallFn es)"
| "removeSelfCallFn (UnaryExpression op a) = UnaryExpression op (removeSelfCallFn a)"
| "removeSelfCallFn (BinaryExpression op l r) =
     BinaryExpression op (removeSelfCallFn l) (removeSelfCallFn r)"
| "removeSelfCallFn (AssignmentExpression op l r) =
     AssignmentExpression op (removeSelfCallFn l) (removeSelfCallFn r)"
| "removeSelfCallFn (UpdateExpression op pre a) = UpdateExpression op pre (removeSelfCallFn a)"
| "removeSelfCallFn (ConditionalExpression t c a) =
     ConditionalExpression (removeSelfCallFn t) (removeSelfCallFn c) (removeSelfCallFn a)"
| "removeSelfCallFn (SequenceExpression es) = SequenceExpression (map removeSelfCallFn es)"
| "removeSelfCallFn (CallExpression c as cs) =
     CallExpression (removeSelfCallFn c) (map removeSelfCallFn as) cs"
| "removeSelfCallFn (MemberExpression ob p c) =
     MemberExpression (removeSelfCallFn ob) (removeSelfCallFn p) c"
| "removeSelfCallFn (FunctionExpression fid ps body) =
     FunctionExpression fid (map removeSelfCallFn ps) (removeSelfCallFn body)"
| "removeSelfCallFn (BlockStatement ss) = BlockStatement (map removeSelfCallFn ss)"
| "removeSelfCallFn EmptyStatement = EmptyStatement"
| "removeSelfCallFn (IfStatement t c a) =
     IfStatement (removeSelfCallFn t) (removeSelfCallFn c) (map_option removeSelfCallFn a)"
| "removeSelfCallFn (ReturnStatement a) = ReturnStatement (map_option removeSelfCallFn a)"
| "removeSelfCallFn (ThrowStatement a) = ThrowStatement (removeSelfCallFn a)"
| "removeSelfCallFn BreakStatement = BreakStatement"
| "removeSelfCallFn ContinueStatement = ContinueStatement"
| "removeSelfCallFn (SwitchStatement d cs) =
     SwitchStatement (removeSelfCallFn d) (map removeSelfCallFn cs)"
| "removeSelfCallFn (SwitchCase t ss) =
     SwitchCase (map_option removeSelfCallFn t) (map removeSelfCallFn ss)"
| "removeSelfCallFn (WhileStatement t b) = WhileStatement (removeSelfCallFn t) (removeSelfCallFn b)"
| "removeSelfCallFn (ForStatement i t u b) =
     ForStatement (map_option removeSelfCallFn i) (map_option removeSelfCallFn t)
       (map_option removeSelfCallFn u) (removeSelfCallFn b)"
| "removeSelfCallFn (ForInStatement l r b) =
     ForInStatement (removeSelfCallFn l) (removeSelfCallFn r) (removeSelfCallFn b)"
| "removeSelfCallFn (VariableDeclaration k ds) = VariableDeclaration k (map removeSelfCallFn ds)"
| "removeSelfCallFn (VariableDeclarator i init) =
     VariableDeclarator (removeSelfCallFn i) (map_option removeSelfCallFn init)"
| "removeSelfCallFn (FunctionDeclaration name ps body) =
     FunctionDeclaration name (map removeSelfCallFn ps) (removeSelfCallFn body)"
| "removeSelfCallFn (Program ss) = Program (map removeSelfCallFn ss)"
| "removeSelfCallFn UndefinedSlot = UndefinedSlot"

section \<open>JavaScript values\<close>

text \<open>
  The values that the evaluators hand back to the passes. Numbers are restricted to the
  integers (exact below \<open>2^53\<close> in absolute value); \<^verbatim>\<open>NaN\<close>, infinities and fractions
  are outside the model.
\<close>

datatype jsvalue =
    VString string
  | VNumber int
  | VBoolean bool
  | VNull
  | VUndefined
  | VArray "jsvalue list"

section \<open>Decoder calls: \<^verbatim>\<open>decryptReplace\<close>\<close>

text \<open>
  The builder \<^verbatim>\<open>t.stringLiteral(value)\<close> of the syntax-tree library validates its
  argument and throws a \<^verbatim>\<open>TypeError\<close> when it is not a string; \<open>getType\<close> is the type name
  the validator prints. The comment text of the source is
  \<^verbatim>\<open>`<prefix>: ${error.message}`\<close> with a Chinese prefix that means "decrypt failed",
  written in ASCII here as in the spec.
\<close>

fun getType :: "jsvalue \<Rightarrow> string" where
  "getType (VString _) = ''string''"
| "getType (VNumber _) = ''number''"
| "getType (VBoolean _) = ''boolean''"
| "getType VNull = ''null''"
| "getType VUndefined = ''undefined''"
| "getType (VArray _) = ''array''"

definition stringLiteral :: "jsvalue \<Rightarrow> string + node" where
  "stringLiteral v =
     (case v of
        VString s \<Rightarrow> Inr (StringLiteral s)
      | _ \<Rightarrow> Inl (''Property value expected type of string but got '' @ getType v))"

definition decryptFailed :: "string \<Rightarrow> string" where
  "decryptFailed message = ''decrypt failed: '' @ message"

text \<open>
  \<^verbatim>\<open>
  CallExpression(path) {
    const callee = path.node.callee
    if (!globalState.decryptFnList.includes(callee.name)) return
    if (!(callee.type === 'Identifier')) return
    try {
      const hasIdentifier = path.node.arguments.some(a => t.isIdentifier(a))
      if (hasIdentifier) return
      const callCode = path.toString()
      const decStr = eval(callCode)
      map.set(callCode, decStr)
      path.replaceWith(t.stringLiteral(decStr))
    }
    catch (error) {
      path.addComment('leading', `...: ${error.message}`, true)
      if (this?.throwWithEval) throw new Error(...)
    }
  }
  \<close>
  The evaluation of the printed call is a parameter \<open>eval\<close>: \<open>Inl message\<close> when it
  throws, \<open>Inr value\<close> when it returns. The callback is called with no traversal state,
  so \<^verbatim>\<open>this?.throwWithEval\<close> is undefined and the callback never rethrows. The outcome of
  the callback at one call is \<open>Untouched\<close> (an early \<^verbatim>\<open>return\<close>), \<open>Replaced lit v\<close>
  (the call evaluated to \<open>v\<close> and was replaced by \<open>lit\<close>) or \<open>Tagged message stored\<close>
  (the \<^verbatim>\<open>catch\<close> branch, \<open>stored\<close> holding the value when \<^verbatim>\<open>map.set\<close> ran before
  the throw).
\<close>

datatype call_outcome = Untouched | Replaced node jsvalue | Tagged string "jsvalue option"

definition decryptCall ::
  "string list \<Rightarrow> (node \<Rightarrow> string + jsvalue) \<Rightarrow> node \<Rightarrow> call_outcome" where
  "decryptCall decryptFnList eval call =
     (case call of
        CallExpression callee arguments comments \<Rightarrow>
          (case callee of
             Identifier name \<Rightarrow>
               if name \<notin> set decryptFnList then Untouched
               else if list_ex isIdentifier arguments then Untouched
               else (case eval call of
                       Inl message \<Rightarrow> Tagged message None
                     | Inr decStr \<Rightarrow>
                         (case stringLiteral decStr of
                            Inr lit \<Rightarrow> Replaced lit decStr
                          | Inl message \<Rightarrow> Tagged message (Some decStr)))
           | _ \<Rightarrow> Untouched)
      | _ \<Rightarrow> Untouched)"

text \<open>
  The walk returns the new tree and the entries \<^verbatim>\<open>map.set\<close> made, in order (the key is
  the call, whose printed text keys the source's map). A replaced call is a literal and
  has no children left to walk; a tagged or untouched call has its callee and arguments
  walked.
\<close>

fun decrypt ::
  "string list \<Rightarrow> (node \<Rightarrow> string + jsvalue) \<Rightarrow> node \<Rightarrow> node \<times> (node \<times> jsvalue) list" where
  "decrypt fl ev (CallExpression c as cs) =
     (case decryptCall fl ev (CallExpression c as cs) of
        Replaced lit decStr \<Rightarrow> (lit, [(CallExpression c as cs, decStr)])
      | Tagged message stored \<Rightarrow>
          (CallExpression (fst (decrypt fl ev c)) (map (\<lambda>x. fst (decrypt fl ev x)) as)
             (cs @ [decryptFailed message]),
           (case stored of None \<Rightarrow> [] | Some decStr \<Rightarrow> [(CallExpression c as cs, decStr)])
             @ snd (decrypt fl ev c) @ concat (map (\<lambda>x. snd (decrypt fl ev x)) as))
      | Untouched \<Rightarrow>
          (CallExpression (fst (decrypt fl ev c)) (map (\<lambda>x. fst (decrypt fl ev x)) as) cs,
           snd (decrypt fl ev c) @ concat (map (\<lambda>x. snd (decrypt fl ev x)) as)))"
| "decrypt fl ev (Identifier x) =
     (Identifier x,
      [])"
| "decrypt fl ev (StringLiteral s) =
     (StringLiteral s,
      [])"
| "decrypt fl ev (NumericLiteral v) =
     (NumericLiteral v,
      [])"
| "decrypt fl ev (BooleanLiteral b) =
     (BooleanLiteral b,
      [])"
| "decrypt fl ev NullLiteral =
     (NullLiteral,
      [])"
| "decrypt fl ev (RegExpLiteral p f) =
     (RegExpLiteral p f,
      [])"
| "decrypt fl ev (ArrayExpression es) =
     (ArrayExpression (map (\<lambda>x. fst (decrypt fl ev x)) es),
      concat (map (\<lambda>x. snd (decrypt fl ev x)) es))"
| "decrypt fl ev (UnaryExpression op a) =
     (UnaryExpression op (fst (decrypt fl ev a)),
      snd (decrypt fl ev a))"
| "decrypt fl ev (BinaryExpression op l r) =
     (BinaryExpression op (fst (decrypt fl ev l)) (fst (decrypt fl ev r)),
      snd (decrypt fl ev l) @ snd (decrypt fl ev r))"
| "decrypt fl ev (AssignmentExpression op l r) =
     (AssignmentExpression op (fst (decrypt fl ev l)) (fst (decrypt fl ev r)),
      snd (decrypt fl ev l) @ snd (decrypt fl ev r))"
| "decrypt fl ev (UpdateExpression op pre a) =
     (UpdateExpression op pre (fst (decrypt fl ev a)),
      snd (decrypt fl ev a))"
| "decrypt fl ev (ConditionalExpression t c a) =
     (ConditionalExpression (fst (decrypt fl ev t)) (fst (decrypt fl ev c)) (fst (decrypt fl ev a)),
      snd (decrypt fl ev t) @ snd (decrypt fl ev c) @ snd (decrypt fl ev a))"
| "decrypt fl ev (SequenceExpression es) =
     (SequenceExpression (map (\<lambda>x. fst (decrypt fl ev x)) es),
      concat (map (\<lambda>x. snd (decrypt fl ev x)) es))"
| "decrypt fl ev (MemberExpression ob p c) =
     (MemberExpression (fst (decrypt fl ev ob)) (fst (decrypt fl ev p)) c,
      snd (decrypt fl ev ob) @ snd (decrypt fl ev p))"
| "decrypt fl ev (FunctionExpression fid ps body) =
     (FunctionExpression fid (map (\<lambda>x. fst (decrypt fl ev x)) ps) (fst (decrypt fl ev body)),
      concat (map (\<lambda>x. snd (decrypt fl ev x)) ps) @ snd (decrypt fl ev body))"
| "decrypt fl ev (ExpressionStatement e) =
     (ExpressionStatement (fst (decrypt fl ev e)),
      snd (decrypt fl ev e))"
| "decrypt fl ev (BlockStatement ss) =
     (BlockStatement (map (\<lambda>x. fst (decrypt fl ev x)) ss),
      concat (map (\<lambda>x. snd (decrypt fl ev x)) ss))"
| "decrypt fl ev EmptyStatement =
     (EmptyStatement,
      [])"
| "decrypt fl ev (IfStatement t c a) =
     (IfStatement (fst (decrypt fl ev t)) (fst (decrypt fl ev c)) (map_option (\<lambda>x. fst (decrypt fl ev x)) a),
      snd (decrypt fl ev t) @ snd (decrypt fl ev c) @ (case a of None \<Rightarrow> [] | Some x \<Rightarrow> snd (decrypt fl ev x)))"
| "decrypt fl ev (ReturnStatement a) =
     (ReturnStatement (map_option (\<lambda>x. fst (decrypt fl ev x)) a),
      (case a of None \<Rightarrow> [] | Some x \<Rightarrow> snd (decrypt fl ev x)))"
| "decrypt fl ev (ThrowStatement a) =
     (ThrowStatement (fst (decrypt fl ev a)),
      snd (decrypt fl ev a))"
| "decrypt fl ev BreakStatement =
     (BreakStatement,
      [])"
| "decrypt fl ev ContinueStatement =
     (ContinueStatement,
      [])"
| "decrypt fl ev (SwitchStatement d cs) =
     (SwitchStatement (fst (decrypt fl ev d)) (map (\<lambda>x. fst (decrypt fl ev x)) cs),
      snd (decrypt fl ev d) @ concat (map (\<lambda>x. snd (decrypt fl ev x)) cs))"
| "decrypt fl ev (SwitchCase t ss) =
     (SwitchCase (map_option (\<lambda>x. fst (decrypt fl ev x)) t) (map (\<lambda>x. fst (decrypt fl ev x)) ss),
      (case t of None \<Rightarrow> [] | Some x \<Rightarrow> snd (decrypt fl ev x)) @ concat (map (\<lambda>x. snd (decrypt fl ev x)) ss))"
| "decrypt fl ev (WhileStatement t b) =
     (WhileStatement (fst (decrypt fl ev t)) (fst (decrypt fl ev b)),
      snd (decrypt fl ev t) @ snd (decrypt fl ev b))"
| "decrypt fl ev (ForStatement i t u b) =
     (ForStatement (map_option (\<lambda>x. fst (decrypt fl ev x)) i) (map_option (\<lambda>x. fst (decrypt fl ev x)) t) (map_option (\<lambda>x. fst (decrypt fl ev x)) u) (fst (decrypt fl ev b)),
      (case i of None \<Rightarrow> [] | Some x \<Rightarrow> snd (decrypt fl ev x)) @ (case t of None \<Rightarrow> [] | Some x \<Rightarrow> snd (decrypt fl ev x)) @ (case u of None \<Rightarrow> [] | Some x \<Rightarrow> snd (decrypt fl ev x)) @ snd (decrypt fl ev b))"
| "decrypt fl ev (ForInStatement l r b) =
     (ForInStatement (fst (decrypt fl ev l)) (fst (decrypt fl ev r)) (fst (decrypt fl ev b)),
      snd (decrypt fl ev l) @ snd (decrypt fl ev r) @ snd (decrypt fl ev b))"
| "decrypt fl ev (VariableDeclaration k ds) =
     (VariableDeclaration k (map (\<lambda>x. fst (decrypt fl ev x)) ds),
      concat (map (\<lambda>x. snd (decrypt fl ev x)) ds))"
| "decrypt fl ev (VariableDeclarator i init) =
     (VariableDeclarator (fst (decrypt fl ev i)) (map_option (\<lambda>x. fst (decrypt fl ev x)) init),
      snd (decrypt fl ev i) @ (case init of None \<Rightarrow> [] | Some x \<Rightarrow> snd (decrypt fl ev x)))"
| "decrypt fl ev (FunctionDeclaration name ps body) =
     (FunctionDeclaration name (map (\<lambda>x. fst (decrypt fl ev x)) ps) (fst (decrypt fl ev body)),
      concat (map (\<lambda>x. snd (decrypt fl ev x)) ps) @ snd (decrypt fl ev body))"
| "decrypt fl ev (Program ss) =
     (Program (map (\<lambda>x. fst (decrypt fl ev x)) ss),
      concat (map (\<lambda>x. snd (decrypt fl ev x)) ss))"
| "decrypt fl ev UndefinedSlot =
     (UndefinedSlot,
      [])"

text \<open>
  \<^verbatim>\<open>
  decryptReplace(decryptFnCode = null) {
    if (globalState.decryptFnList.length === 0) return
    if (decryptFnCode) {
      try { const result = global.eval(decryptFnCode) ... }
      catch (e) { ...; throw new Error(...) }
    }
    const map = new Map()
    traverse(this.ast, { CallExpression(path) {...} })
    this.reParse()
    if (map.size > 0) this.log(..., map)
  }
  \<close>
  \<open>setupThrows\<close> says whether setup code was passed and its evaluation throws.
\<close>

datatype error = DecryptFnEvalError

definition decryptReplace ::
  "string list \<Rightarrow> bool \<Rightarrow> (node \<Rightarrow> string + jsvalue) \<Rightarrow> node
     \<Rightarrow> error + node \<times> (node \<times> jsvalue) list" where
  "decryptReplace decryptFnList setupThrows eval ast =
     (if length decryptFnList = 0 then Inr (ast, [])
      else if setupThrows then Inl DecryptFnEvalError
      else Inr (decrypt decryptFnList eval ast))"

text \<open>
  An evaluator for the examples: the decoder \<^verbatim>\<open>d\<close> returns \<^verbatim>\<open>"hello"\<close> for \<^verbatim>\<open>d(1)\<close>,
  the number 5 for \<^verbatim>\<open>d(2)\<close>, and throws \<^verbatim>\<open>boom\<close> on everything else.
\<close>

definition example_eval :: "node \<Rightarrow> string + jsvalue" where
  "example_eval call =
     (if call = CallExpression (Identifier ''d'') [NumericLiteral 1] [] then Inr (VString ''hello'')
      else if call = CallExpression (Identifier ''d'') [NumericLiteral 2] [] then Inr (VNumber 5)
      else Inl ''boom'')"

section \<open>Constant folding: \<^verbatim>\<open>calcBinary\<close>\<close>

text \<open>
  \<open>isLiteral\<close> is \<^verbatim>\<open>t.isLiteral\<close>: the node kinds of the library's \<^verbatim>\<open>Literal\<close> alias
  that the fragment has. \<open>valueToNode\<close> is \<^verbatim>\<open>t.valueToNode\<close>, the library's builder of the
  node that denotes a value: a number below zero becomes a unary minus applied to the
  literal of its absolute value, \<^verbatim>\<open>undefined\<close> the identifier of that name.
\<close>

fun isLiteral :: "node \<Rightarrow> bool" where
  "isLiteral (StringLiteral _) = True"
| "isLiteral (NumericLiteral _) = True"
| "isLiteral (BooleanLiteral _) = True"
| "isLiteral NullLiteral = True"
| "isLiteral (RegExpLiteral _ _) = True"
| "isLiteral _ = False"

fun valueToNode :: "jsvalue \<Rightarrow> node" where
  "valueToNode VUndefined = Identifier ''undefined''"
| "valueToNode (VBoolean b) = BooleanLiteral b"
| "valueToNode VNull = NullLiteral"
| "valueToNode (VString s) = StringLiteral s"
| "valueToNode (VNumber i) =
     (if i < 0 then UnaryExpression ''-'' (NumericLiteral (nat (- i))) else NumericLiteral (nat i))"
| "valueToNode (VArray vs) = ArrayExpression (map valueToNode vs)"

text \<open>
  \<^verbatim>\<open>
  function transformConcatenated(path) {
    const { left, right, operator } = path.node
    const hasIdentifier = [left, right].some(a => t.isIdentifier(a))
    if (hasIdentifier) return
    if (t.isLiteral(left) && t.isLiteral(right)) {
      const { confident, value } = path.evaluate()
      confident && path.replaceWith(t.valueToNode(value))
      if (path.parentPath.type === 'BinaryExpression')
        transformConcatenated(path.parentPath)
      path.skip()
    }
  }
  \<close>
  \<^verbatim>\<open>path.evaluate()\<close> is the library's constant evaluator, a parameter \<open>evaluate\<close> of the
  model: \<open>Some value\<close> when it is confident, \<open>None\<close> when it is not.
  \<open>transformConcatenated evaluate operator left right\<close> is the function at a binary
  expression with the operands that stand in it at the time of the call: the node that
  stands in its place afterwards, and whether the branch of two literal operands ran, in
  which case the function goes on to the parent (when that is a binary expression) and
  the descent is skipped.
\<close>

definition transformConcatenated ::
  "(node \<Rightarrow> jsvalue option) \<Rightarrow> string \<Rightarrow> node \<Rightarrow> node \<Rightarrow> node \<times> bool" where
  "transformConcatenated evaluate operator left right =
     (if list_ex isIdentifier [left, right] then (BinaryExpression operator left right, False)
      else if isLiteral left \<and> isLiteral right then
        ((case evaluate (BinaryExpression operator left right) of
            Some v \<Rightarrow> valueToNode v
          | None \<Rightarrow> BinaryExpression operator left right),
         True)
      else (BinaryExpression operator left right, False))"

text \<open>
  The first walk of \<open>calcBinary\<close>, with the callback
  \<^verbatim>\<open>BinaryExpression(path) { transformConcatenated(path) }\<close> on entry. The second
  component of the result tells the parent that \<open>transformConcatenated\<close> reached it from
  this child. At a binary expression: the callback on entry; when it did not fold, the
  left operand is walked, the function runs again if the left operand sent it up, the
  right operand is walked, and the function runs once more if the right operand sent it
  up. Only a binary expression listens to its children: the other kinds drop the signal,
  as the test \<^verbatim>\<open>path.parentPath.type === 'BinaryExpression'\<close> does.
\<close>

fun foldBinary :: "(node \<Rightarrow> jsvalue option) \<Rightarrow> node \<Rightarrow> node \<times> bool" where
  "foldBinary ev (BinaryExpression op l r) =
     (if snd (transformConcatenated ev op l r) then transformConcatenated ev op l r
      else if snd (foldBinary ev l) \<and> snd (transformConcatenated ev op (fst (foldBinary ev l)) r)
        then transformConcatenated ev op (fst (foldBinary ev l)) r
      else if snd (foldBinary ev r)
        then transformConcatenated ev op (fst (foldBinary ev l)) (fst (foldBinary ev r))
      else (BinaryExpression op (fst (foldBinary ev l)) (fst (foldBinary ev r)), False))"
| "foldBinary ev (Identifier x) =
     (Identifier x, False)"
| "foldBinary ev (StringLiteral s) =
     (StringLiteral s, False)"
| "foldBinary ev (NumericLiteral v) =
     (NumericLiteral v, False)"
| "foldBinary ev (BooleanLiteral b) =
     (BooleanLiteral b, False)"
| "foldBinary ev NullLiteral =
     (NullLiteral, False)"
| "foldBinary ev (RegExpLiteral p f) =
     (RegExpLiteral p f, False)"
| "foldBinary ev (ArrayExpression es) =
     (ArrayExpression (map (\<lambda>x. fst (foldBinary ev x)) es), False)"
| "foldBinary ev (UnaryExpression op a) =
     (UnaryExpression op (fst (foldBinary ev a)), False)"
| "foldBinary ev (AssignmentExpression op l r) =
     (AssignmentExpression op (fst (foldBinary ev l)) (fst (foldBinary ev r)), False)"
| "foldBinary ev (UpdateExpression op pre a) =
     (UpdateExpression op pre (fst (foldBinary ev a)), False)"
| "foldBinary ev (ConditionalExpression t c a) =
     (ConditionalExpression (fst (foldBinary ev t)) (fst (foldBinary ev c)) (fst (foldBinary ev a)), False)"
| "foldBinary ev (SequenceExpression es) =
     (SequenceExpression (map (\<lambda>x. fst (foldBinary ev x)) es), False)"
| "foldBinary ev (CallExpression c as cs) =
     (CallExpression (fst (foldBinary ev c)) (map (\<lambda>x. fst (foldBinary ev x)) as) cs, False)"
| "foldBinary ev (MemberExpression ob p c) =
     (MemberExpression (fst (foldBinary ev ob)) (fst (foldBinary ev p)) c, False)"
| "foldBinary ev (FunctionExpression fid ps body) =
     (FunctionExpression fid (map (\<lambda>x. fst (foldBinary ev x)) ps) (fst (foldBinary ev body)), False)"
| "foldBinary ev (ExpressionStatement e) =
     (ExpressionStatement (fst (foldBinary ev e)), False)"
| "foldBinary ev (BlockStatement ss) =
     (BlockStatement (map (\<lambda>x. fst (foldBinary ev x)) ss), False)"
| "foldBinary ev EmptyStatement =
     (EmptyStatement, False)"
| "foldBinary ev (IfStatement t c a) =
     (IfStatement (fst (foldBinary ev t)) (fst (foldBinary ev c)) (map_option (\<lambda>x. fst (foldBinary ev x)) a), False)"
| "foldBinary ev (ReturnStatement a) =
     (ReturnStatement (map_option (\<lambda>x. fst (foldBinary ev x)) a), False)"
| "foldBinary ev (ThrowStatement a) =
     (ThrowStatement (fst (foldBinary ev a)), False)"
| "foldBinary ev BreakStatement =
     (BreakStatement, False)"
| "foldBinary ev ContinueStatement =
     (ContinueStatement, False)"
| "foldBinary ev (SwitchStatement d cs) =
     (SwitchStatement (fst (foldBinary ev d)) (map (\<lambda>x. fst (foldBinary ev x)) cs), False)"
| "foldBinary ev (SwitchCase t ss) =
     (SwitchCase (map_option (\<lambda>x. fst (foldBinary ev x)) t) (map (\<lambda>x. fst (foldBinary ev x)) ss), False)"
| "foldBinary ev (WhileStatement t b) =
     (WhileStatement (fst (foldBinary ev t)) (fst (foldBinary ev b)), False)"
| "foldBinary ev (ForStatement i t u b) =
     (ForStatement (map_option (\<lambda>x. fst (foldBinary ev x)) i) (map_option (\<lambda>x. fst (foldBinary ev x)) t) (map_option (\<lambda>x. fst (foldBinary ev x)) u) (fst (foldBinary ev b)), False)"
| "foldBinary ev (ForInStatement l r b) =
     (ForInStatement (fst (foldBinary ev l)) (fst (foldBinary ev r)) (fst (foldBinary ev b)), False)"
| "foldBinary ev (VariableDeclaration k ds) =
     (VariableDeclaration k (map (\<lambda>x. fst (foldBinary ev x)) ds), False)"
| "foldBinary ev (VariableDeclarator i init) =
     (VariableDeclarator (fst (foldBinary ev i)) (map_option (\<lambda>x. fst (foldBinary ev x)) init), False)"
| "foldBinary ev (FunctionDeclaration name ps body) =
     (FunctionDeclaration name (map (\<lambda>x. fst (foldBinary ev x)) ps) (fst (foldBinary ev body)), False)"
| "foldBinary ev (Program ss) =
     (Program (map (\<lambda>x. fst (foldBinary ev x)) ss), False)"
| "foldBinary ev UndefinedSlot =
     (UndefinedSlot, False)"

text \<open>
  \<^verbatim>\<open>
  UnaryExpression(path) {
    if (path.node.operator !== '!') return
    if (t.isUnaryExpression(path.node.argument)) {
      if (t.isArrayExpression(path.node.argument.argument)) {
        if (path.node.argument.argument.elements.length === 0) {
          path.replaceWith(t.booleanLiteral(true)); path.skip()
        }
      }
    }
    else if (t.isArrayExpression(path.node.argument)) {
      if (path.node.argument.elements.length === 0) {
        path.replaceWith(t.booleanLiteral(false)); path.skip()
      }
    }
    else if (t.isNumericLiteral(path.node.argument)) {
      if (path.node.argument.value === 0) path.replaceWith(t.booleanLiteral(true))
      else if (path.node.argument.value === 1) path.replaceWith(t.booleanLiteral(false))
    }
  }
  \<close>
  \<open>unaryRewrite\<close> is the callback: the replacement, when it makes one.
\<close>

definition unaryRewrite :: "string \<Rightarrow> node \<Rightarrow> node option" where
  "unaryRewrite operator argument =
     (if operator \<noteq> ''!'' then None
      else (case argument of
              UnaryExpression operator2 argument2 \<Rightarrow>
                (case argument2 of
                   ArrayExpression elements \<Rightarrow>
                     if length elements = 0 then Some (BooleanLiteral True) else None
                 | _ \<Rightarrow> None)
            | ArrayExpression elements \<Rightarrow>
                if length elements = 0 then Some (BooleanLiteral False) else None
            | NumericLiteral v \<Rightarrow>
                if v = 0 then Some (BooleanLiteral True)
                else if v = 1 then Some (BooleanLiteral False)
                else None
            | _ \<Rightarrow> None))"

fun foldUnary :: "node \<Rightarrow> node" where
  "foldUnary (UnaryExpression op a) =
     (case unaryRewrite op a of
        Some b \<Rightarrow> b
      | None \<Rightarrow> UnaryExpression op (foldUnary a))"
| "foldUnary (Identifier x) = Identifier x"
| "foldUnary (StringLiteral s) = StringLiteral s"
| "foldUnary (NumericLiteral v) = NumericLiteral v"
| "foldUnary (BooleanLiteral b) = BooleanLiteral b"
| "foldUnary NullLiteral = NullLiteral"
| "foldUnary (RegExpLiteral p f) = RegExpLiteral p f"
| "foldUnary (ArrayExpression es) = ArrayExpression (map foldUnary es)"
| "foldUnary (BinaryExpression op l r) = BinaryExpression op (foldUnary l) (foldUnary r)"
| "foldUnary (AssignmentExpression op l r) = AssignmentExpression op (foldUnary l) (foldUnary r)"
| "foldUnary (UpdateExpression op pre a) = UpdateExpression op pre (foldUnary a)"
| "foldUnary (ConditionalExpression t c a) = ConditionalExpression (foldUnary t) (foldUnary c) (foldUnary a)"
| "foldUnary (SequenceExpression es) = SequenceExpression (map foldUnary es)"
| "foldUnary (CallExpression c as cs) = CallExpression (foldUnary c) (map foldUnary as) cs"
| "foldUnary (MemberExpression ob p c) = MemberExpression (foldUnary ob) (foldUnary p) c"
| "foldUnary (FunctionExpression fid ps body) = FunctionExpression fid (map foldUnary ps) (foldUnary body)"
| "foldUnary (ExpressionStatement e) = ExpressionStatement (foldUnary e)"
| "foldUnary (BlockStatement ss) = BlockStatement (map foldUnary ss)"
| "foldUnary EmptyStatement = EmptyStatement"
| "foldUnary (IfStatement t c a) = IfStatement (foldUnary t) (foldUnary c) (map_option foldUnary a)"
| "foldUnary (ReturnStatement a) = ReturnStatement (map_option foldUnary a)"
| "foldUnary (ThrowStatement a) = ThrowStatement (foldUnary a)"
| "foldUnary BreakStatement = BreakStatement"
| "foldUnary ContinueStatement = ContinueStatement"
| "foldUnary (SwitchStatement d cs) = SwitchStatement (foldUnary d) (map foldUnary cs)"
| "foldUnary (SwitchCase t ss) = SwitchCase (map_option foldUnary t) (map foldUnary ss)"
| "foldUnary (WhileStatement t b) = WhileStatement (foldUnary t) (foldUnary b)"
| "foldUnary (ForStatement i t u b) = ForStatement (map_option foldUnary i) (map_option foldUnary t) (map_option foldUnary u) (foldUnary b)"
| "foldUnary (ForInStatement l r b) = ForInStatement (foldUnary l) (foldUnary r) (foldUnary b)"
| "foldUnary (VariableDeclaration k ds) = VariableDeclaration k (map foldUnary ds)"
| "foldUnary (VariableDeclarator i init) = VariableDeclarator (foldUnary i) (map_option foldUnary init)"
| "foldUnary (FunctionDeclaration name ps body) = FunctionDeclaration name (map foldUnary ps) (foldUnary body)"
| "foldUnary (Program ss) = Program (map foldUnary ss)"
| "foldUnary UndefinedSlot = UndefinedSlot"

text \<open>The two walks of \<open>calcBinary\<close>, one after the other.\<close>

definition calcBinary :: "(node \<Rightarrow> jsvalue option) \<Rightarrow> node \<Rightarrow> node" where
  "calcBinary evaluate ast = foldUnary (fst (foldBinary evaluate ast))"

subsection \<open>An evaluator for the examples\<close>

text \<open>
  The library's evaluator on a fragment: literals (a regular expression is not
  evaluated), the identifier \<^verbatim>\<open>undefined\<close> (any other free identifier is not
  evaluated), \<^verbatim>\<open>void\<close>, \<^verbatim>\<open>!\<close> and unary minus, arrays, and the operators \<^verbatim>\<open>+\<close>,
  \<^verbatim>\<open>-\<close>, \<^verbatim>\<open>*\<close> on strings and integers. \<open>None\<close> on any other expression says that the
  fragment does not cover it; the theorems hold for every evaluator, and the examples
  use this one only where it is defined or where the library is not confident either
  (a regular expression, a free identifier, a call).
\<close>

fun truthy :: "jsvalue \<Rightarrow> bool" where
  "truthy (VString s) = (s \<noteq> [])"
| "truthy (VNumber i) = (i \<noteq> 0)"
| "truthy (VBoolean b) = b"
| "truthy VNull = False"
| "truthy VUndefined = False"
| "truthy (VArray _) = True"

definition showNumber :: "int \<Rightarrow> string" where
  "showNumber i = (if i < 0 then ''-'' @ toString (nat (- i)) else toString (nat i))"

fun binaryValue :: "string \<Rightarrow> jsvalue \<Rightarrow> jsvalue \<Rightarrow> jsvalue option" where
  "binaryValue op (VString a) (VString b) = (if op = ''+'' then Some (VString (a @ b)) else None)"
| "binaryValue op (VNumber a) (VNumber b) =
     (if op = ''+'' then Some (VNumber (a + b))
      else if op = ''-'' then Some (VNumber (a - b))
      else if op = ''*'' then Some (VNumber (a * b))
      else None)"
| "binaryValue op (VString a) (VNumber b) =
     (if op = ''+'' then Some (VString (a @ showNumber b)) else None)"
| "binaryValue op (VNumber a) (VString b) =
     (if op = ''+'' then Some (VString (showNumber a @ b)) else None)"
| "binaryValue _ _ _ = None"

fun evaluate_literals :: "node \<Rightarrow> jsvalue option" where
  "evaluate_literals (StringLiteral s) = Some (VString s)"
| "evaluate_literals (NumericLiteral n) = Some (VNumber (int n))"
| "evaluate_literals (BooleanLiteral b) = Some (VBoolean b)"
| "evaluate_literals NullLiteral = Some VNull"
| "evaluate_literals (Identifier x) = (if x = ''undefined'' then Some VUndefined else None)"
| "evaluate_literals (UnaryExpression op a) =
     (if op = ''void'' then Some VUndefined
      else (case evaluate_literals a of
              None \<Rightarrow> None
            | Some v \<Rightarrow>
                if op = ''!'' then Some (VBoolean (\<not> truthy v))
                else if op = ''-'' then (case v of VNumber i \<Rightarrow> Some (VNumber (- i)) | _ \<Rightarrow> None)
                else None))"
| "evaluate_literals (BinaryExpression op l r) =
     (case evaluate_literals l of
        None \<Rightarrow> None
      | Some a \<Rightarrow> (case evaluate_literals r of None \<Rightarrow> None | Some b \<Rightarrow> binaryValue op a b))"
| "evaluate_literals (ArrayExpression es) =
     (if list_all (\<lambda>e. evaluate_literals e \<noteq> None) es
      then Some (VArray (map (\<lambda>e. the (evaluate_literals e)) es))
      else None)"
| "evaluate_literals _ = None"

text \<open>A chain \<^verbatim>\<open>s1 + s2 + ... + sn\<close> of string literals, as the parser nests it (to the left).\<close>

definition concatChain :: "string \<Rightarrow> string \<Rightarrow> string list \<Rightarrow> node" where
  "concatChain s1 s2 rest =
     foldl (\<lambda>acc s. BinaryExpression ''+'' acc (StringLiteral s))
       (BinaryExpression ''+'' (StringLiteral s1) (StringLiteral s2)) rest"

section \<open>Sequence splitting: the \<^verbatim>\<open>sequence\<close> transform\<close>

text \<open>
  The callbacks of \<^verbatim>\<open>transforms/sequence.ts\<close> run on exit, after the children of the
  node were walked, and use two primitives of the path: \<^verbatim>\<open>replaceWithMultiple\<close> puts a
  list of statements in the place of the node, \<^verbatim>\<open>insertBefore\<close> puts a list of statements
  before it. Where the node is an element of a statement list the statements become
  elements of the list; where it fills a single slot (the consequent or alternate of an
  \<^verbatim>\<open>if\<close>, the body of a loop) the library puts a block in the slot that holds the
  statements and the node. \<open>Same n\<close> says that the path still holds the one node \<open>n\<close>,
  \<open>Many ns\<close> that one of the two primitives ran and \<open>ns\<close> now stand at the place of the node.
\<close>

datatype placed = Same node | Many "node list"

fun inList :: "placed \<Rightarrow> node list" where
  "inList (Same n) = [n]"
| "inList (Many ns) = ns"

fun inSlot :: "placed \<Rightarrow> node" where
  "inSlot (Same n) = n"
| "inSlot (Many ns) = BlockStatement ns"

definition placeBefore :: "node list option \<Rightarrow> node \<Rightarrow> placed" where
  "placeBefore inserted n = (case inserted of None \<Rightarrow> Same n | Some ss \<Rightarrow> Many (ss @ [n]))"

text \<open>
  \<^verbatim>\<open>expressions.pop()\<close> takes the last element off the array and returns it; on an empty
  array it returns \<^verbatim>\<open>undefined\<close>. The expressions left in the array are \<open>butlast\<close>.
\<close>

definition pop :: "node list \<Rightarrow> node option" where
  "pop expressions = (if expressions = [] then None else Some (last expressions))"

definition popNode :: "node list \<Rightarrow> node" where
  "popNode expressions = (case pop expressions of None \<Rightarrow> UndefinedSlot | Some e \<Rightarrow> e)"

text \<open>
  \<^verbatim>\<open>
  ExpressionStatement: { exit(path) {
    if (t.isSequenceExpression(path.node.expression)) {
      const statements = path.node.expression.expressions.map(expr => t.expressionStatement(expr))
      path.replaceWithMultiple(statements)
      this.changes++
    } } }
  \<close>
  Each callback below is given with the node's children as they stand after the walk,
  and returns what stands at the place of the node and the increment of \<^verbatim>\<open>changes\<close>.
\<close>

definition exitExpressionStatement :: "node \<Rightarrow> placed \<times> nat" where
  "exitExpressionStatement expression =
     (case expression of
        SequenceExpression expressions \<Rightarrow> (Many (map ExpressionStatement expressions), 1)
      | _ \<Rightarrow> (Same (ExpressionStatement expression), 0))"

text \<open>
  \<^verbatim>\<open>
  ReturnStatement: { exit(path) {
    if (t.isSequenceExpression(path.node.argument)) {
      const expressions = path.node.argument.expressions
      path.node.argument = expressions.pop()
      const statements = expressions.map(expr => t.expressionStatement(expr))
      path.insertBefore(statements)
      this.changes++
    }
    else if (t.isUnaryExpression(path.node.argument, { operator: 'void' })
      && t.isSequenceExpression(path.node.argument.argument)) {
      const expressions = path.node.argument.argument.expressions
      const statements = expressions.map(expr => t.expressionStatement(expr))
      path.insertBefore(statements)
      path.node.argument = null
      this.changes++
    } } }
  \<close>
\<close>

definition exitReturnStatement :: "node option \<Rightarrow> placed \<times> nat" where
  "exitReturnStatement argument =
     (case argument of
        Some (SequenceExpression expressions) \<Rightarrow>
          (Many (map ExpressionStatement (butlast expressions) @ [ReturnStatement (pop expressions)]), 1)
      | Some (UnaryExpression operator argument2) \<Rightarrow>
          (case argument2 of
             SequenceExpression expressions \<Rightarrow>
               if operator = ''void''
               then (Many (map ExpressionStatement expressions @ [ReturnStatement None]), 1)
               else (Same (ReturnStatement argument), 0)
           | _ \<Rightarrow> (Same (ReturnStatement argument), 0))
      | _ \<Rightarrow> (Same (ReturnStatement argument), 0))"

text \<open>
  \<^verbatim>\<open>
  IfStatement: { exit(path) {
    if (t.isSequenceExpression(path.node.test)) {
      const expressions = path.node.test.expressions
      path.node.test = expressions.pop()!
      const statements = expressions.map(expr => t.expressionStatement(expr))
      path.insertBefore(statements)
      this.changes++
    } } }
  \<close>
  and the same for the discriminant of a \<^verbatim>\<open>switch\<close>, the argument of a \<^verbatim>\<open>throw\<close> and
  the right side of a \<^verbatim>\<open>for-in\<close>.
\<close>

definition exitIfStatement :: "node \<Rightarrow> node \<Rightarrow> node option \<Rightarrow> placed \<times> nat" where
  "exitIfStatement test consequent alternate =
     (case test of
        SequenceExpression expressions \<Rightarrow>
          (Many (map ExpressionStatement (butlast expressions)
                 @ [IfStatement (popNode expressions) consequent alternate]), 1)
      | _ \<Rightarrow> (Same (IfStatement test consequent alternate), 0))"

definition exitSwitchStatement :: "node \<Rightarrow> node list \<Rightarrow> placed \<times> nat" where
  "exitSwitchStatement discriminant cases =
     (case discriminant of
        SequenceExpression expressions \<Rightarrow>
          (Many (map ExpressionStatement (butlast expressions)
                 @ [SwitchStatement (popNode expressions) cases]), 1)
      | _ \<Rightarrow> (Same (SwitchStatement discriminant cases), 0))"

definition exitThrowStatement :: "node \<Rightarrow> placed \<times> nat" where
  "exitThrowStatement argument =
     (case argument of
        SequenceExpression expressions \<Rightarrow>
          (Many (map ExpressionStatement (butlast expressions)
                 @ [ThrowStatement (popNode expressions)]), 1)
      | _ \<Rightarrow> (Same (ThrowStatement argument), 0))"

definition exitForInStatement :: "node \<Rightarrow> node \<Rightarrow> node \<Rightarrow> placed \<times> nat" where
  "exitForInStatement left right body =
     (case right of
        SequenceExpression expressions \<Rightarrow>
          (Many (map ExpressionStatement (butlast expressions)
                 @ [ForInStatement left (popNode expressions) body]), 1)
      | _ \<Rightarrow> (Same (ForInStatement left right body), 0))"

text \<open>
  \<^verbatim>\<open>
  ForStatement: { exit(path) {
    if (t.isSequenceExpression(path.node.init)) {
      const statements = path.node.init.expressions.map(expr => t.expressionStatement(expr))
      path.insertBefore(statements)
      path.node.init = null
      this.changes++
    }
    if (t.isSequenceExpression(path.node.update) && path.node.body.type === 'EmptyStatement') {
      const expressions = path.node.update.expressions
      path.node.update = expressions.pop()!
      const statements = expressions.map(expr => t.expressionStatement(expr))
      path.node.body = t.blockStatement(statements)
      this.changes++
    } } }
  \<close>
  The result is the statements given to \<^verbatim>\<open>insertBefore\<close> (\<open>None\<close> when it is not
  called), the \<^verbatim>\<open>for\<close> statement afterwards, and the increment of \<^verbatim>\<open>changes\<close>.
\<close>

definition exitForStatement ::
  "node option \<Rightarrow> node option \<Rightarrow> node option \<Rightarrow> node \<Rightarrow> node list option \<times> node \<times> nat" where
  "exitForStatement init test update body =
     (let splitInit = (case init of
                         Some (SequenceExpression expressions) \<Rightarrow>
                           (Some (map ExpressionStatement expressions), None, 1)
                       | _ \<Rightarrow> (None, init, 0));
          splitUpdate = (case update of
                           Some (SequenceExpression expressions) \<Rightarrow>
                             if body = EmptyStatement
                             then (pop expressions,
                                   BlockStatement (map ExpressionStatement (butlast expressions)), 1)
                             else (update, body, 0)
                         | _ \<Rightarrow> (update, body, 0))
      in (fst splitInit,
          ForStatement (fst (snd splitInit)) test (fst splitUpdate) (fst (snd splitUpdate)),
          snd (snd splitInit) + snd (snd splitUpdate)))"

text \<open>
  \<^verbatim>\<open>
  VariableDeclaration: { exit(path) {
    const sequence = m.capture(m.sequenceExpression())
    const matcher = m.variableDeclaration(undefined, [m.variableDeclarator(undefined, sequence)])
    if (matcher.match(path.node)) {
      const expressions = sequence.current!.expressions
      path.node.declarations[0].init = expressions.pop()
      const statements = expressions.map(expr => t.expressionStatement(expr))
      if (path.parentPath.isForStatement() && path.key === 'init')
        path.parentPath.insertBefore(statements)
      else
        path.insertBefore(statements)
      this.changes++
    } } }
  \<close>
  The matcher holds of a declaration with exactly one declarator, whose initialiser is a
  sequence. The result is the statements inserted (\<open>None\<close> when the matcher fails), the
  declaration afterwards, and the increment of \<^verbatim>\<open>changes\<close>; the walk below inserts the
  statements before the declaration, or before the \<^verbatim>\<open>for\<close> statement whose \<^verbatim>\<open>init\<close> the
  declaration is.
\<close>

definition exitVariableDeclaration ::
  "string \<Rightarrow> node list \<Rightarrow> node list option \<times> node \<times> nat" where
  "exitVariableDeclaration kind declarations =
     (case declarations of
        [VariableDeclarator ident (Some (SequenceExpression expressions))] \<Rightarrow>
          (Some (map ExpressionStatement (butlast expressions)),
           VariableDeclaration kind [VariableDeclarator ident (pop expressions)], 1)
      | _ \<Rightarrow> (None, VariableDeclaration kind declarations, 0))"

definition insertedBoth :: "node list option \<Rightarrow> node list option \<Rightarrow> node list option" where
  "insertedBoth first second =
     (case first of
        None \<Rightarrow> second
      | Some a \<Rightarrow> (case second of None \<Rightarrow> Some a | Some b \<Rightarrow> Some (a @ b)))"

text \<open>
  The \<^verbatim>\<open>init\<close> of a \<^verbatim>\<open>for\<close> statement after its walk. A declaration is the one kind of
  \<^verbatim>\<open>init\<close> with a callback, and there the callback gives its statements to the path of
  the \<^verbatim>\<open>for\<close> statement (\<^verbatim>\<open>path.parentPath.insertBefore\<close>): of the statements placed by
  the walk of \<^verbatim>\<open>init\<close> the last is the declaration, which stays in \<^verbatim>\<open>init\<close>, and those
  before it are inserted before the \<^verbatim>\<open>for\<close> statement.
\<close>

definition forInit :: "placed \<Rightarrow> node list option \<times> node" where
  "forInit p = (case p of Same n \<Rightarrow> (None, n) | Many ns \<Rightarrow> (Some (butlast ns), last ns))"

text \<open>
  The \<^verbatim>\<open>for\<close> statement after its children were walked: \<open>hoisted\<close> are the statements
  that the callback of a declaration in \<^verbatim>\<open>init\<close> inserted before the \<^verbatim>\<open>for\<close> statement
  (\<open>None\<close> when it did not run), then the statement's own callback runs.
\<close>

definition walkedFor ::
  "node list option \<Rightarrow> node option \<Rightarrow> node option \<Rightarrow> node option \<Rightarrow> node \<Rightarrow> placed \<times> nat" where
  "walkedFor hoisted init test update body =
     (let exited = exitForStatement init test update body
      in (placeBefore (insertedBoth hoisted (fst exited)) (fst (snd exited)), snd (snd exited)))"

text \<open>
  The walk: the placement of the node and the number of changes counted in its subtree.
  The elements of a child list are spliced in (\<open>inList\<close>), a single child slot takes
  \<open>inSlot\<close>. (A declaration with a sequence initialiser as the left side of a \<^verbatim>\<open>for-in\<close>,
  where the library's \<^verbatim>\<open>insertBefore\<close> raises, is outside the model.)
\<close>

fun seqWalk :: "node \<Rightarrow> placed \<times> nat" where
  "seqWalk (ExpressionStatement e) =
     (fst (exitExpressionStatement (inSlot (fst (seqWalk e)))),
      snd (seqWalk e) + snd (exitExpressionStatement (inSlot (fst (seqWalk e)))))"
| "seqWalk (ReturnStatement a) =
     (fst (exitReturnStatement (map_option (\<lambda>x. inSlot (fst (seqWalk x))) a)),
      (case a of None \<Rightarrow> 0 | Some x \<Rightarrow> snd (seqWalk x))
        + snd (exitReturnStatement (map_option (\<lambda>x. inSlot (fst (seqWalk x))) a)))"
| "seqWalk (IfStatement t c a) =
     (fst (exitIfStatement (inSlot (fst (seqWalk t))) (inSlot (fst (seqWalk c)))
             (map_option (\<lambda>x. inSlot (fst (seqWalk x))) a)),
      snd (seqWalk t) + snd (seqWalk c) + (case a of None \<Rightarrow> 0 | Some x \<Rightarrow> snd (seqWalk x))
        + snd (exitIfStatement (inSlot (fst (seqWalk t))) (inSlot (fst (seqWalk c)))
                 (map_option (\<lambda>x. inSlot (fst (seqWalk x))) a)))"
| "seqWalk (SwitchStatement d cs) =
     (fst (exitSwitchStatement (inSlot (fst (seqWalk d)))
             (concat (map (\<lambda>x. inList (fst (seqWalk x))) cs))),
      snd (seqWalk d) + sum_list (map (\<lambda>x. snd (seqWalk x)) cs)
        + snd (exitSwitchStatement (inSlot (fst (seqWalk d)))
                 (concat (map (\<lambda>x. inList (fst (seqWalk x))) cs))))"
| "seqWalk (ThrowStatement a) =
     (fst (exitThrowStatement (inSlot (fst (seqWalk a)))),
      snd (seqWalk a) + snd (exitThrowStatement (inSlot (fst (seqWalk a)))))"
| "seqWalk (ForInStatement l r b) =
     (fst (exitForInStatement (inSlot (fst (seqWalk l))) (inSlot (fst (seqWalk r)))
             (inSlot (fst (seqWalk b)))),
      snd (seqWalk l) + snd (seqWalk r) + snd (seqWalk b)
        + snd (exitForInStatement (inSlot (fst (seqWalk l))) (inSlot (fst (seqWalk r)))
                 (inSlot (fst (seqWalk b)))))"
| "seqWalk (VariableDeclaration k ds) =
     (placeBefore
        (fst (exitVariableDeclaration k (concat (map (\<lambda>x. inList (fst (seqWalk x))) ds))))
        (fst (snd (exitVariableDeclaration k (concat (map (\<lambda>x. inList (fst (seqWalk x))) ds))))),
      sum_list (map (\<lambda>x. snd (seqWalk x)) ds)
        + snd (snd (exitVariableDeclaration k (concat (map (\<lambda>x. inList (fst (seqWalk x))) ds)))))"
| "seqWalk (ForStatement i t u b) =
     (let exited = walkedFor
                     (case i of None \<Rightarrow> None | Some x \<Rightarrow> fst (forInit (fst (seqWalk x))))
                     (map_option (\<lambda>x. snd (forInit (fst (seqWalk x)))) i)
                     (map_option (\<lambda>x. inSlot (fst (seqWalk x))) t)
                     (map_option (\<lambda>x. inSlot (fst (seqWalk x))) u)
                     (inSlot (fst (seqWalk b)))
      in (fst exited,
          (case i of None \<Rightarrow> 0 | Some x \<Rightarrow> snd (seqWalk x))
            + (case t of None \<Rightarrow> 0 | Some x \<Rightarrow> snd (seqWalk x))
            + (case u of None \<Rightarrow> 0 | Some x \<Rightarrow> snd (seqWalk x))
            + snd (seqWalk b) + snd exited))"
| "seqWalk (Identifier x) =
     (Same (Identifier x),
      0)"
| "seqWalk (StringLiteral s) =
     (Same (StringLiteral s),
      0)"
| "seqWalk (NumericLiteral v) =
     (Same (NumericLiteral v),
      0)"
| "seqWalk (BooleanLiteral b) =
     (Same (BooleanLiteral b),
      0)"
| "seqWalk NullLiteral =
     (Same (NullLiteral),
      0)"
| "seqWalk (RegExpLiteral p f) =
     (Same (RegExpLiteral p f),
      0)"
| "seqWalk (ArrayExpression es) =
     (Same (ArrayExpression (concat (map (\<lambda>x. inList (fst (seqWalk x))) es))),
      sum_list (map (\<lambda>x. snd (seqWalk x)) es))"
| "seqWalk (UnaryExpression op a) =
     (Same (UnaryExpression op (inSlot (fst (seqWalk a)))),
      snd (seqWalk a))"
| "seqWalk (BinaryExpression op l r) =
     (Same (BinaryExpression op (inSlot (fst (seqWalk l))) (inSlot (fst (seqWalk r)))),
      snd (seqWalk l) + snd (seqWalk r))"
| "seqWalk (AssignmentExpression op l r) =
     (Same (AssignmentExpression op (inSlot (fst (seqWalk l))) (inSlot (fst (seqWalk r)))),
      snd (seqWalk l) + snd (seqWalk r))"
| "seqWalk (UpdateExpression op pre a) =
     (Same (UpdateExpression op pre (inSlot (fst (seqWalk a)))),
      snd (seqWalk a))"
| "seqWalk (ConditionalExpression t c a) =
     (Same (ConditionalExpression (inSlot (fst (seqWalk t))) (inSlot (fst (seqWalk c))) (inSlot (fst (seqWalk a)))),
      snd (seqWalk t) + snd (seqWalk c) + snd (seqWalk a))"
| "seqWalk (SequenceExpression es) =
     (Same (SequenceExpression (concat (map (\<lambda>x. inList (fst (seqWalk x))) es))),
      sum_list (map (\<lambda>x. snd (seqWalk x)) es))"
| "seqWalk (CallExpression c as cs) =
     (Same (CallExpression (inSlot (fst (seqWalk c))) (concat (map (\<lambda>x. inList (fst (seqWalk x))) as)) cs),
      snd (seqWalk c) + sum_list (map (\<lambda>x. snd (seqWalk x)) as))"
| "seqWalk (MemberExpression ob p c) =
     (Same (MemberExpression (inSlot (fst (seqWalk ob))) (inSlot (fst (seqWalk p))) c),
      snd (seqWalk ob) + snd (seqWalk p))"
| "seqWalk (FunctionExpression fid ps body) =
     (Same (FunctionExpression fid (concat (map (\<lambda>x. inList (fst (seqWalk x))) ps)) (inSlot (fst (seqWalk body)))),
      sum_list (map (\<lambda>x. snd (seqWalk x)) ps) + snd (seqWalk body))"
| "seqWalk (BlockStatement ss) =
     (Same (BlockStatement (concat (map (\<lambda>x. inList (fst (seqWalk x))) ss))),
      sum_list (map (\<lambda>x. snd (seqWalk x)) ss))"
| "seqWalk EmptyStatement =
     (Same (EmptyStatement),
      0)"
| "seqWalk BreakStatement =
     (Same (BreakStatement),
      0)"
| "seqWalk ContinueStatement =
     (Same (ContinueStatement),
      0)"
| "seqWalk (SwitchCase t ss) =
     (Same (SwitchCase (map_option (\<lambda>x. inSlot (fst (seqWalk x))) t) (concat (map (\<lambda>x. inList (fst (seqWalk x))) ss))),
      (case t of None \<Rightarrow> 0 | Some x \<Rightarrow> snd (seqWalk x)) + sum_list (map (\<lambda>x. snd (seqWalk x)) ss))"
| "seqWalk (WhileStatement t b) =
     (Same (WhileStatement (inSlot (fst (seqWalk t))) (inSlot (fst (seqWalk b)))),
      snd (seqWalk t) + snd (seqWalk b))"
| "seqWalk (VariableDeclarator i init) =
     (Same (VariableDeclarator (inSlot (fst (seqWalk i))) (map_option (\<lambda>x. inSlot (fst (seqWalk x))) init)),
      snd (seqWalk i) + (case init of None \<Rightarrow> 0 | Some x \<Rightarrow> snd (seqWalk x)))"
| "seqWalk (FunctionDeclaration name ps body) =
     (Same (FunctionDeclaration name (concat (map (\<lambda>x. inList (fst (seqWalk x))) ps)) (inSlot (fst (seqWalk body)))),
      sum_list (map (\<lambda>x. snd (seqWalk x)) ps) + snd (seqWalk body))"
| "seqWalk (Program ss) =
     (Same (Program (concat (map (\<lambda>x. inList (fst (seqWalk x))) ss))),
      sum_list (map (\<lambda>x. snd (seqWalk x)) ss))"
| "seqWalk UndefinedSlot =
     (Same (UndefinedSlot),
      0)"

text \<open>
  The transform applied once to a tree (\<^verbatim>\<open>applyTransform(ast, sequence)\<close>): the tree
  afterwards and the count of changes.
\<close>

definition sequence :: "node \<Rightarrow> node \<times> nat" where
  "sequence ast = (inSlot (fst (seqWalk ast)), snd (seqWalk ast))"

text \<open>A node that the walk leaves as it is, counting no change.\<close>

definition settled :: "node \<Rightarrow> bool" where
  "settled n = (seqWalk n = (Same n, 0))"

section \<open>Unreachable branches: \<^verbatim>\<open>removeUnusedBlock\<close>\<close>

text \<open>
  \<^verbatim>\<open>path.get('test').evaluateTruthy()\<close> is the library's
  \<^verbatim>\<open>const res = this.evaluate(); if (res.confident) return !!res.value\<close>: it returns
  \<^verbatim>\<open>undefined\<close> when the evaluator is not confident, and the \<^verbatim>\<open>if\<close> of the source
  takes \<^verbatim>\<open>undefined\<close> as false. The evaluator is the parameter \<open>evaluate\<close>.
\<close>

definition evaluateTruthy :: "(node \<Rightarrow> jsvalue option) \<Rightarrow> node \<Rightarrow> bool" where
  "evaluateTruthy evaluate test = (case evaluate test of Some v \<Rightarrow> truthy v | None \<Rightarrow> False)"

text \<open>
  \<^verbatim>\<open>
  function rename(localScope) {
    if (localScope === scope) return
    for (const name in localScope.bindings) {
      if (scope.hasBinding(name)) {
        const newName = scope.generateUid(name)
        localScope.bindings[name].referencePaths.forEach((ref) => {
          if (ref.scope.hasBinding(newName)) ref.scope.rename(newName)
        })
        localScope.bindings[name].identifier.name = newName
      }
    }
  }
  \<close>
  \<open>hasBinding\<close> (does the scope of the \<^verbatim>\<open>if\<close> statement, or one around it, bind the
  name) and \<open>generateUid\<close> are parameters: they are the library's. The scope of a branch
  that is a block is the block's own: its bindings are the names declared with
  \<^verbatim>\<open>let\<close> or \<^verbatim>\<open>const\<close> and the functions declared in the statements of the block. A
  branch that opens no scope has the scope of the \<^verbatim>\<open>if\<close> statement, and \<open>rename\<close> returns
  at once; a branch that opens a scope without being a block (a loop, a function
  expression) is outside the model. The generated name is bound nowhere, so the loop over
  the reference paths finds no binding of the new name and does nothing: the one effect of
  \<open>rename\<close> is the assignment to the name of the declaring identifier.
\<close>

definition renameDeclarator :: "(string \<Rightarrow> bool) \<Rightarrow> (string \<Rightarrow> string) \<Rightarrow> node \<Rightarrow> node" where
  "renameDeclarator hasBinding generateUid d =
     (case d of
        VariableDeclarator ident init \<Rightarrow>
          (case ident of
             Identifier name \<Rightarrow>
               if hasBinding name then VariableDeclarator (Identifier (generateUid name)) init
               else d
           | _ \<Rightarrow> d)
      | _ \<Rightarrow> d)"

definition renameDeclared :: "(string \<Rightarrow> bool) \<Rightarrow> (string \<Rightarrow> string) \<Rightarrow> node \<Rightarrow> node" where
  "renameDeclared hasBinding generateUid s =
     (case s of
        VariableDeclaration kind declarations \<Rightarrow>
          if kind = ''let'' \<or> kind = ''const''
          then VariableDeclaration kind (map (renameDeclarator hasBinding generateUid) declarations)
          else s
      | FunctionDeclaration name params body \<Rightarrow>
          if hasBinding name then FunctionDeclaration (generateUid name) params body else s
      | _ \<Rightarrow> s)"

definition rename :: "(string \<Rightarrow> bool) \<Rightarrow> (string \<Rightarrow> string) \<Rightarrow> node \<Rightarrow> node" where
  "rename hasBinding generateUid branch =
     (case branch of
        BlockStatement body \<Rightarrow> BlockStatement (map (renameDeclared hasBinding generateUid) body)
      | _ \<Rightarrow> branch)"

text \<open>
  \<^verbatim>\<open>
  function replace(path, node) {
    if (t.isBlockStatement(node)) path.replaceWithMultiple(node.body)
    else path.replaceWith(node)
  }
  const process = function (path) {
    const { consequent, alternate } = path.node
    const { scope } = path
    ...
    if (path.get('test').evaluateTruthy()) {
      rename(path.get('consequent').scope)
      replace(path, consequent)
    }
    else if (path.node.alternate) {
      rename(path.get('alternate').scope)
      replace(path, alternate)
    }
    else { path.remove() }
  }
  \<close>
  \<open>Many []\<close> is the removed node: nothing stands at its place.
\<close>

definition replace :: "node \<Rightarrow> placed" where
  "replace n = (case n of BlockStatement body \<Rightarrow> Many body | _ \<Rightarrow> Same n)"

definition process ::
  "(node \<Rightarrow> jsvalue option) \<Rightarrow> (string \<Rightarrow> bool) \<Rightarrow> (string \<Rightarrow> string)
     \<Rightarrow> node \<Rightarrow> node \<Rightarrow> node option \<Rightarrow> placed" where
  "process evaluate hasBinding generateUid test consequent alternate =
     (if evaluateTruthy evaluate test then replace (rename hasBinding generateUid consequent)
      else (case alternate of
              Some alt \<Rightarrow> replace (rename hasBinding generateUid alt)
            | None \<Rightarrow> Many []))"

text \<open>
  The walk, with \<^verbatim>\<open>process\<close> on exit from every \<open>IfStatement\<close> and
  \<open>ConditionalExpression\<close>. The library removes a statement that fills the \<^verbatim>\<open>alternate\<close>
  slot by emptying the slot, and one that fills the consequent of an \<^verbatim>\<open>if\<close> or the body
  of a loop by leaving an empty block (\<open>inSlot\<close>).
\<close>

definition inAlternate :: "placed \<Rightarrow> node option" where
  "inAlternate p = (case p of Many [] \<Rightarrow> None | _ \<Rightarrow> Some (inSlot p))"

fun rubWalk ::
  "(node \<Rightarrow> jsvalue option) \<Rightarrow> (string \<Rightarrow> bool) \<Rightarrow> (string \<Rightarrow> string) \<Rightarrow> node \<Rightarrow> placed" where
  "rubWalk ev hb uid (IfStatement t c a) =
     process ev hb uid (inSlot (rubWalk ev hb uid t)) (inSlot (rubWalk ev hb uid c))
       (case a of None \<Rightarrow> None | Some x \<Rightarrow> inAlternate (rubWalk ev hb uid x))"
| "rubWalk ev hb uid (ConditionalExpression t c a) =
     process ev hb uid (inSlot (rubWalk ev hb uid t)) (inSlot (rubWalk ev hb uid c))
       (Some (inSlot (rubWalk ev hb uid a)))"
| "rubWalk ev hb uid (Identifier x) =
     Same (Identifier x)"
| "rubWalk ev hb uid (StringLiteral s) =
     Same (StringLiteral s)"
| "rubWalk ev hb uid (NumericLiteral v) =
     Same (NumericLiteral v)"
| "rubWalk ev hb uid (BooleanLiteral b) =
     Same (BooleanLiteral b)"
| "rubWalk ev hb uid NullLiteral =
     Same (NullLiteral)"
| "rubWalk ev hb uid (RegExpLiteral p f) =
     Same (RegExpLiteral p f)"
| "rubWalk ev hb uid (ArrayExpression es) =
     Same (ArrayExpression (concat (map (\<lambda>x. inList (rubWalk ev hb uid x)) es)))"
| "rubWalk ev hb uid (UnaryExpression op a) =
     Same (UnaryExpression op (inSlot (rubWalk ev hb uid a)))"
| "rubWalk ev hb uid (BinaryExpression op l r) =
     Same (BinaryExpression op (inSlot (rubWalk ev hb uid l)) (inSlot (rubWalk ev hb uid r)))"
| "rubWalk ev hb uid (AssignmentExpression op l r) =
     Same (AssignmentExpression op (inSlot (rubWalk ev hb uid l)) (inSlot (rubWalk ev hb uid r)))"
| "rubWalk ev hb uid (UpdateExpression op pre a) =
     Same (UpdateExpression op pre (inSlot (rubWalk ev hb uid a)))"
| "rubWalk ev hb uid (SequenceExpression es) =
     Same (SequenceExpression (concat (map (\<lambda>x. inList (rubWalk ev hb uid x)) es)))"
| "rubWalk ev hb uid (CallExpression c as cs) =
     Same (CallExpression
          (inSlot (rubWalk ev hb uid c))
          (concat (map (\<lambda>x. inList (rubWalk ev hb uid x)) as))
          cs)"
| "rubWalk ev hb uid (MemberExpression ob p c) =
     Same (MemberExpression (inSlot (rubWalk ev hb uid ob)) (inSlot (rubWalk ev hb uid p)) c)"
| "rubWalk ev hb uid (FunctionExpression fid ps body) =
     Same (FunctionExpression
          fid
          (concat (map (\<lambda>x. inList (rubWalk ev hb uid x)) ps))
          (inSlot (rubWalk ev hb uid body)))"
| "rubWalk ev hb uid (ExpressionStatement e) =
     Same (ExpressionStatement (inSlot (rubWalk ev hb uid e)))"
| "rubWalk ev hb uid (BlockStatement ss) =
     Same (BlockStatement (concat (map (\<lambda>x. inList (rubWalk ev hb uid x)) ss)))"
| "rubWalk ev hb uid EmptyStatement =
     Same (EmptyStatement)"
| "rubWalk ev hb uid (ReturnStatement a) =
     Same (ReturnStatement (map_option (\<lambda>x. inSlot (rubWalk ev hb uid x)) a))"
| "rubWalk ev hb uid (ThrowStatement a) =
     Same (ThrowStatement (inSlot (rubWalk ev hb uid a)))"
| "rubWalk ev hb uid BreakStatement =
     Same (BreakStatement)"
| "rubWalk ev hb uid ContinueStatement =
     Same (ContinueStatement)"
| "rubWalk ev hb uid (SwitchStatement d cs) =
     Same (SwitchStatement
          (inSlot (rubWalk ev hb uid d))
          (concat (map (\<lambda>x. inList (rubWalk ev hb uid x)) cs)))"
| "rubWalk ev hb uid (SwitchCase t ss) =
     Same (SwitchCase
          (map_option (\<lambda>x. inSlot (rubWalk ev hb uid x)) t)
          (concat (map (\<lambda>x. inList (rubWalk ev hb uid x)) ss)))"
| "rubWalk ev hb uid (WhileStatement t b) =
     Same (WhileStatement (inSlot (rubWalk ev hb uid t)) (inSlot (rubWalk ev hb uid b)))"
| "rubWalk ev hb uid (ForStatement i t u b) =
     Same (ForStatement
          (map_option (\<lambda>x. inSlot (rubWalk ev hb uid x)) i)
          (map_option (\<lambda>x. inSlot (rubWalk ev hb uid x)) t)
          (map_option (\<lambda>x. inSlot (rubWalk ev hb uid x)) u)
          (inSlot (rubWalk ev hb uid b)))"
| "rubWalk ev hb uid (ForInStatement l r b) =
     Same (ForInStatement
          (inSlot (rubWalk ev hb uid l))
          (inSlot (rubWalk ev hb uid r))
          (inSlot (rubWalk ev hb uid b)))"
| "rubWalk ev hb uid (VariableDeclaration k ds) =
     Same (VariableDeclaration k (concat (map (\<lambda>x. inList (rubWalk ev hb uid x)) ds)))"
| "rubWalk ev hb uid (VariableDeclarator i init) =
     Same (VariableDeclarator
          (inSlot (rubWalk ev hb uid i))
          (map_option (\<lambda>x. inSlot (rubWalk ev hb uid x)) init))"
| "rubWalk ev hb uid (FunctionDeclaration name ps body) =
     Same (FunctionDeclaration
          name
          (concat (map (\<lambda>x. inList (rubWalk ev hb uid x)) ps))
          (inSlot (rubWalk ev hb uid body)))"
| "rubWalk ev hb uid (Program ss) =
     Same (Program (concat (map (\<lambda>x. inList (rubWalk ev hb uid x)) ss)))"
| "rubWalk ev hb uid UndefinedSlot =
     Same (UndefinedSlot)"

definition removeUnusedBlock ::
  "(node \<Rightarrow> jsvalue option) \<Rightarrow> (string \<Rightarrow> bool) \<Rightarrow> (string \<Rightarrow> string) \<Rightarrow> node \<Rightarrow> node" where
  "removeUnusedBlock evaluate hasBinding generateUid ast =
     inSlot (rubWalk evaluate hasBinding generateUid ast)"

text \<open>Name generation for the examples: the name with an underscore in front.\<close>

definition example_uid :: "string \<Rightarrow> string" where
  "example_uid name = ''_'' @ name"

section \<open>Paths and bindings\<close>

text \<open>
  A path of the traversal library is a cursor to a node: the chain of its parents and its
  key in the parent. In the model a path is the address of the node in the tree, the
  list of child indices from the root, where \<open>children\<close> lists the children of a node in
  slot order (an empty optional slot holds no child). The library keeps the keys of the
  paths it has handed out up to date when a sibling is removed; \<open>shift\<close> below does the
  same to an address.
\<close>

type_synonym path = "nat list"

fun optList :: "'a option \<Rightarrow> 'a list" where
  "optList None = []"
| "optList (Some x) = [x]"

fun children :: "node \<Rightarrow> node list" where
  "children (Identifier x) = []"
| "children (StringLiteral s) = []"
| "children (NumericLiteral v) = []"
| "children (BooleanLiteral b) = []"
| "children NullLiteral = []"
| "children (RegExpLiteral p f) = []"
| "children (ArrayExpression es) = es"
| "children (UnaryExpression op a) = [a]"
| "children (BinaryExpression op l r) = [l] @ [r]"
| "children (AssignmentExpression op l r) = [l] @ [r]"
| "children (UpdateExpression op pre a) = [a]"
| "children (ConditionalExpression t c a) = [t] @ [c] @ [a]"
| "children (SequenceExpression es) = es"
| "children (CallExpression c as cs) = [c] @ as"
| "children (MemberExpression ob p c) = [ob] @ [p]"
| "children (FunctionExpression fid ps body) = ps @ [body]"
| "children (ExpressionStatement e) = [e]"
| "children (BlockStatement ss) = ss"
| "children EmptyStatement = []"
| "children (IfStatement t c a) = [t] @ [c] @ optList a"
| "children (ReturnStatement a) = optList a"
| "children (ThrowStatement a) = [a]"
| "children BreakStatement = []"
| "children ContinueStatement = []"
| "children (SwitchStatement d cs) = [d] @ cs"
| "children (SwitchCase t ss) = optList t @ ss"
| "children (WhileStatement t b) = [t] @ [b]"
| "children (ForStatement i t u b) = optList i @ optList t @ optList u @ [b]"
| "children (ForInStatement l r b) = [l] @ [r] @ [b]"
| "children (VariableDeclaration k ds) = ds"
| "children (VariableDeclarator i init) = [i] @ optList init"
| "children (FunctionDeclaration name ps body) = ps @ [body]"
| "children (Program ss) = ss"
| "children UndefinedSlot = []"

text \<open>
  \<open>rebuild n xs\<close> is the node \<open>n\<close> with the children \<open>xs\<close> in its slots, given as many
  children as \<open>n\<close> has.
\<close>

definition reopt :: "node option \<Rightarrow> node list \<Rightarrow> nat \<Rightarrow> node option" where
  "reopt slot xs k = (case slot of None \<Rightarrow> None | Some _ \<Rightarrow> Some (xs ! k))"

fun rebuild :: "node \<Rightarrow> node list \<Rightarrow> node" where
  "rebuild (ArrayExpression es) xs = ArrayExpression xs"
| "rebuild (UnaryExpression op a) xs = UnaryExpression op (xs ! 0)"
| "rebuild (BinaryExpression op l r) xs = BinaryExpression op (xs ! 0) (xs ! 1)"
| "rebuild (AssignmentExpression op l r) xs = AssignmentExpression op (xs ! 0) (xs ! 1)"
| "rebuild (UpdateExpression op pre a) xs = UpdateExpression op pre (xs ! 0)"
| "rebuild (ConditionalExpression t c a) xs = ConditionalExpression (xs ! 0) (xs ! 1) (xs ! 2)"
| "rebuild (SequenceExpression es) xs = SequenceExpression xs"
| "rebuild (CallExpression c as cs) xs = CallExpression (xs ! 0) (drop 1 xs) cs"
| "rebuild (MemberExpression ob p c) xs = MemberExpression (xs ! 0) (xs ! 1) c"
| "rebuild (FunctionExpression fid ps body) xs =
     FunctionExpression fid (take (length ps) xs) (xs ! length ps)"
| "rebuild (ExpressionStatement e) xs = ExpressionStatement (xs ! 0)"
| "rebuild (BlockStatement ss) xs = BlockStatement xs"
| "rebuild (IfStatement t c a) xs = IfStatement (xs ! 0) (xs ! 1) (reopt a xs 2)"
| "rebuild (ReturnStatement a) xs = ReturnStatement (reopt a xs 0)"
| "rebuild (ThrowStatement a) xs = ThrowStatement (xs ! 0)"
| "rebuild (SwitchStatement d cs) xs = SwitchStatement (xs ! 0) (drop 1 xs)"
| "rebuild (SwitchCase t ss) xs = SwitchCase (reopt t xs 0) (drop (length (optList t)) xs)"
| "rebuild (WhileStatement t b) xs = WhileStatement (xs ! 0) (xs ! 1)"
| "rebuild (ForStatement i t u b) xs =
     ForStatement (reopt i xs 0) (reopt t xs (length (optList i)))
       (reopt u xs (length (optList i) + length (optList t)))
       (xs ! (length (optList i) + length (optList t) + length (optList u)))"
| "rebuild (ForInStatement l r b) xs = ForInStatement (xs ! 0) (xs ! 1) (xs ! 2)"
| "rebuild (VariableDeclaration k ds) xs = VariableDeclaration k xs"
| "rebuild (VariableDeclarator i init) xs = VariableDeclarator (xs ! 0) (reopt init xs 1)"
| "rebuild (FunctionDeclaration name ps body) xs =
     FunctionDeclaration name (take (length ps) xs) (xs ! length ps)"
| "rebuild (Program ss) xs = Program xs"
| "rebuild n xs = n"

text \<open>The node at an address, and the tree with another node at an address.\<close>

fun getAt :: "node \<Rightarrow> path \<Rightarrow> node option" where
  "getAt n [] = Some n"
| "getAt n (i # p) = (if i < length (children n) then getAt (children n ! i) p else None)"

fun replaceAt :: "path \<Rightarrow> node \<Rightarrow> node \<Rightarrow> node" where
  "replaceAt [] v n = v"
| "replaceAt (i # p) v n =
     (if i < length (children n)
      then rebuild n ((children n)[i := replaceAt p v (children n ! i)])
      else n)"

text \<open>
  \<^verbatim>\<open>path.find(test)\<close> is the nearest node, from the path itself upwards, of which the test
  holds; \<^verbatim>\<open>path.findParent(test)\<close> starts from the parent.
\<close>

fun findUp :: "(node \<Rightarrow> bool) \<Rightarrow> node \<Rightarrow> path \<Rightarrow> path option" where
  "findUp test ast p =
     (if (case getAt ast p of Some n \<Rightarrow> test n | None \<Rightarrow> False) then Some p
      else if p = [] then None
      else findUp test ast (butlast p))"

declare findUp.simps [simp del]

definition findParent :: "(node \<Rightarrow> bool) \<Rightarrow> node \<Rightarrow> path \<Rightarrow> path option" where
  "findParent test ast p = (if p = [] then None else findUp test ast (butlast p))"

text \<open>
  A binding of the library's scope analysis, with the fields the passes read (\<open>isConstant\<close> is
  the field \<^verbatim>\<open>constant\<close>). The scope
  analysis is the library's: the passes are modelled with the lookup
  \<^verbatim>\<open>path.scope.getBinding(name)\<close> as a parameter \<open>getBinding\<close>.
\<close>

record binding =
  isConstant :: bool
  constantViolations :: "path list"
  referencePaths :: "path list"
  bindingPath :: path

section \<open>Failures\<close>

text \<open>
  Reading a property of \<^verbatim>\<open>null\<close> or \<^verbatim>\<open>undefined\<close> raises a \<^verbatim>\<open>TypeError\<close>, which
  none of the passes catches: the pass ends with it.
\<close>

datatype failure = TypeError

section \<open>Removing a node\<close>

text \<open>
  \<^verbatim>\<open>path.remove()\<close> of the traversal library. A node that is an element of a child list
  is taken out of the list, and the keys of the siblings after it go down by one; a node
  that fills a single slot leaves \<^verbatim>\<open>null\<close> in the slot. Before that the library's removal
  hooks run: the parent is removed instead when the node is the last declarator of a
  declaration, the expression of an expression statement, or the test of a \<^verbatim>\<open>while\<close> or
  of a case; a binary expression is replaced by its other operand; a sequence of one
  expression is replaced by that expression; the consequent of an \<^verbatim>\<open>if\<close> and the body of
  a loop are replaced by an empty block.

  \<open>removeChild parent i\<close> is the removal of the child with index \<open>i\<close> seen from the
  parent: \<open>Shrunk n\<close> when the parent, now \<open>n\<close>, has one child less (the children after
  index \<open>i\<close> moved down), \<open>Filled n\<close> when \<open>n\<close> stands at the place of the parent with no
  child moved, \<open>Escalate\<close> when the parent is to be removed instead. A mandatory slot that
  is left \<^verbatim>\<open>null\<close> holds \<open>UndefinedSlot\<close>.
\<close>

datatype removal = Shrunk node | Filled node | Escalate

definition del :: "nat \<Rightarrow> 'a list \<Rightarrow> 'a list" where
  "del i xs = take i xs @ drop (Suc i) xs"

fun removeChild :: "node \<Rightarrow> nat \<Rightarrow> removal" where
  "removeChild (VariableDeclaration k ds) i =
     (if length ds = 1 then Escalate else Shrunk (VariableDeclaration k (del i ds)))"
| "removeChild (ExpressionStatement e) i = Escalate"
| "removeChild (WhileStatement t b) i =
     (if i = 0 then Escalate else Filled (WhileStatement t (BlockStatement [])))"
| "removeChild (SwitchCase t ss) i =
     (if i < length (optList t) then Escalate
      else Shrunk (SwitchCase t (del (i - length (optList t)) ss)))"
| "removeChild (SequenceExpression es) i =
     (if length es = 1 then Filled (es ! 0) else Shrunk (SequenceExpression (del i es)))"
| "removeChild (BinaryExpression op l r) i = (if i = 0 then Filled r else Filled l)"
| "removeChild (IfStatement t c a) i =
     (if i = 0 then Filled (IfStatement UndefinedSlot c a)
      else if i = 1 then Filled (IfStatement t (BlockStatement []) a)
      else Shrunk (IfStatement t c None))"
| "removeChild (ForStatement init t u b) i =
     (if i < length (optList init) then Shrunk (ForStatement None t u b)
      else if i < length (optList init) + length (optList t) then Shrunk (ForStatement init None u b)
      else if i < length (optList init) + length (optList t) + length (optList u)
        then Shrunk (ForStatement init t None b)
      else Filled (ForStatement init t u (BlockStatement [])))"
| "removeChild (ForInStatement l r b) i =
     (if i = 0 then Filled (ForInStatement UndefinedSlot r b)
      else if i = 1 then Filled (ForInStatement l UndefinedSlot b)
      else Filled (ForInStatement l r (BlockStatement [])))"
| "removeChild (Program ss) i = Shrunk (Program (del i ss))"
| "removeChild (BlockStatement ss) i = Shrunk (BlockStatement (del i ss))"
| "removeChild (ArrayExpression es) i = Shrunk (ArrayExpression (del i es))"
| "removeChild (CallExpression c as cs) i =
     (if i = 0 then Filled (CallExpression UndefinedSlot as cs)
      else Shrunk (CallExpression c (del (i - 1) as) cs))"
| "removeChild (SwitchStatement d cs) i =
     (if i = 0 then Filled (SwitchStatement UndefinedSlot cs)
      else Shrunk (SwitchStatement d (del (i - 1) cs)))"
| "removeChild (FunctionExpression fid ps body) i =
     (if i < length ps then Shrunk (FunctionExpression fid (del i ps) body)
      else Filled (FunctionExpression fid ps UndefinedSlot))"
| "removeChild (FunctionDeclaration name ps body) i =
     (if i < length ps then Shrunk (FunctionDeclaration name (del i ps) body)
      else Filled (FunctionDeclaration name ps UndefinedSlot))"
| "removeChild (ReturnStatement a) i = Shrunk (ReturnStatement None)"
| "removeChild (VariableDeclarator ident init) i =
     (if i = 0 then Filled (VariableDeclarator UndefinedSlot init)
      else Shrunk (VariableDeclarator ident None))"
| "removeChild (UnaryExpression op a) i = Filled (UnaryExpression op UndefinedSlot)"
| "removeChild (UpdateExpression op pre a) i = Filled (UpdateExpression op pre UndefinedSlot)"
| "removeChild (ThrowStatement a) i = Filled (ThrowStatement UndefinedSlot)"
| "removeChild (AssignmentExpression op l r) i =
     (if i = 0 then Filled (AssignmentExpression op UndefinedSlot r)
      else Filled (AssignmentExpression op l UndefinedSlot))"
| "removeChild (MemberExpression ob p c) i =
     (if i = 0 then Filled (MemberExpression UndefinedSlot p c)
      else Filled (MemberExpression ob UndefinedSlot c))"
| "removeChild (ConditionalExpression t c a) i =
     (if i = 0 then Filled (ConditionalExpression UndefinedSlot c a)
      else if i = 1 then Filled (ConditionalExpression t UndefinedSlot a)
      else Filled (ConditionalExpression t c UndefinedSlot))"
| "removeChild n i = Filled n"

text \<open>
  The tree after the removal of the node at an address, and the address at which a child
  was taken out of its parent's children (\<open>None\<close> when no child moved). The root is not
  removed.
\<close>

fun removeAt :: "node \<Rightarrow> path \<Rightarrow> node \<times> path option" where
  "removeAt ast [] = (ast, None)"
| "removeAt ast (i # p) =
     (case getAt ast (butlast (i # p)) of
        None \<Rightarrow> (ast, None)
      | Some parent \<Rightarrow>
          (case removeChild parent (last (i # p)) of
             Shrunk n \<Rightarrow> (replaceAt (butlast (i # p)) n ast, Some (i # p))
           | Filled n \<Rightarrow> (replaceAt (butlast (i # p)) n ast, None)
           | Escalate \<Rightarrow> removeAt ast (butlast (i # p))))"

text \<open>
  The address \<open>q\<close> of a node after the child at address \<open>g\<close> was taken out: a node of the
  same parent with a larger index, or a node below one, moves down by one; \<open>below g q\<close>
  says that \<open>q\<close> is the removed node or lies in its subtree.
\<close>

definition below :: "path \<Rightarrow> path \<Rightarrow> bool" where
  "below g q = (take (length g) q = g)"

definition shift :: "path \<Rightarrow> path \<Rightarrow> path" where
  "shift g q =
     (if g \<noteq> [] \<and> length g \<le> length q \<and> take (length g - 1) q = butlast g
         \<and> last g < q ! (length g - 1)
      then take (length g - 1) q @ [q ! (length g - 1) - 1] @ drop (length g) q
      else q)"

definition shiftBinding :: "path \<Rightarrow> binding \<Rightarrow> binding" where
  "shiftBinding g b =
     b\<lparr>constantViolations := map (shift g) (constantViolations b),
       referencePaths := map (shift g) (referencePaths b),
       bindingPath := shift g (bindingPath b)\<rparr>"

text \<open>
  After a removal that may have taken a child out (\<open>g\<close> is its address then): an
  address, the addresses still to visit (those below \<open>g\<close> are gone with the node), and
  the scope.
\<close>

definition shiftBy :: "path option \<Rightarrow> path \<Rightarrow> path" where
  "shiftBy g q = (case g of None \<Rightarrow> q | Some a \<Rightarrow> shift a q)"

definition after :: "path option \<Rightarrow> path list \<Rightarrow> path list" where
  "after g ps =
     (case g of None \<Rightarrow> ps | Some a \<Rightarrow> map (shift a) (filter (\<lambda>q. \<not> below a q) ps))"

definition scopeAfter ::
  "path option \<Rightarrow> (string \<Rightarrow> binding option) \<Rightarrow> string \<Rightarrow> binding option" where
  "scopeAfter g getBinding =
     (case g of
        None \<Rightarrow> getBinding
      | Some a \<Rightarrow> (\<lambda>name. map_option (shiftBinding a) (getBinding name)))"

lemma length_after: "length (after g ps) < Suc (length ps)"
  by (cases g) (simp_all add: after_def less_Suc_eq_le)

text \<open>
  The order of the walk: \<open>preorder n\<close> lists the addresses of the nodes of \<open>n\<close>, a node
  before its children and the children in slot order, as the traversal library visits
  them.
\<close>

function preorder :: "node \<Rightarrow> path list" and preorderFrom :: "nat \<Rightarrow> node list \<Rightarrow> path list" where
  "preorder n = [] # preorderFrom 0 (children n)"
| "preorderFrom i [] = []"
| "preorderFrom i (c # cs) = map ((#) i) (preorder c) @ preorderFrom (Suc i) cs"
  by pat_completeness auto
lemma weight_list: "(\<Sum>c\<leftarrow>cs. Suc (Suc (9 * size c))) \<le> 9 * size_list size cs"
  by (induction cs) auto

lemma weight_option: "(\<Sum>c\<leftarrow>optList a. Suc (Suc (9 * size c))) \<le> 9 * size_option size a"
  by (cases a) auto

lemma weight_children: "(\<Sum>c\<leftarrow>children n. Suc (Suc (9 * size c))) < Suc (9 * size n)"
proof (cases n)
  case (ArrayExpression es)
  thus ?thesis using weight_list [of es] by simp
next
  case (SequenceExpression es)
  thus ?thesis using weight_list [of es] by simp
next
  case (CallExpression c as cs)
  thus ?thesis using weight_list [of as] by simp
next
  case (FunctionExpression fid ps body)
  thus ?thesis using weight_list [of ps] by simp
next
  case (BlockStatement ss)
  thus ?thesis using weight_list [of ss] by simp
next
  case (IfStatement t c a)
  thus ?thesis using weight_option [of a] by simp
next
  case (ReturnStatement a)
  thus ?thesis using weight_option [of a] by simp
next
  case (SwitchStatement d cs)
  thus ?thesis using weight_list [of cs] by simp
next
  case (SwitchCase t ss)
  thus ?thesis using weight_list [of ss] weight_option [of t] by simp
next
  case (ForStatement i t u b)
  thus ?thesis using weight_option [of i] weight_option [of t] weight_option [of u] by simp
next
  case (VariableDeclaration k ds)
  thus ?thesis using weight_list [of ds] by simp
next
  case (VariableDeclarator i init)
  thus ?thesis using weight_option [of init] by simp
next
  case (FunctionDeclaration name ps body)
  thus ?thesis using weight_list [of ps] by simp
next
  case (Program ss)
  thus ?thesis using weight_list [of ss] by simp
qed simp_all

termination preorder
  by (relation "measure (\<lambda>x. case x of Inl n \<Rightarrow> 9 * size n + 1
                           | Inr (i, cs) \<Rightarrow> sum_list (map (\<lambda>c. 9 * size c + 2) cs))")
     (auto simp: weight_children)

section \<open>Decoder functions by call count: \<^verbatim>\<open>findDecryptFnByCallCount\<close>\<close>

text \<open>
  \<^verbatim>\<open>
  const parent = binding.path.find(p => p.isFunctionDeclaration() || p.isVariableDeclaration())
  if (!parent) return
  const body = parent.parentPath.scope.block.body
  for (let i = 0; i < body.length; i++) {
    const node = body[i]
    if (node.start === parent.node.start) index = i + 1
  }
  \<close>
  The scope of a path is the scope of the nearest node, from the path itself upwards,
  that opens a scope: the program, a function, a loop, a \<^verbatim>\<open>switch\<close> statement, or a block
  that is not the body of a function. \<^verbatim>\<open>scope.block\<close> is that node and \<open>scopeOf\<close> its
  address.
\<close>

definition isDeclaration :: "node \<Rightarrow> bool" where
  "isDeclaration n =
     (case n of FunctionDeclaration _ _ _ \<Rightarrow> True | VariableDeclaration _ _ \<Rightarrow> True | _ \<Rightarrow> False)"

definition isFunction :: "node \<Rightarrow> bool" where
  "isFunction n =
     (case n of FunctionDeclaration _ _ _ \<Rightarrow> True | FunctionExpression _ _ _ \<Rightarrow> True | _ \<Rightarrow> False)"

definition opensScope :: "node \<Rightarrow> path \<Rightarrow> bool" where
  "opensScope ast q =
     (case getAt ast q of
        None \<Rightarrow> False
      | Some n \<Rightarrow>
          (case n of
             Program ss \<Rightarrow> True
           | FunctionDeclaration name ps b \<Rightarrow> True
           | FunctionExpression fid ps b \<Rightarrow> True
           | ForStatement i t u b \<Rightarrow> True
           | ForInStatement l r b \<Rightarrow> True
           | WhileStatement t b \<Rightarrow> True
           | SwitchStatement d cs \<Rightarrow> True
           | BlockStatement ss \<Rightarrow>
               \<not> (q \<noteq> [] \<and> (case getAt ast (butlast q) of None \<Rightarrow> False | Some f \<Rightarrow> isFunction f))
           | _ \<Rightarrow> False))"

fun scopeOf :: "node \<Rightarrow> path \<Rightarrow> path option" where
  "scopeOf ast q =
     (if opensScope ast q then Some q
      else if q = [] then None
      else scopeOf ast (butlast q))"

declare scopeOf.simps [simp del]

text \<open>
  \<open>statementIndex\<close> is the new value of \<^verbatim>\<open>index\<close>, when the loop assigns one (\<open>None\<close> when
  it assigns none, or the function returned at \<^verbatim>\<open>if (!parent)\<close>). \<^verbatim>\<open>body\<close> is a list of
  statements where the block of the scope is the program or a block; the one statement
  of it that starts where the declaration starts is the declaration itself, where the
  program or block is the parent of the declaration, and no statement of it where the
  declaration lies deeper. Of a function or a loop \<^verbatim>\<open>body\<close> is one node, whose \<^verbatim>\<open>length\<close>
  is undefined: the loop does not run. A \<^verbatim>\<open>switch\<close> statement has no \<^verbatim>\<open>body\<close>, and
  \<^verbatim>\<open>body.length\<close> raises a \<^verbatim>\<open>TypeError\<close>; so do \<^verbatim>\<open>parent.parentPath.scope\<close> of a
  declaration without a parent and \<^verbatim>\<open>scope.block\<close> where no node opens a scope.
\<close>

definition statementIndex :: "node \<Rightarrow> path \<Rightarrow> failure + nat option" where
  "statementIndex ast p =
     (case findUp isDeclaration ast p of
        None \<Rightarrow> Inr None
      | Some parent \<Rightarrow>
          if parent = [] then Inl TypeError
          else (case scopeOf ast (butlast parent) of
                  None \<Rightarrow> Inl TypeError
                | Some sp \<Rightarrow>
                    (case getAt ast sp of
                       Some (Program body) \<Rightarrow>
                         Inr (if sp = butlast parent then Some (last parent + 1) else None)
                     | Some (BlockStatement body) \<Rightarrow>
                         Inr (if sp = butlast parent then Some (last parent + 1) else None)
                     | Some (SwitchStatement d cs) \<Rightarrow> Inl TypeError
                     | _ \<Rightarrow> Inr None)))"


definition processFunction ::
  "node \<Rightarrow> (string \<Rightarrow> binding option) \<Rightarrow> nat \<Rightarrow> string option \<Rightarrow> string list \<times> nat
     \<Rightarrow> failure + string list \<times> nat" where
  "processFunction ast getBinding count fnName st =
     (case fnName of
        None \<Rightarrow> Inr st
      | Some name \<Rightarrow>
          (case getBinding name of
             None \<Rightarrow> Inr st
           | Some b \<Rightarrow>
               if length (referencePaths b) \<ge> count
               then (case statementIndex ast (bindingPath b) of
                       Inl e \<Rightarrow> Inl e
                     | Inr None \<Rightarrow> Inr (fst st @ [name], snd st)
                     | Inr (Some index) \<Rightarrow> Inr (fst st @ [name], index))
               else Inr st))"

text \<open>
  \<^verbatim>\<open>
  traverse(this.ast, {
    FunctionDeclaration(path) {
      if (path.parentPath.isProgram()) processFunction(path)
    },
    FunctionExpression(path) {
      if (path.parentKey === 'init' && path.parentPath.type === 'VariableDeclarator') {
        const variableDeclarationPath = path.findParent(p => p.isVariableDeclaration())
        if (variableDeclarationPath && variableDeclarationPath.parentPath.isProgram())
          processFunction(path)
      }
    },
  })
  \<close>
  The functions that the two callbacks pass on are the function declarations among the
  statements of the program and the function expressions that initialise a declarator of
  a declaration among the statements of the program, in the order of the text.
  \<open>functionNames\<close> lists the \<open>fnName\<close> of those of one statement, \<open>visitFunctions\<close> is
  the walk over the functions of a list of names.
\<close>

definition nonEmpty :: "string \<Rightarrow> string option" where
  "nonEmpty name = (if name = [] then None else Some name)"

definition declaratorFnName :: "node \<Rightarrow> string option list" where
  "declaratorFnName d =
     (case d of
        VariableDeclarator ident init \<Rightarrow>
          (case init of
             Some (FunctionExpression fid params body) \<Rightarrow>
               [case (case fid of None \<Rightarrow> None | Some name \<Rightarrow> nonEmpty name) of
                  Some name \<Rightarrow> Some name
                | None \<Rightarrow> (case ident of Identifier name \<Rightarrow> Some name | _ \<Rightarrow> None)]
           | _ \<Rightarrow> [])
      | _ \<Rightarrow> [])"

definition functionNames :: "node \<Rightarrow> string option list" where
  "functionNames statement =
     (case statement of
        FunctionDeclaration name params body \<Rightarrow> [nonEmpty name]
      | VariableDeclaration kind declarations \<Rightarrow> concat (map declaratorFnName declarations)
      | _ \<Rightarrow> [])"

fun visitFunctions ::
  "node \<Rightarrow> (string \<Rightarrow> binding option) \<Rightarrow> nat \<Rightarrow> string option list \<Rightarrow> string list \<times> nat
     \<Rightarrow> failure + string list \<times> nat" where
  "visitFunctions ast getBinding count [] st = Inr st"
| "visitFunctions ast getBinding count (fnName # rest) st =
     (case processFunction ast getBinding count fnName st of
        Inl e \<Rightarrow> Inl e
      | Inr st' \<Rightarrow> visitFunctions ast getBinding count rest st')"

text \<open>
  \<^verbatim>\<open>
  findDecryptFnByCallCount(count = 100, isRemove = false) {
    if (globalState.decryptFnList.length > 0) return
    let index = 0
    ...
    descryptAst.program.body = this.ast.program.body.slice(0, index)
    const decryptFnCode = generator(descryptAst, { compact: true }).code
    if (isRemove) this.ast.program.body = this.ast.program.body.slice(index)
    return decryptFnCode
  }
  \<close>
  The result is the statements whose text the function returns (\<open>None\<close> for the early
  return), the list of decoder names and the program body afterwards.
\<close>

definition findDecryptFnByCallCount ::
  "(string \<Rightarrow> binding option) \<Rightarrow> nat \<Rightarrow> bool \<Rightarrow> string list \<Rightarrow> node list
     \<Rightarrow> failure + node list option \<times> string list \<times> node list" where
  "findDecryptFnByCallCount getBinding count isRemove decryptFnList body =
     (if length decryptFnList > 0 then Inr (None, decryptFnList, body)
      else (case visitFunctions (Program body) getBinding count (concat (map functionNames body))
                   ([], 0) of
              Inl e \<Rightarrow> Inl e
            | Inr st \<Rightarrow>
                Inr (Some (take (snd st) body), fst st,
                     if isRemove then drop (snd st) body else body)))"





definition example_decoder :: node where
  "example_decoder =
     FunctionDeclaration ''dec'' [Identifier ''i'']
       (BlockStatement
          [ReturnStatement (Some (MemberExpression (Identifier ''table'') (Identifier ''i'') True))])"




text \<open>
  \<^verbatim>\<open>switch (k) { case 1: var dec; } function dec(i) { return table[i]; } dec(0);\<close>: the
  first declaration of the name is in a case of a \<^verbatim>\<open>switch\<close> statement.
\<close>

definition switch_body :: "node list" where
  "switch_body =
     [SwitchStatement (Identifier ''k'')
        [SwitchCase (Some (NumericLiteral 1))
           [VariableDeclaration ''var'' [VariableDeclarator (Identifier ''dec'') None]]],
      example_decoder,
      ExpressionStatement (CallExpression (Identifier ''dec'') [NumericLiteral 0] [])]"

definition switch_bindings :: "string \<Rightarrow> binding option" where
  "switch_bindings name =
     (if name = ''dec'' then
        Some \<lparr>isConstant = False, constantViolations = [[1]],
              referencePaths = [[2, 0, 0]], bindingPath = [0, 1, 1, 0]\<rparr>
      else None)"

section \<open>Constant inlining: \<^verbatim>\<open>replaceConstant\<close>\<close>

text \<open>
  \<^verbatim>\<open>
  function replaceConstantVariable(path, value) {
    const name = path.node.id ? path.node.id.name : path.node.left.name
    const binding = path.scope.getBinding(name)
    if (binding && binding.constant && binding.constantViolations.length === 0) {
      binding.referencePaths.forEach((r) => { r.replaceWith(value) })
      path.remove()
    }
  }
  \<close>
  \<^verbatim>\<open>r.replaceWith(value)\<close> puts the object \<^verbatim>\<open>value\<close> itself into the slot of the reference:
  the library makes no copy of the node it is given, and the pass does not call
  \<^verbatim>\<open>t.cloneNode\<close>. The tree of the model is a value, in which one node that stands at two
  places cannot be told from two equal nodes. So a node that the pass reads from the tree
  is taken together with the address it was read from, and beside the tree the model
  keeps the list of the stores made: the pair \<open>(r, src)\<close> says that the slot at address
  \<open>r\<close> now holds the object that stood at address \<open>src\<close> when the callback began. Two
  slots with the same \<open>src\<close> hold one object. (\<^verbatim>\<open>this.reParse()\<close>, at the end of the pass,
  builds a new tree from the printed text.)
\<close>

type_synonym held = "node \<times> path"

type_synonym stores = "(path \<times> path) list"

definition bindingName :: "node \<Rightarrow> string option" where
  "bindingName n =
     (case n of
        VariableDeclarator ident init \<Rightarrow> (case ident of Identifier name \<Rightarrow> Some name | _ \<Rightarrow> None)
      | AssignmentExpression op left right \<Rightarrow>
          (case left of Identifier name \<Rightarrow> Some name | _ \<Rightarrow> None)
      | _ \<Rightarrow> None)"

definition replaceWith :: "path \<Rightarrow> held \<Rightarrow> node \<times> stores \<Rightarrow> node \<times> stores" where
  "replaceWith r v st = (replaceAt r (fst v) (fst st), snd st @ [(r, snd v)])"

definition inlineReferences :: "held \<Rightarrow> path list \<Rightarrow> node \<Rightarrow> node \<times> stores" where
  "inlineReferences v refs ast = fold (\<lambda>r. replaceWith r v) refs (ast, [])"

text \<open>
  The result of a callback: the tree, the address at which the removal took a child out
  of its parent's children (\<open>None\<close> when no child moved), the stores made, and the name
  that the removed node declares: \<^verbatim>\<open>path.remove()\<close> takes the binding of that name out of
  the scope (\<open>unbind\<close>).
\<close>

definition replaceConstantVariable ::
  "(string \<Rightarrow> binding option) \<Rightarrow> path \<Rightarrow> held \<Rightarrow> node
     \<Rightarrow> node \<times> path option \<times> stores \<times> string option" where
  "replaceConstantVariable getBinding p v ast =
     (case getAt ast p of
        None \<Rightarrow> (ast, None, [], None)
      | Some n \<Rightarrow>
          (case bindingName n of
             None \<Rightarrow> (ast, None, [], None)
           | Some name \<Rightarrow>
               (case getBinding name of
                  None \<Rightarrow> (ast, None, [], None)
                | Some b \<Rightarrow>
                    if isConstant b \<and> length (constantViolations b) = 0
                    then (fst (removeAt (fst (inlineReferences v (referencePaths b) ast)) p),
                          snd (removeAt (fst (inlineReferences v (referencePaths b) ast)) p),
                          snd (inlineReferences v (referencePaths b) ast),
                          Some name)
                    else (ast, None, [], None))))"

definition unbind ::
  "string option \<Rightarrow> (string \<Rightarrow> binding option) \<Rightarrow> string \<Rightarrow> binding option" where
  "unbind removed getBinding =
     (case removed of None \<Rightarrow> getBinding | Some name \<Rightarrow> getBinding(name := None))"

text \<open>
  \<^verbatim>\<open>
  traverse(this.ast, {
    AssignmentExpression(path) {
      const value = path.node.right
      if (t.isStringLiteral(value) || t.isNumericLiteral(value)) replaceConstantVariable(path, value)
    },
    VariableDeclarator(path) {
      const value = path.node.init
      if (t.isStringLiteral(value) || t.isNumericLiteral(value)) replaceConstantVariable(path, value)
    },
  })
  \<close>
  \<open>constantValue p n\<close> is the value that the callback of the node \<open>n\<close>, at address \<open>p\<close>,
  passes on, if it does: the node in the slot \<^verbatim>\<open>right\<close> or \<^verbatim>\<open>init\<close>, which is the child
  with index 1 in both.
\<close>

definition constantValue :: "path \<Rightarrow> node \<Rightarrow> held option" where
  "constantValue p n =
     (case n of
        AssignmentExpression op left right \<Rightarrow>
          if isStringLiteral right \<or> isNumericLiteral right then Some (right, p @ [1]) else None
      | VariableDeclarator ident init \<Rightarrow>
          (case init of
             None \<Rightarrow> None
           | Some v \<Rightarrow> if isStringLiteral v \<or> isNumericLiteral v then Some (v, p @ [1]) else None)
      | _ \<Rightarrow> None)"

definition visitConstant ::
  "(string \<Rightarrow> binding option) \<Rightarrow> path \<Rightarrow> node
     \<Rightarrow> node \<times> path option \<times> stores \<times> string option" where
  "visitConstant getBinding p ast =
     (case getAt ast p of
        None \<Rightarrow> (ast, None, [], None)
      | Some n \<Rightarrow>
          (case constantValue p n of
             None \<Rightarrow> (ast, None, [], None)
           | Some v \<Rightarrow> replaceConstantVariable getBinding p v ast))"

text \<open>
  The walk visits the nodes with a callback in the order of the text. The model keeps
  the addresses of the nodes still to visit and the paths of the bindings as the library
  keeps its paths: when a child was taken out at \<open>g\<close> they are shifted, and the nodes
  below \<open>g\<close> are not visited. The scope has lost the binding of the removed name.
\<close>

definition isVisited :: "node \<Rightarrow> bool" where
  "isVisited n =
     (case n of AssignmentExpression op l r \<Rightarrow> True | VariableDeclarator i v \<Rightarrow> True | _ \<Rightarrow> False)"

definition visited :: "node \<Rightarrow> path list" where
  "visited ast =
     filter (\<lambda>p. case getAt ast p of None \<Rightarrow> False | Some n \<Rightarrow> isVisited n) (preorder ast)"

function visitAll :: "(string \<Rightarrow> binding option) \<Rightarrow> path list \<Rightarrow> node \<Rightarrow> node" where
  "visitAll getBinding [] ast = ast"
| "visitAll getBinding (p # ps) ast =
     visitAll
       (unbind (snd (snd (snd (visitConstant getBinding p ast))))
          (scopeAfter (fst (snd (visitConstant getBinding p ast))) getBinding))
       (after (fst (snd (visitConstant getBinding p ast))) ps)
       (fst (visitConstant getBinding p ast))"
  by pat_completeness auto

termination visitAll
  by (relation "measure (\<lambda>(getBinding, ps, ast). length ps)") (simp_all add: length_after)

definition replaceConstant :: "(string \<Rightarrow> binding option) \<Rightarrow> node \<Rightarrow> node" where
  "replaceConstant getBinding ast = visitAll getBinding (visited ast) ast"

text \<open>
  The scope of \<^verbatim>\<open>let a = "debugger"; f(a);\<close>: \<open>a\<close> is declared at the first declarator of
  the first statement and referenced at the first argument of the call; \<open>f\<close> is not bound.
\<close>

definition inline_program :: node where
  "inline_program =
     Program
       [VariableDeclaration ''let''
          [VariableDeclarator (Identifier ''a'') (Some (StringLiteral ''debugger''))],
        ExpressionStatement (CallExpression (Identifier ''f'') [Identifier ''a''] [])]"

definition inline_scope :: "string \<Rightarrow> binding option" where
  "inline_scope name =
     (if name = ''a''
      then Some \<lparr>isConstant = True, constantViolations = [], referencePaths = [[1, 0, 1]],
                 bindingPath = [0, 0]\<rparr>
      else None)"

text \<open>
  The scope of \<^verbatim>\<open>let a = 1, b = g(); f(a, b);\<close>: two declarators in one declaration, both
  visited by the walk; \<open>f\<close> and \<open>g\<close> are not bound.
\<close>

definition several_program :: node where
  "several_program =
     Program
       [VariableDeclaration ''let''
          [VariableDeclarator (Identifier ''a'') (Some (NumericLiteral 1)),
           VariableDeclarator (Identifier ''b'') (Some (CallExpression (Identifier ''g'') [] []))],
        ExpressionStatement
          (CallExpression (Identifier ''f'') [Identifier ''a'', Identifier ''b''] [])]"

definition several_scope :: "string \<Rightarrow> binding option" where
  "several_scope name =
     (if name = ''a''
      then Some \<lparr>isConstant = True, constantViolations = [], referencePaths = [[1, 0, 1]],
                 bindingPath = [0, 0]\<rparr>
      else if name = ''b''
      then Some \<lparr>isConstant = True, constantViolations = [], referencePaths = [[1, 0, 2]],
                 bindingPath = [0, 1]\<rparr>
      else None)"

text \<open>
  The tree after the stores of the callback of \<open>a\<close>, and \<^verbatim>\<open>let b = g(); f(1, b);\<close>.
\<close>

definition several_inlined :: node where
  "several_inlined =
     Program
       [VariableDeclaration ''let''
          [VariableDeclarator (Identifier ''a'') (Some (NumericLiteral 1)),
           VariableDeclarator (Identifier ''b'') (Some (CallExpression (Identifier ''g'') [] []))],
        ExpressionStatement
          (CallExpression (Identifier ''f'') [NumericLiteral 1, Identifier ''b''] [])]"

definition several_result :: node where
  "several_result =
     Program
       [VariableDeclaration ''let''
          [VariableDeclarator (Identifier ''b'') (Some (CallExpression (Identifier ''g'') [] []))],
        ExpressionStatement
          (CallExpression (Identifier ''f'') [NumericLiteral 1, Identifier ''b''] [])]"

text \<open>
  The scope of \<^verbatim>\<open>let a = "x"; f(a); g(a);\<close>: two references to \<open>a\<close>.
\<close>

definition shared_program :: node where
  "shared_program =
     Program
       [VariableDeclaration ''let'' [VariableDeclarator (Identifier ''a'') (Some (StringLiteral ''x''))],
        ExpressionStatement (CallExpression (Identifier ''f'') [Identifier ''a''] []),
        ExpressionStatement (CallExpression (Identifier ''g'') [Identifier ''a''] [])]"

definition shared_scope :: "string \<Rightarrow> binding option" where
  "shared_scope name =
     (if name = ''a''
      then Some \<lparr>isConstant = True, constantViolations = [],
                 referencePaths = [[1, 0, 1], [2, 0, 1]], bindingPath = [0, 0]\<rparr>
      else None)"

text \<open>
  The scope of \<^verbatim>\<open>let a = 1; let b = a; f(b);\<close>, with the paths of \<open>b\<close> as they are before
  the walk.
\<close>

definition cascade_program :: node where
  "cascade_program =
     Program
       [VariableDeclaration ''let'' [VariableDeclarator (Identifier ''a'') (Some (NumericLiteral 1))],
        VariableDeclaration ''let'' [VariableDeclarator (Identifier ''b'') (Some (Identifier ''a''))],
        ExpressionStatement (CallExpression (Identifier ''f'') [Identifier ''b''] [])]"

definition cascade_scope :: "string \<Rightarrow> binding option" where
  "cascade_scope name =
     (if name = ''a''
      then Some \<lparr>isConstant = True, constantViolations = [], referencePaths = [[1, 0, 1]],
                 bindingPath = [0, 0]\<rparr>
      else if name = ''b''
      then Some \<lparr>isConstant = True, constantViolations = [], referencePaths = [[2, 0, 1]],
                 bindingPath = [1, 0]\<rparr>
      else None)"

section \<open>Control-flow flattening: \<^verbatim>\<open>controlFlowFlat\<close>\<close>

subsection \<open>\<^verbatim>\<open>transformForLoop\<close>\<close>

text \<open>
  \<^verbatim>\<open>
  transformForLoop() {
    traverse(this.ast, {
      ForStatement(path) {
        if (path.node.init && path.node.init.type === 'SequenceExpression') {
          const expressions = path.node.init.expressions
          const toRemoveVariableDeclarators = []
          const declarations = []
          expressions.forEach((expression, index) => {
            if (expression.type === 'AssignmentExpression') {
              toRemoveVariableDeclarators.push(expression.left.name)
              if (expression.left.type === 'Identifier') {
                declarations.push(
                  t.variableDeclaration('var', [
                    t.variableDeclarator(t.identifier(expression.left.name), expression.right),
                  ]),
                )
              }
            }
          })
          path.node.init.expressions = path.node.init.expressions.filter((e) => {
            if (e.type === 'AssignmentExpression')
              return !toRemoveVariableDeclarators.includes(e.left.name)
            else
              return true
          })
          path.traverse({
            VariableDeclarator(p) {
              const name = p.node.id?.name
              if (p.node.init === null) {
                if (toRemoveVariableDeclarators.includes(name)) p.remove()
              }
            },
          })
          const statement = path.getStatementParent()
          path.insertBefore(declarations)
        }
      },
    })
    this.reParse()
  }
  \<close>
  \<^verbatim>\<open>expression.left.name\<close> is the name of an identifier and undefined (\<open>None\<close>) of any
  other left side. Every assignment of the sequence has its \<^verbatim>\<open>left.name\<close> in
  \<^verbatim>\<open>toRemoveVariableDeclarators\<close>, so the filter keeps the expressions that are no
  assignment.
\<close>

definition isAssignment :: "node \<Rightarrow> bool" where
  "isAssignment e = (case e of AssignmentExpression op l r \<Rightarrow> True | _ \<Rightarrow> False)"

definition idName :: "node \<Rightarrow> string option" where
  "idName n = (case n of Identifier x \<Rightarrow> Some x | _ \<Rightarrow> None)"

definition leftName :: "node \<Rightarrow> string option" where
  "leftName e = (case e of AssignmentExpression op l r \<Rightarrow> idName l | _ \<Rightarrow> None)"

definition toRemoveVariableDeclarators :: "node list \<Rightarrow> string option list" where
  "toRemoveVariableDeclarators expressions = map leftName (filter isAssignment expressions)"

text \<open>
  \<open>lefts\<close> and \<open>rights\<close> are the names and the right sides of the assignments that get
  a declaration, in the order of the sequence.
\<close>

definition lefts :: "node list \<Rightarrow> string list" where
  "lefts expressions =
     concat (map (\<lambda>e. case e of
                          AssignmentExpression op l r \<Rightarrow> (case l of Identifier x \<Rightarrow> [x] | _ \<Rightarrow> [])
                        | _ \<Rightarrow> [])
               expressions)"

definition rights :: "node list \<Rightarrow> node list" where
  "rights expressions =
     concat (map (\<lambda>e. case e of
                          AssignmentExpression op l r \<Rightarrow> (case l of Identifier x \<Rightarrow> [r] | _ \<Rightarrow> [])
                        | _ \<Rightarrow> [])
               expressions)"

text \<open>
  The inner walk removes, anywhere below the \<^verbatim>\<open>for\<close> statement, the declarators without
  initialiser whose name is in the list. \<open>removable names n\<close> is the test of its
  callback.
\<close>

definition removable :: "string option list \<Rightarrow> node \<Rightarrow> bool" where
  "removable names n =
     (case n of
        VariableDeclarator ident init \<Rightarrow> init = None \<and> idName ident \<in> set names
      | _ \<Rightarrow> False)"

text \<open>
  What the walk of a child leaves at the place of the child: nothing when the child was
  removed (\<open>None\<close>), else a node or, after \<^verbatim>\<open>insertBefore\<close>, a list of nodes. \<open>putBack n i r\<close>
  is the node \<open>n\<close> with the result \<open>r\<close> at its child \<open>i\<close>: a removal is that of
  \<open>removeChild\<close> (\<open>None\<close> where the node is removed with its child); a list of nodes is
  spliced into the array of \<open>n\<close> that holds the child (\<open>splice\<close>), and becomes a block
  where the child fills a slot of its own. \<open>assemble\<close> puts the results of all children
  back, from the last child to the first, so that the index of a child is still its
  index when its turn comes.
\<close>

fun isListSlot :: "node \<Rightarrow> nat \<Rightarrow> bool" where
  "isListSlot (ArrayExpression es) i = True"
| "isListSlot (SequenceExpression es) i = True"
| "isListSlot (CallExpression c as cs) i = (1 \<le> i)"
| "isListSlot (FunctionExpression fid ps body) i = (i < length ps)"
| "isListSlot (BlockStatement ss) i = True"
| "isListSlot (SwitchStatement d cs) i = (1 \<le> i)"
| "isListSlot (SwitchCase t ss) i = (length (optList t) \<le> i)"
| "isListSlot (VariableDeclaration k ds) i = True"
| "isListSlot (FunctionDeclaration name ps body) i = (i < length ps)"
| "isListSlot (Program ss) i = True"
| "isListSlot n i = False"

definition spliced :: "nat \<Rightarrow> node list \<Rightarrow> node list \<Rightarrow> node list" where
  "spliced i xs ys = take i ys @ xs @ drop (Suc i) ys"

fun splice :: "node \<Rightarrow> nat \<Rightarrow> node list \<Rightarrow> node" where
  "splice (ArrayExpression es) i xs = ArrayExpression (spliced i xs es)"
| "splice (SequenceExpression es) i xs = SequenceExpression (spliced i xs es)"
| "splice (CallExpression c as cs) i xs = CallExpression c (spliced (i - 1) xs as) cs"
| "splice (FunctionExpression fid ps body) i xs = FunctionExpression fid (spliced i xs ps) body"
| "splice (BlockStatement ss) i xs = BlockStatement (spliced i xs ss)"
| "splice (SwitchStatement d cs) i xs = SwitchStatement d (spliced (i - 1) xs cs)"
| "splice (SwitchCase t ss) i xs = SwitchCase t (spliced (i - length (optList t)) xs ss)"
| "splice (VariableDeclaration k ds) i xs = VariableDeclaration k (spliced i xs ds)"
| "splice (FunctionDeclaration name ps body) i xs = FunctionDeclaration name (spliced i xs ps) body"
| "splice (Program ss) i xs = Program (spliced i xs ss)"
| "splice n i xs = n"

definition putBack :: "node \<Rightarrow> nat \<Rightarrow> placed option \<Rightarrow> node option" where
  "putBack n i r =
     (case r of
        None \<Rightarrow>
          (case removeChild n i of Shrunk n' \<Rightarrow> Some n' | Filled n' \<Rightarrow> Some n' | Escalate \<Rightarrow> None)
      | Some (Same x) \<Rightarrow> Some (replaceAt [i] x n)
      | Some (Many xs) \<Rightarrow>
          Some (if isListSlot n i then splice n i xs else replaceAt [i] (BlockStatement xs) n))"

definition assemble :: "node \<Rightarrow> placed option list \<Rightarrow> node option" where
  "assemble n rs =
     fold (\<lambda>i cur. case cur of None \<Rightarrow> None | Some c \<Rightarrow> putBack c i (rs ! i))
       (rev [0..<length rs]) (Some n)"

text \<open>
  The declaration that the callback builds for the name \<open>x\<close> and the right side \<open>r\<close>,
  with what the walk leaves of \<open>r\<close> as initialiser.
\<close>

definition declared :: "string \<times> node \<times> placed option \<Rightarrow> node list" where
  "declared xrw =
     (case putBack (VariableDeclarator (Identifier (fst xrw)) (Some (fst (snd xrw)))) 1 (snd (snd xrw)) of
        None \<Rightarrow> []
      | Some d \<Rightarrow> [VariableDeclaration ''var'' [d]])"

definition declarations :: "node list \<Rightarrow> placed option list \<Rightarrow> node list" where
  "declarations expressions walked =
     concat (map declared (zip (lefts expressions) (zip (rights expressions) walked)))"

text \<open>
  \<^verbatim>\<open>this.reParse()\<close> prints the tree and parses the text. The sequence that the callback
  leaves in \<^verbatim>\<open>init\<close> may have no expression, which is printed as nothing, or one, which
  is printed as that expression: the tree that the parser builds has no \<^verbatim>\<open>init\<close>, or that
  expression as \<^verbatim>\<open>init\<close>.
\<close>

definition reparsedInit :: "node list \<Rightarrow> node option" where
  "reparsedInit expressions =
     (case expressions of
        [] \<Rightarrow> None
      | [e] \<Rightarrow> Some e
      | _ \<Rightarrow> Some (SequenceExpression expressions))"

definition reparsed :: "node \<Rightarrow> node" where
  "reparsed n =
     (case n of
        ForStatement init t u b \<Rightarrow>
          (case init of
             Some (SequenceExpression es) \<Rightarrow> ForStatement (reparsedInit es) t u b
           | _ \<Rightarrow> n)
      | _ \<Rightarrow> n)"

text \<open>
  The walk. \<open>names\<close> are the names whose declarators without initialiser are to be
  removed at this place: those of the \<^verbatim>\<open>for\<close> statements that enclose it, each of which
  ran its inner walk over all that was below it. At a \<^verbatim>\<open>for\<close> statement with a sequence
  as \<^verbatim>\<open>init\<close> the callback filters the sequence, adds its names, and gives the
  declarations to \<^verbatim>\<open>insertBefore\<close>. The walk then goes on into the children of the
  statement. \<^verbatim>\<open>insertBefore\<close> puts the nodes it inserts on the queue of the walk, which
  visits them after the siblings: the callback runs at the \<^verbatim>\<open>for\<close> statements inside the
  right sides too. The inner walks of the enclosing statements ran over the right sides,
  which were below them; the inner walk of this statement did not, the sequence no longer
  holding them.
\<close>

lemma size_list_filter: "size_list size (filter P xs) \<le> size_list size xs"
  by (induction xs) auto

function tfl :: "string option list \<Rightarrow> node \<Rightarrow> placed option"
  and tflAll :: "string option list \<Rightarrow> node list \<Rightarrow> placed option list" where
  "tfl names n =
     (if removable names n then None
      else (case n of
              ForStatement init t u b \<Rightarrow>
                (case init of
                   Some (SequenceExpression es) \<Rightarrow>
                     (case assemble
                             (ForStatement
                                (Some (SequenceExpression (filter (\<lambda>e. \<not> isAssignment e) es))) t u b)
                             (tflAll (names @ toRemoveVariableDeclarators es)
                                (SequenceExpression (filter (\<lambda>e. \<not> isAssignment e) es)
                                 # optList t @ optList u @ [b])) of
                        None \<Rightarrow> None
                      | Some loop \<Rightarrow>
                          Some (Many (declarations es (tflAll names (rights es)) @ [reparsed loop])))
                 | _ \<Rightarrow> map_option Same (assemble n (tflAll names (children n))))
            | _ \<Rightarrow> map_option Same (assemble n (tflAll names (children n)))))"
| "tflAll names [] = []"
| "tflAll names (c # cs) = tfl names c # tflAll names cs"
  by pat_completeness auto

lemma weight_for:
  "(\<Sum>c\<leftarrow>optList t. Suc (Suc (9 * size c))) + (\<Sum>c\<leftarrow>optList u. Suc (Suc (9 * size c)))
     + 9 * size_list size (filter P es)
   \<le> 9 * size_option size t + 9 * size_option size u + 9 * size_list size es"
  using size_list_filter [of P es] weight_option [of t] weight_option [of u] by simp

lemma weight_rights: "(\<Sum>c\<leftarrow>rights es. Suc (Suc (9 * size c))) \<le> 9 * size_list size es"
  by (induction es) (auto simp: rights_def split: node.splits)

termination tfl
  apply (relation "measure (\<lambda>x. case x of
                             Inl (names, n) \<Rightarrow> 9 * size n + 1
                           | Inr (names, cs) \<Rightarrow> sum_list (map (\<lambda>c. 9 * size c + 2) cs))")
  apply (simp_all add: weight_children del: children.simps node.size)
  subgoal for names n i t u b x es
    using weight_for [of t u "\<lambda>e. \<not> isAssignment e" es] by simp
  subgoal for names n i t u b x es
    using weight_rights [of es] by simp
  done

declare tfl.simps [simp del]

definition transformForLoop :: "node \<Rightarrow> node" where
  "transformForLoop ast = (case tfl [] ast of None \<Rightarrow> ast | Some p \<Rightarrow> inSlot p)"

text \<open>
  The example of the doc comment of \<^verbatim>\<open>transformForLoop\<close>,
  \<^verbatim>\<open>for (a = 1, w = "2|1|2|3"["split"]("|"), void 0;;) { var a; var w; break; }\<close>
\<close>

definition loop_example :: node where
  "loop_example =
     Program
       [ForStatement
          (Some (SequenceExpression
             [AssignmentExpression ''='' (Identifier ''a'') (NumericLiteral 1),
              AssignmentExpression ''='' (Identifier ''w'')
                (CallExpression
                   (MemberExpression (StringLiteral ''2|1|2|3'') (StringLiteral ''split'') True)
                   [StringLiteral ''|''] []),
              UnaryExpression ''void'' (NumericLiteral 0)]))
          None None
          (BlockStatement
             [VariableDeclaration ''var'' [VariableDeclarator (Identifier ''a'') None],
              VariableDeclaration ''var'' [VariableDeclarator (Identifier ''w'') None],
              BreakStatement])]"

subsection \<open>The callback of \<^verbatim>\<open>controlFlowFlat\<close>\<close>

text \<open>
  \<^verbatim>\<open>
  const forOrWhileStatementPath = path.findParent(p => p.isForStatement() || p.isWhileStatement())
  if (!forOrWhileStatementPath) return
  const fnBlockStatementPath = forOrWhileStatementPath.findParent(p => p.isBlockStatement())
  \<close>
\<close>

definition isLoop :: "node \<Rightarrow> bool" where
  "isLoop n = (case n of ForStatement i t u b \<Rightarrow> True | WhileStatement t b \<Rightarrow> True | _ \<Rightarrow> False)"

definition isBlockStatement :: "node \<Rightarrow> bool" where
  "isBlockStatement n = (case n of BlockStatement ss \<Rightarrow> True | _ \<Rightarrow> False)"

definition isVariableDeclarator :: "node \<Rightarrow> bool" where
  "isVariableDeclarator n = (case n of VariableDeclarator i v \<Rightarrow> True | _ \<Rightarrow> False)"

definition isSwitchStatement :: "node \<Rightarrow> bool" where
  "isSwitchStatement n = (case n of SwitchStatement d cs \<Rightarrow> True | _ \<Rightarrow> False)"

text \<open>
  \<^verbatim>\<open>
  fnBlockStatementPath.traverse({
    MemberExpression(path) {
      const { object, property } = path.node
      const propertyName = property.value || property.name
      if ((t.isStringLiteral(property) || t.isIdentifier(property)) && propertyName === 'split') {
        if (t.isStringLiteral(object)) {
          const shufferString = object.value
          shufferArr = shufferString.split('|')
          const VariableDeclarator = path.findParent(p => p.isVariableDeclarator())
          if (VariableDeclarator) VariableDeclarator.remove()
          path.stop()
        }
      }
    },
  })
  if (shufferArr.length === 0) return
  \<close>
  \<open>splitString n\<close> is the string \<^verbatim>\<open>object.value\<close> when both tests hold of the node \<open>n\<close>;
  \<open>firstSplit block\<close> is the address, in the block, of the first such node below the
  block in the order of the walk, the one at which the walk stops. \<open>splitOn\<close> is
  \<^verbatim>\<open>String.prototype.split\<close> with a separator of one character; its result is never
  empty, so \<^verbatim>\<open>shufferArr\<close> is empty exactly when no such node was found.
\<close>

definition propertyName :: "node \<Rightarrow> string" where
  "propertyName property =
     (case property of StringLiteral v \<Rightarrow> v | Identifier name \<Rightarrow> name | _ \<Rightarrow> [])"

definition splitString :: "node \<Rightarrow> string option" where
  "splitString n =
     (case n of
        MemberExpression object property computed \<Rightarrow>
          if (isStringLiteral property \<or> isIdentifier property) \<and> propertyName property = ''split''
          then (case object of StringLiteral v \<Rightarrow> Some v | _ \<Rightarrow> None)
          else None
      | _ \<Rightarrow> None)"

definition firstSplit :: "node \<Rightarrow> path option" where
  "firstSplit block =
     List.find (\<lambda>q. case getAt block q of None \<Rightarrow> False | Some n \<Rightarrow> splitString n \<noteq> None)
       (preorderFrom 0 (children block))"

fun splitOn :: "char \<Rightarrow> string \<Rightarrow> string list" where
  "splitOn c [] = [[]]"
| "splitOn c (x # xs) =
     (if x = c then [] # splitOn c xs
      else (case splitOn c xs of [] \<Rightarrow> [[x]] | y # ys \<Rightarrow> (x # y) # ys))"

definition shufferArr :: "node \<Rightarrow> path \<Rightarrow> string list" where
  "shufferArr block q =
     (case getAt block q of
        None \<Rightarrow> []
      | Some n \<Rightarrow> (case splitString n of None \<Rightarrow> [] | Some v \<Rightarrow> splitOn CHR ''|'' v))"

definition removeDeclarator :: "node \<Rightarrow> path \<Rightarrow> node \<times> path option" where
  "removeDeclarator ast m =
     (case findParent isVariableDeclarator ast m of None \<Rightarrow> (ast, None) | Some d \<Rightarrow> removeAt ast d)"

text \<open>
  When the declarator that is removed holds the \<^verbatim>\<open>switch\<close> statement itself (the block is
  within the initialiser of the declarator), what the callback does next is done to
  nodes that are no longer in the tree.
\<close>

definition detached :: "node \<Rightarrow> path \<Rightarrow> path \<Rightarrow> bool" where
  "detached ast m p =
     (case findParent isVariableDeclarator ast m of None \<Rightarrow> False | Some d \<Rightarrow> below d p)"

text \<open>
  \<^verbatim>\<open>
  const myArr = path.node.cases
    .filter(p => p.test?.type === 'StringLiteral')
    .map(p => p.consequent[0])
  const sequences = shufferArr
    .map(s => myArr[s])
    .filter(s => s?.type !== 'ContinueStatement')
  \<close>
  \<^verbatim>\<open>myArr[s]\<close> with a string \<open>s\<close> is the element with index \<open>s\<close> when \<open>s\<close> is the decimal
  rendering of an index of the array, and \<^verbatim>\<open>undefined\<close> when it is the rendering of a
  larger number or names no property of the array. (A string such as \<^verbatim>\<open>length\<close>, which
  names a property of every array, is outside the model.) \<^verbatim>\<open>consequent[0]\<close> of a case
  without statements is \<^verbatim>\<open>undefined\<close>, and the filter keeps \<^verbatim>\<open>undefined\<close>.
\<close>

definition hasStringTest :: "node \<Rightarrow> bool" where
  "hasStringTest c =
     (case c of
        SwitchCase t ss \<Rightarrow> (case t of Some (StringLiteral v) \<Rightarrow> True | _ \<Rightarrow> False)
      | _ \<Rightarrow> False)"

definition firstConsequent :: "node \<Rightarrow> node" where
  "firstConsequent c =
     (case c of
        SwitchCase t ss \<Rightarrow> (case ss of [] \<Rightarrow> UndefinedSlot | s # rest \<Rightarrow> s)
      | _ \<Rightarrow> UndefinedSlot)"

definition myArr :: "node list \<Rightarrow> node list" where
  "myArr cases = map firstConsequent (filter hasStringTest cases)"

definition arrayIndex :: "string \<Rightarrow> nat option" where
  "arrayIndex s = (if s = toString (fromDecimal s) then Some (fromDecimal s) else None)"

definition element :: "node list \<Rightarrow> string \<Rightarrow> node" where
  "element arr s =
     (case arrayIndex s of
        None \<Rightarrow> UndefinedSlot
      | Some i \<Rightarrow> if i < length arr then arr ! i else UndefinedSlot)"

definition sequences :: "string list \<Rightarrow> node list \<Rightarrow> node list" where
  "sequences shuffer arr = filter (\<lambda>s. s \<noteq> ContinueStatement) (map (element arr) shuffer)"

definition casesAt :: "node \<Rightarrow> path \<Rightarrow> node list" where
  "casesAt ast p = (case getAt ast p of Some (SwitchStatement d cs) \<Rightarrow> cs | _ \<Rightarrow> [])"

text \<open>
  \<^verbatim>\<open>
  fnBlockStatementPath.node.body.push(...sequences)
  if (['WhileStatement', 'ForStatement'].includes(path.parentPath.parentPath.type))
    path.parentPath.parentPath.remove()
  path.skip()
  \<close>
\<close>

definition pushBody :: "path \<Rightarrow> node list \<Rightarrow> node \<Rightarrow> node" where
  "pushBody bp ns ast =
     (case getAt ast bp of
        Some (BlockStatement body) \<Rightarrow> replaceAt bp (BlockStatement (body @ ns)) ast
      | _ \<Rightarrow> ast)"

definition removeLoop :: "path \<Rightarrow> node \<Rightarrow> node \<times> path option" where
  "removeLoop p ast =
     (case getAt ast (butlast (butlast p)) of
        None \<Rightarrow> (ast, None)
      | Some n \<Rightarrow> if 2 \<le> length p \<and> isLoop n then removeAt ast (butlast (butlast p)) else (ast, None))"

text \<open>
  The callback at the \<^verbatim>\<open>switch\<close> statement with address \<open>p\<close>. \<^verbatim>\<open>fnBlockStatementPath\<close> is
  \<^verbatim>\<open>null\<close> when no block holds the loop, and \<^verbatim>\<open>fnBlockStatementPath.traverse\<close> then
  raises a \<^verbatim>\<open>TypeError\<close>. The result is the tree, the addresses at which the two removals
  took a child out, and whether \<^verbatim>\<open>path.skip()\<close> was reached.
\<close>

definition visitSwitchStatement ::
  "path \<Rightarrow> node \<Rightarrow> failure + node \<times> path option \<times> path option \<times> bool" where
  "visitSwitchStatement p ast =
     (case findParent isLoop ast p of
        None \<Rightarrow> Inr (ast, None, None, False)
      | Some lp \<Rightarrow>
          (case findParent isBlockStatement ast lp of
             None \<Rightarrow> Inl TypeError
           | Some bp \<Rightarrow>
               (case getAt ast bp of
                  None \<Rightarrow> Inr (ast, None, None, False)
                | Some block \<Rightarrow>
                    (case firstSplit block of
                       None \<Rightarrow> Inr (ast, None, None, False)
                     | Some q \<Rightarrow>
                         if detached ast (bp @ q) p
                         then Inr (fst (removeDeclarator ast (bp @ q)),
                                   snd (removeDeclarator ast (bp @ q)), None, True)
                         else
                           let ast1 = fst (removeDeclarator ast (bp @ q));
                               g1 = snd (removeDeclarator ast (bp @ q));
                               ast2 = pushBody (shiftBy g1 bp)
                                        (sequences (shufferArr block q) (myArr (casesAt ast p))) ast1
                           in Inr (fst (removeLoop (shiftBy g1 p) ast2), g1,
                                   snd (removeLoop (shiftBy g1 p) ast2), True)))))"

text \<open>
  The walk calls the callback at the \<^verbatim>\<open>switch\<close> statements in the order of the text. As
  in \<open>visitAll\<close> the addresses still to visit follow the removals; after \<^verbatim>\<open>path.skip()\<close>
  the statements within the \<^verbatim>\<open>switch\<close> are not visited. The statements pushed to the
  body of the block are not in the list of paths that the walk made for the block, and
  are not visited.
\<close>

definition switches :: "node \<Rightarrow> path list" where
  "switches ast =
     filter (\<lambda>p. case getAt ast p of None \<Rightarrow> False | Some n \<Rightarrow> isSwitchStatement n) (preorder ast)"

definition skipped :: "bool \<Rightarrow> path \<Rightarrow> path list \<Rightarrow> path list" where
  "skipped skip p ps = (if skip then filter (\<lambda>q. \<not> below p q) ps else ps)"

lemma length_skipped: "length (skipped skip p ps) < Suc (length ps)"
  by (simp add: skipped_def less_Suc_eq_le)

function switchWalk :: "path list \<Rightarrow> node \<Rightarrow> failure + node" where
  "switchWalk [] ast = Inr ast"
| "switchWalk (p # ps) ast =
     (case visitSwitchStatement p ast of
        Inl e \<Rightarrow> Inl e
      | Inr (ast', g1, g2, skip) \<Rightarrow> switchWalk (after g2 (after g1 (skipped skip p ps))) ast')"
  by pat_completeness auto

lemma length_walk_rest: "length (after g2 (after g1 (skipped skip p ps))) < Suc (length ps)"
  using length_after [of g2 "after g1 (skipped skip p ps)"] length_after [of g1 "skipped skip p ps"]
    length_skipped [of skip p ps]
  by simp

termination switchWalk
  by (relation "measure (\<lambda>(ps, ast). length ps)") (auto simp: length_walk_rest)

text \<open>
  \<^verbatim>\<open>
  controlFlowFlat() {
    this.transformForLoop()
    traverse(this.ast, { SwitchStatement(path) { ... } })
  }
  \<close>
\<close>

definition controlFlowFlat :: "node \<Rightarrow> failure + node" where
  "controlFlowFlat ast = switchWalk (switches (transformForLoop ast)) (transformForLoop ast)"

text \<open>
  Functions for the examples: \<open>flat_function alphabet cases rest\<close> is
  \<^verbatim>\<open>function a() { var o = "..."["split"]("|"), i = 0;
  while (true) { switch (o[i++]) { cases } break; } rest }\<close>
\<close>

definition flat_order :: "string \<Rightarrow> node" where
  "flat_order alphabet =
     VariableDeclarator (Identifier ''o'')
       (Some (CallExpression
                (MemberExpression (StringLiteral alphabet) (StringLiteral ''split'') True)
                [StringLiteral ''|''] []))"

definition flat_counter :: node where
  "flat_counter = VariableDeclarator (Identifier ''i'') (Some (NumericLiteral 0))"

definition flat_discriminant :: node where
  "flat_discriminant =
     MemberExpression (Identifier ''o'') (UpdateExpression ''++'' False (Identifier ''i'')) True"

definition flat_loop :: "node list \<Rightarrow> node" where
  "flat_loop cases =
     WhileStatement (BooleanLiteral True)
       (BlockStatement [SwitchStatement flat_discriminant cases, BreakStatement])"

definition flat_function :: "string \<Rightarrow> node list \<Rightarrow> node list \<Rightarrow> node" where
  "flat_function alphabet cases rest =
     Program
       [FunctionDeclaration ''a'' []
          (BlockStatement
             (VariableDeclaration ''var'' [flat_order alphabet, flat_counter]
              # flat_loop cases # rest))]"

definition flat_call :: "string \<Rightarrow> node" where
  "flat_call name = ExpressionStatement (CallExpression (Identifier name) [] [])"

text \<open>
  The function of the example in the doc comment of \<^verbatim>\<open>controlFlowFlat\<close>, with the cases
  \<^verbatim>\<open>case "0": return x; case "1": if (t !== "link") { return; } continue;
  case "2": x["charset"] = "utf-8"; continue; case "3": var x = d(t); continue;\<close>
  and the alphabet \<^verbatim>\<open>"1|3|2|0"\<close>.
\<close>

definition flat_case0 :: node where
  "flat_case0 = ReturnStatement (Some (Identifier ''x''))"

definition flat_case1 :: node where
  "flat_case1 =
     IfStatement (BinaryExpression ''!=='' (Identifier ''t'') (StringLiteral ''link''))
       (BlockStatement [ReturnStatement None]) None"

definition flat_case2 :: node where
  "flat_case2 =
     ExpressionStatement
       (AssignmentExpression ''=''
          (MemberExpression (Identifier ''x'') (StringLiteral ''charset'') True)
          (StringLiteral ''utf-8''))"

definition flat_case3 :: node where
  "flat_case3 =
     VariableDeclaration ''var''
       [VariableDeclarator (Identifier ''x'')
          (Some (CallExpression (Identifier ''d'') [Identifier ''t''] []))]"

definition flat_cases :: "node list" where
  "flat_cases =
     [SwitchCase (Some (StringLiteral ''0'')) [flat_case0],
      SwitchCase (Some (StringLiteral ''1'')) [flat_case1, ContinueStatement],
      SwitchCase (Some (StringLiteral ''2'')) [flat_case2, ContinueStatement],
      SwitchCase (Some (StringLiteral ''3'')) [flat_case3, ContinueStatement]]"

definition flat_program :: node where
  "flat_program = flat_function ''1|3|2|0'' flat_cases []"

text \<open>
  Three functions that run \<^verbatim>\<open>f(); g();\<close>, \<^verbatim>\<open>f(); h();\<close> and \<^verbatim>\<open>f(); g();\<close>: one with
  the statement \<^verbatim>\<open>g();\<close> after the loop, one with a case of two statements,
  \<^verbatim>\<open>case "0": f(); h(); continue;\<close>, and one with the alphabet \<^verbatim>\<open>"1|0"\<close> and the cases
  written in the order of their run, \<^verbatim>\<open>case "1": f(); continue; case "0": g(); continue;\<close>
\<close>

definition flat_then :: node where
  "flat_then =
     flat_function ''0''
       [SwitchCase (Some (StringLiteral ''0'')) [flat_call ''f'', ContinueStatement]]
       [flat_call ''g'']"

definition flat_two :: node where
  "flat_two =
     flat_function ''0''
       [SwitchCase (Some (StringLiteral ''0''))
          [flat_call ''f'', flat_call ''h'', ContinueStatement]]
       []"

definition flat_swapped :: node where
  "flat_swapped =
     flat_function ''1|0''
       [SwitchCase (Some (StringLiteral ''1'')) [flat_call ''f'', ContinueStatement],
        SwitchCase (Some (StringLiteral ''0'')) [flat_call ''g'', ContinueStatement]]
       []"

section \<open>Theorems\<close>

lemma digit_val_digit_char: "d < 10 \<Longrightarrow> digit_val (digit_char d) = d"
proof -
  assume "d < 10"
  then have "d \<in> {0, 1, 2, 3, 4, 5, 6, 7, 8, 9}" by auto
  then show ?thesis by (auto simp: digit_val_def digit_char_def)
qed

lemma fromDecimal_snoc: "fromDecimal (s @ [c]) = 10 * fromDecimal s + digit_val c"
  by (simp add: fromDecimal_def)

lemma fromDecimal_toString: "fromDecimal (toString n) = n"
proof (induction n rule: toString.induct)
  case (1 n)
  show ?case
  proof (cases "n < 10")
    case True
    then show ?thesis
      by (subst toString.simps) (simp add: fromDecimal_def digit_val_digit_char)
  next
    case False
    with "1" have "fromDecimal (toString (n div 10)) = n div 10" by simp
    with False show ?thesis
      by (subst toString.simps) (simp add: fromDecimal_snoc digit_val_digit_char)
  qed
qed

text \<open>
  C10. \<open>getPropName\<close> is a total function of the node (it has a value on every node and
  no branch raises), for every rendering \<open>numberToString\<close> of numbers: the name of an
  \<open>Identifier\<close>, the value of a \<open>StringLiteral\<close>, the rendering \<^verbatim>\<open>value.toString()\<close> of
  the value of a \<open>NumericLiteral\<close>, and the empty string for every node of any other
  kind. For a value below \<open>10^21\<close>, where the rendering of the language is the digit
  string, the result is the decimal digit string, which reads back as the value.
\<close>

theorem getPropName_total:
  "getPropName numberToString (Identifier name) = name
   \<and> getPropName numberToString (StringLiteral s) = s
   \<and> getPropName numberToString (NumericLiteral v) = numberToString v
   \<and> (v < 10 ^ 21 \<and> numberToString v = toString v \<longrightarrow>
         getPropName numberToString (NumericLiteral v) = toString v
         \<and> fromDecimal (getPropName numberToString (NumericLiteral v)) = v)
   \<and> (\<not> isIdentifier n \<and> \<not> isStringLiteral n \<and> \<not> isNumericLiteral n
        \<longrightarrow> getPropName numberToString n = [])"
  by (simp add: getPropName_def fromDecimal_toString)

theorem getPropName_total_witness:
  "getPropName toString (Identifier ''split'') = ''split''
   \<and> getPropName toString (StringLiteral ''k'') = ''k''
   \<and> (2024 :: nat) < 10 ^ 21
   \<and> getPropName toString (NumericLiteral 2024) = ''2024''
   \<and> fromDecimal (getPropName toString (NumericLiteral 2024)) = 2024
   \<and> \<not> isIdentifier (ArrayExpression [])
   \<and> getPropName toString (ArrayExpression []) = []"
  using getPropName_total [of toString "''split''" "''k''" 2024 "ArrayExpression []"]
  by (simp add: toString.simps digit_char_def fromDecimal_def digit_val_def)

subsection \<open>Self-invoking functions\<close>

lemma selfCallBody_unary_call:
  "selfCallBody (UnaryExpression op (CallExpression (FunctionExpression fid ps body) [] cs))
     = Some body"
  by (simp add: selfCallBody_def)

lemma selfCallBody_call: "selfCallBody (CallExpression c as cs) = None"
  by (simp add: selfCallBody_def)

text \<open>
  C6, as the claim states it, fails: the statement \<^verbatim>\<open>(function(){ a() })();\<close> is an
  \<open>ExpressionStatement\<close> whose expression is the call itself (parentheses are no node),
  not a \<open>UnaryExpression\<close>; the callback's first condition is false and the pass leaves
  the statement as it is, instead of the block \<^verbatim>\<open>{ a(); }\<close>.
\<close>

theorem removeSelfCallFn_bare_call_kept:
  "removeSelfCallFn
     (Program [ExpressionStatement
        (CallExpression
           (FunctionExpression None []
              (BlockStatement [ExpressionStatement (CallExpression (Identifier ''a'') [] [])]))
           [] [])])
   = Program [ExpressionStatement
        (CallExpression
           (FunctionExpression None []
              (BlockStatement [ExpressionStatement (CallExpression (Identifier ''a'') [] [])]))
           [] [])]
   \<and> removeSelfCallFn
     (Program [ExpressionStatement
        (CallExpression
           (FunctionExpression None []
              (BlockStatement [ExpressionStatement (CallExpression (Identifier ''a'') [] [])]))
           [] [])])
   \<noteq> Program [BlockStatement [ExpressionStatement (CallExpression (Identifier ''a'') [] [])]]"
  by (simp add: selfCallBody_def)

text \<open>
  C6, amended. An \<open>ExpressionStatement\<close> whose expression is a unary operator (any
  operator) applied to the call, without arguments, of a function expression is replaced
  by the function's body, a block that the walk does not descend into; this holds for the
  statement at any position of the program body. An \<open>ExpressionStatement\<close> of any other
  shape stays an \<open>ExpressionStatement\<close> (its expression is walked). In particular
  \<^verbatim>\<open>!function(){a()}();\<close> becomes the block \<^verbatim>\<open>{ a(); }\<close>.
\<close>

theorem removeSelfCallFn_unary_self_call:
  "removeSelfCallFn
     (ExpressionStatement
        (UnaryExpression op (CallExpression (FunctionExpression fid ps (BlockStatement body)) [] cs)))
   = BlockStatement body
   \<and> removeSelfCallFn
       (Program (pre @
          [ExpressionStatement
            (UnaryExpression op
               (CallExpression (FunctionExpression fid ps (BlockStatement body)) [] cs))] @ post))
     = Program (map removeSelfCallFn pre @ [BlockStatement body] @ map removeSelfCallFn post)
   \<and> (selfCallBody e = None \<longrightarrow>
        removeSelfCallFn (ExpressionStatement e) = ExpressionStatement (removeSelfCallFn e))
   \<and> removeSelfCallFn
       (Program [ExpressionStatement
          (UnaryExpression ''!''
             (CallExpression
                (FunctionExpression None []
                   (BlockStatement [ExpressionStatement (CallExpression (Identifier ''a'') [] [])]))
                [] []))])
     = Program [BlockStatement [ExpressionStatement (CallExpression (Identifier ''a'') [] [])]]"
  by (simp add: selfCallBody_unary_call)

theorem removeSelfCallFn_unary_self_call_witness:
  "selfCallBody (CallExpression (Identifier ''f'') [] []) = None
   \<and> removeSelfCallFn (ExpressionStatement (CallExpression (Identifier ''f'') [] []))
     = ExpressionStatement (CallExpression (Identifier ''f'') [] [])"
  using removeSelfCallFn_unary_self_call
    [of "''!''" None "[]" "[]" "[]" "[]" "[]" "CallExpression (Identifier ''f'') [] []"]
  by (simp add: selfCallBody_call)

subsection \<open>Decoder calls\<close>

lemma stringLiteral_not_string:
  "getType v \<noteq> ''string'' \<Longrightarrow>
   stringLiteral v = Inl (''Property value expected type of string but got '' @ getType v)"
  by (cases v) (simp_all add: stringLiteral_def)

text \<open>
  C2, as the claim states it, fails: the decoder call \<^verbatim>\<open>d(2)\<close> has a constant argument
  and its evaluation succeeds, returning the number 5. The builder of the string literal
  rejects the number, so the call is not replaced by a string literal: it is left in
  place with the failure comment, and the result map nevertheless has an entry for it.
\<close>

theorem decryptReplace_number_result:
  "example_eval (CallExpression (Identifier ''d'') [NumericLiteral 2] []) = Inr (VNumber 5)
   \<and> decryptReplace [''d''] False example_eval
       (Program [ExpressionStatement (CallExpression (Identifier ''d'') [NumericLiteral 2] [])])
     = Inr (Program [ExpressionStatement
              (CallExpression (Identifier ''d'') [NumericLiteral 2]
                 [''decrypt failed: Property value expected type of string but got number''])],
            [(CallExpression (Identifier ''d'') [NumericLiteral 2] [], VNumber 5)])"
  by (simp add: decryptReplace_def decryptCall_def example_eval_def stringLiteral_def
      decryptFailed_def)

text \<open>
  C2, amended. For a call whose callee is an identifier of the decoder list:
  when no argument is an identifier and the evaluation returns a string, the call is
  replaced by the string literal of that value and the result map records it; when the
  evaluation throws, the call stays (callee and arguments walked) with one more leading
  comment that carries the message, and the map gets no entry for it; when the
  evaluation returns a value that is not a string, the call stays with the comment of the
  builder's failure, and the map has an entry for it all the same; when an argument is an
  identifier, the call is neither evaluated nor replaced nor recorded (its arguments are
  walked). With a non-empty decoder list and setup code that does not throw,
  \<open>decryptReplace\<close> is this walk of the tree.
\<close>

theorem decryptReplace_decoder_call:
  assumes "name \<in> set decryptFnList"
  shows "(\<not> list_ex isIdentifier args
          \<and> eval (CallExpression (Identifier name) args cs) = Inr (VString s) \<longrightarrow>
            decrypt decryptFnList eval (CallExpression (Identifier name) args cs)
              = (StringLiteral s, [(CallExpression (Identifier name) args cs, VString s)]))
       \<and> (\<not> list_ex isIdentifier args
          \<and> eval (CallExpression (Identifier name) args cs) = Inl message \<longrightarrow>
            decrypt decryptFnList eval (CallExpression (Identifier name) args cs)
              = (CallExpression (Identifier name)
                   (map (\<lambda>x. fst (decrypt decryptFnList eval x)) args)
                   (cs @ [decryptFailed message]),
                 concat (map (\<lambda>x. snd (decrypt decryptFnList eval x)) args)))
       \<and> (\<not> list_ex isIdentifier args
          \<and> eval (CallExpression (Identifier name) args cs) = Inr v
          \<and> getType v \<noteq> ''string'' \<longrightarrow>
            decrypt decryptFnList eval (CallExpression (Identifier name) args cs)
              = (CallExpression (Identifier name)
                   (map (\<lambda>x. fst (decrypt decryptFnList eval x)) args)
                   (cs @ [decryptFailed
                            (''Property value expected type of string but got '' @ getType v)]),
                 (CallExpression (Identifier name) args cs, v)
                   # concat (map (\<lambda>x. snd (decrypt decryptFnList eval x)) args)))
       \<and> (list_ex isIdentifier args \<longrightarrow>
            decrypt decryptFnList eval (CallExpression (Identifier name) args cs)
              = (CallExpression (Identifier name)
                   (map (\<lambda>x. fst (decrypt decryptFnList eval x)) args) cs,
                 concat (map (\<lambda>x. snd (decrypt decryptFnList eval x)) args)))
       \<and> decryptReplace decryptFnList False eval ast = Inr (decrypt decryptFnList eval ast)"
proof -
  have replaced: "\<not> list_ex isIdentifier args
      \<and> eval (CallExpression (Identifier name) args cs) = Inr (VString s) \<longrightarrow>
      decrypt decryptFnList eval (CallExpression (Identifier name) args cs)
        = (StringLiteral s, [(CallExpression (Identifier name) args cs, VString s)])"
    using assms by (simp add: decryptCall_def stringLiteral_def)
  have thrown: "\<not> list_ex isIdentifier args
      \<and> eval (CallExpression (Identifier name) args cs) = Inl message \<longrightarrow>
      decrypt decryptFnList eval (CallExpression (Identifier name) args cs)
        = (CallExpression (Identifier name)
             (map (\<lambda>x. fst (decrypt decryptFnList eval x)) args)
             (cs @ [decryptFailed message]),
           concat (map (\<lambda>x. snd (decrypt decryptFnList eval x)) args))"
    using assms by (simp add: decryptCall_def)
  have rejected: "\<not> list_ex isIdentifier args
      \<and> eval (CallExpression (Identifier name) args cs) = Inr v
      \<and> getType v \<noteq> ''string'' \<longrightarrow>
      decrypt decryptFnList eval (CallExpression (Identifier name) args cs)
        = (CallExpression (Identifier name)
             (map (\<lambda>x. fst (decrypt decryptFnList eval x)) args)
             (cs @ [decryptFailed
                      (''Property value expected type of string but got '' @ getType v)]),
           (CallExpression (Identifier name) args cs, v)
             # concat (map (\<lambda>x. snd (decrypt decryptFnList eval x)) args))"
    using assms by (simp add: decryptCall_def stringLiteral_not_string)
  have skipped: "list_ex isIdentifier args \<longrightarrow>
      decrypt decryptFnList eval (CallExpression (Identifier name) args cs)
        = (CallExpression (Identifier name)
             (map (\<lambda>x. fst (decrypt decryptFnList eval x)) args) cs,
           concat (map (\<lambda>x. snd (decrypt decryptFnList eval x)) args))"
    using assms by (simp add: decryptCall_def)
  have "decryptFnList \<noteq> []" using assms by auto
  then have whole: "decryptReplace decryptFnList False eval ast
      = Inr (decrypt decryptFnList eval ast)"
    by (simp add: decryptReplace_def)
  from replaced thrown rejected skipped whole show ?thesis by blast
qed

theorem decryptReplace_decoder_call_witness:
  "''d'' \<in> set [''d'']
   \<and> \<not> list_ex isIdentifier [NumericLiteral 1]
   \<and> example_eval (CallExpression (Identifier ''d'') [NumericLiteral 1] []) = Inr (VString ''hello'')
   \<and> decrypt [''d''] example_eval (CallExpression (Identifier ''d'') [NumericLiteral 1] [])
       = (StringLiteral ''hello'',
          [(CallExpression (Identifier ''d'') [NumericLiteral 1] [], VString ''hello'')])
   \<and> example_eval (CallExpression (Identifier ''d'') [NumericLiteral 3] []) = Inl ''boom''
   \<and> decrypt [''d''] example_eval (CallExpression (Identifier ''d'') [NumericLiteral 3] [])
       = (CallExpression (Identifier ''d'') [NumericLiteral 3] [''decrypt failed: boom''], [])
   \<and> getType (VNumber 5) \<noteq> ''string''
   \<and> decrypt [''d''] example_eval (CallExpression (Identifier ''d'') [NumericLiteral 2] [])
       = (CallExpression (Identifier ''d'') [NumericLiteral 2]
            [''decrypt failed: Property value expected type of string but got number''],
          [(CallExpression (Identifier ''d'') [NumericLiteral 2] [], VNumber 5)])
   \<and> list_ex isIdentifier [Identifier ''x'']
   \<and> decrypt [''d''] example_eval (CallExpression (Identifier ''d'') [Identifier ''x''] [])
       = (CallExpression (Identifier ''d'') [Identifier ''x''] [], [])"
proof -
  have m: "''d'' \<in> set [''d'']" by simp
  show ?thesis
    using decryptReplace_decoder_call
            [OF m, of "[NumericLiteral 1]" example_eval "[]" "''hello''" "''boom''" "VNumber 5"]
          decryptReplace_decoder_call
            [OF m, of "[NumericLiteral 3]" example_eval "[]" "''hello''" "''boom''" "VNumber 5"]
          decryptReplace_decoder_call
            [OF m, of "[NumericLiteral 2]" example_eval "[]" "''hello''" "''boom''" "VNumber 5"]
          decryptReplace_decoder_call
            [OF m, of "[Identifier ''x'']" example_eval "[]" "''hello''" "''boom''" "VNumber 5"]
    by (simp add: example_eval_def decryptFailed_def)
qed

subsection \<open>Constant folding\<close>

lemma foldUnary_literal: "isLiteral n \<Longrightarrow> foldUnary n = n"
  by (cases n) simp_all

lemma foldUnary_valueToNode: "foldUnary (valueToNode v) = valueToNode v"
proof (induction v)
  case (VArray vs)
  then have "map foldUnary (map valueToNode vs) = map valueToNode vs"
    by (induction vs) simp_all
  then show ?case by simp
qed (simp_all add: unaryRewrite_def)

lemma isLiteral_not_identifier: "isLiteral n \<Longrightarrow> \<not> isIdentifier n"
  by (cases n) simp_all

lemma transformConcatenated_literals:
  "isLiteral l \<Longrightarrow> isLiteral r \<Longrightarrow>
   transformConcatenated ev op l r =
     ((case ev (BinaryExpression op l r) of
         Some v \<Rightarrow> valueToNode v
       | None \<Rightarrow> BinaryExpression op l r), True)"
  by (simp add: transformConcatenated_def isLiteral_not_identifier)

lemma transformConcatenated_identifier:
  "isIdentifier l \<or> isIdentifier r \<Longrightarrow>
   transformConcatenated ev op l r = (BinaryExpression op l r, False)"
  by (auto simp: transformConcatenated_def)

lemma transformConcatenated_binary_left:
  "transformConcatenated ev op (BinaryExpression op' a b) r
     = (BinaryExpression op (BinaryExpression op' a b) r, False)"
  by (simp add: transformConcatenated_def)

lemma foldBinary_identifier: "isIdentifier n \<Longrightarrow> foldBinary ev n = (n, False)"
  by (cases n) simp_all

lemma foldBinary_identifier_operand:
  assumes "isIdentifier l \<or> isIdentifier r"
  shows "foldBinary ev (BinaryExpression op l r)
           = (BinaryExpression op (fst (foldBinary ev l)) (fst (foldBinary ev r)), False)"
proof -
  have enter: "transformConcatenated ev op l r = (BinaryExpression op l r, False)"
    using assms by (rule transformConcatenated_identifier)
  show ?thesis
  proof (cases "isIdentifier l")
    case True
    then have l: "foldBinary ev l = (l, False)" by (rule foldBinary_identifier)
    have "transformConcatenated ev op l (fst (foldBinary ev r))
            = (BinaryExpression op l (fst (foldBinary ev r)), False)"
      using True by (simp add: transformConcatenated_identifier)
    with enter l show ?thesis by simp
  next
    case False
    with assms have r: "isIdentifier r" by simp
    then have fr: "foldBinary ev r = (r, False)" by (rule foldBinary_identifier)
    have "transformConcatenated ev op (fst (foldBinary ev l)) r
            = (BinaryExpression op (fst (foldBinary ev l)) r, False)"
      using r by (simp add: transformConcatenated_identifier)
    with enter fr show ?thesis by simp
  qed
qed

lemma concatChain_snoc:
  "concatChain s1 s2 (rest @ [s])
     = BinaryExpression ''+'' (concatChain s1 s2 rest) (StringLiteral s)"
  by (simp add: concatChain_def)

lemma concatChain_binary: "\<exists>a b. concatChain s1 s2 rest = BinaryExpression ''+'' a b"
  by (cases rest rule: rev_cases) (simp_all add: concatChain_def)

lemma foldBinary_chain:
  assumes ev: "\<And>a b. ev (BinaryExpression ''+'' (StringLiteral a) (StringLiteral b))
                        = Some (VString (a @ b))"
  shows "foldBinary ev (concatChain s1 s2 rest) = (StringLiteral (s1 @ s2 @ concat rest), True)"
proof (induction rest rule: rev_induct)
  case Nil
  show ?case
    by (simp add: concatChain_def transformConcatenated_literals ev)
next
  case (snoc s rest)
  obtain a b where ab: "concatChain s1 s2 rest = BinaryExpression ''+'' a b"
    using concatChain_binary by blast
  have enter: "transformConcatenated ev ''+'' (concatChain s1 s2 rest) (StringLiteral s)
      = (BinaryExpression ''+'' (concatChain s1 s2 rest) (StringLiteral s), False)"
    unfolding ab by (rule transformConcatenated_binary_left)
  have again: "transformConcatenated ev ''+'' (StringLiteral (s1 @ s2 @ concat rest))
      (StringLiteral s) = (StringLiteral (s1 @ s2 @ concat rest @ s), True)"
    by (simp add: transformConcatenated_literals ev)
  show ?case
    unfolding concatChain_snoc using enter again snoc.IH by simp
qed

text \<open>
  C7, as the claim states it, fails: in \<^verbatim>\<open>/a/ + "b"\<close> both operands are literals
  (\<^verbatim>\<open>t.isLiteral\<close> holds of a regular expression), the evaluator is not confident on a
  regular expression, and the binary expression is left as it is.
\<close>

theorem calcBinary_regexp_operand_kept:
  "isLiteral (RegExpLiteral ''a'' []) \<and> isLiteral (StringLiteral ''b'')
   \<and> calcBinary evaluate_literals
       (Program [ExpressionStatement
          (BinaryExpression ''+'' (RegExpLiteral ''a'' []) (StringLiteral ''b''))])
     = Program [ExpressionStatement
          (BinaryExpression ''+'' (RegExpLiteral ''a'' []) (StringLiteral ''b''))]"
  by (simp add: calcBinary_def transformConcatenated_def)

text \<open>
  C7, amended. A binary expression whose two operands are both literals is replaced by
  the node of its value (\<open>valueToNode\<close>: a literal, or a unary minus applied to a numeric
  literal when the value is a number below zero) when the evaluator is confident, and is
  left as it is when the evaluator is not. After a fold the parent binary expression is
  examined again, so that a chain of string literals joined by \<^verbatim>\<open>+\<close> collapses to one
  string literal (for every evaluator that concatenates two string literals). A binary
  expression one of whose operands is an identifier stays a binary expression (its
  operands are walked). \<^verbatim>\<open>!![]\<close> becomes \<^verbatim>\<open>true\<close>, \<^verbatim>\<open>![]\<close> becomes \<^verbatim>\<open>false\<close>, \<^verbatim>\<open>!0\<close>
  becomes \<^verbatim>\<open>true\<close> and \<^verbatim>\<open>!1\<close> becomes \<^verbatim>\<open>false\<close>. The rewrites apply to the expression
  of a statement at any position of the program body.
\<close>

theorem calcBinary_folds:
  "(isLiteral l \<and> isLiteral r \<and> evaluate (BinaryExpression op l r) = Some v \<longrightarrow>
      calcBinary evaluate (BinaryExpression op l r) = valueToNode v)
   \<and> (isLiteral l \<and> isLiteral r \<and> evaluate (BinaryExpression op l r) = None \<longrightarrow>
      calcBinary evaluate (BinaryExpression op l r) = BinaryExpression op l r)
   \<and> ((\<forall>a b. evaluate (BinaryExpression ''+'' (StringLiteral a) (StringLiteral b))
               = Some (VString (a @ b))) \<longrightarrow>
      calcBinary evaluate (concatChain s1 s2 rest) = StringLiteral (s1 @ s2 @ concat rest))
   \<and> (isIdentifier l \<or> isIdentifier r \<longrightarrow>
      calcBinary evaluate (BinaryExpression op l r)
        = BinaryExpression op (calcBinary evaluate l) (calcBinary evaluate r))
   \<and> calcBinary evaluate (UnaryExpression ''!'' (UnaryExpression ''!'' (ArrayExpression [])))
       = BooleanLiteral True
   \<and> calcBinary evaluate (UnaryExpression ''!'' (ArrayExpression [])) = BooleanLiteral False
   \<and> calcBinary evaluate (UnaryExpression ''!'' (NumericLiteral 0)) = BooleanLiteral True
   \<and> calcBinary evaluate (UnaryExpression ''!'' (NumericLiteral 1)) = BooleanLiteral False
   \<and> calcBinary evaluate (Program (pre @ [ExpressionStatement e] @ post))
       = Program (map (calcBinary evaluate) pre @ [ExpressionStatement (calcBinary evaluate e)]
                  @ map (calcBinary evaluate) post)"
proof -
  have folded: "isLiteral l \<and> isLiteral r \<and> evaluate (BinaryExpression op l r) = Some v \<longrightarrow>
      calcBinary evaluate (BinaryExpression op l r) = valueToNode v"
    by (simp add: calcBinary_def transformConcatenated_literals foldUnary_valueToNode)
  have kept: "isLiteral l \<and> isLiteral r \<and> evaluate (BinaryExpression op l r) = None \<longrightarrow>
      calcBinary evaluate (BinaryExpression op l r) = BinaryExpression op l r"
    by (simp add: calcBinary_def transformConcatenated_literals foldUnary_literal)
  have chain: "(\<forall>a b. evaluate (BinaryExpression ''+'' (StringLiteral a) (StringLiteral b))
               = Some (VString (a @ b))) \<longrightarrow>
      calcBinary evaluate (concatChain s1 s2 rest) = StringLiteral (s1 @ s2 @ concat rest)"
    by (simp add: calcBinary_def foldBinary_chain)
  have ident: "isIdentifier l \<or> isIdentifier r \<longrightarrow>
      calcBinary evaluate (BinaryExpression op l r)
        = BinaryExpression op (calcBinary evaluate l) (calcBinary evaluate r)"
    by (simp add: calcBinary_def foldBinary_identifier_operand del: foldBinary.simps)
  have unary: "calcBinary evaluate (UnaryExpression ''!'' (UnaryExpression ''!'' (ArrayExpression [])))
       = BooleanLiteral True"
    "calcBinary evaluate (UnaryExpression ''!'' (ArrayExpression [])) = BooleanLiteral False"
    "calcBinary evaluate (UnaryExpression ''!'' (NumericLiteral 0)) = BooleanLiteral True"
    "calcBinary evaluate (UnaryExpression ''!'' (NumericLiteral 1)) = BooleanLiteral False"
    by (simp_all add: calcBinary_def unaryRewrite_def)
  have place: "calcBinary evaluate (Program (pre @ [ExpressionStatement e] @ post))
       = Program (map (calcBinary evaluate) pre @ [ExpressionStatement (calcBinary evaluate e)]
                  @ map (calcBinary evaluate) post)"
    by (simp add: calcBinary_def)
  from folded kept chain ident unary place show ?thesis by blast
qed

theorem calcBinary_folds_witness:
  "isLiteral (NumericLiteral 1) \<and> isLiteral (NumericLiteral 2)
   \<and> evaluate_literals (BinaryExpression ''-'' (NumericLiteral 1) (NumericLiteral 2))
       = Some (VNumber (- 1))
   \<and> calcBinary evaluate_literals (BinaryExpression ''-'' (NumericLiteral 1) (NumericLiteral 2))
       = UnaryExpression ''-'' (NumericLiteral 1)
   \<and> (\<forall>a b. evaluate_literals (BinaryExpression ''+'' (StringLiteral a) (StringLiteral b))
              = Some (VString (a @ b)))
   \<and> calcBinary evaluate_literals
       (BinaryExpression ''+''
          (BinaryExpression ''+'' (StringLiteral ''1'') (StringLiteral ''2''))
          (StringLiteral ''3''))
       = StringLiteral ''123''
   \<and> isLiteral (RegExpLiteral ''a'' []) \<and> isLiteral (StringLiteral ''b'')
   \<and> evaluate_literals (BinaryExpression ''+'' (RegExpLiteral ''a'' []) (StringLiteral ''b''))
       = None
   \<and> calcBinary evaluate_literals
       (BinaryExpression ''+'' (RegExpLiteral ''a'' []) (StringLiteral ''b''))
       = BinaryExpression ''+'' (RegExpLiteral ''a'' []) (StringLiteral ''b'')
   \<and> isIdentifier (Identifier ''x'')
   \<and> calcBinary evaluate_literals
       (BinaryExpression ''+'' (StringLiteral ''1'') (Identifier ''x''))
       = BinaryExpression ''+'' (StringLiteral ''1'') (Identifier ''x'')"
  using calcBinary_folds
          [of "NumericLiteral 1" "NumericLiteral 2" evaluate_literals "''-''" "VNumber (- 1)"
              "''1''" "''2''" "[''3'']" "[]" "NullLiteral" "[]"]
        calcBinary_folds
          [of "RegExpLiteral ''a'' []" "StringLiteral ''b''" evaluate_literals "''+''" "VNull"
              "''1''" "''2''" "[''3'']" "[]" "NullLiteral" "[]"]
        calcBinary_folds
          [of "StringLiteral ''1''" "Identifier ''x''" evaluate_literals "''+''" "VNull"
              "''1''" "''2''" "[''3'']" "[]" "NullLiteral" "[]"]
  by (simp add: concatChain_def calcBinary_def)

subsection \<open>Sequence splitting\<close>

lemma exitExpressionStatement_zero:
  "snd (exitExpressionStatement e) = 0 \<Longrightarrow>
   fst (exitExpressionStatement e) = Same (ExpressionStatement e)"
  by (cases e) (simp_all add: exitExpressionStatement_def)

lemma exitReturnStatement_zero:
  "snd (exitReturnStatement a) = 0 \<Longrightarrow> fst (exitReturnStatement a) = Same (ReturnStatement a)"
  by (auto simp: exitReturnStatement_def split: option.splits node.splits if_splits)

lemma exitIfStatement_zero:
  "snd (exitIfStatement t c a) = 0 \<Longrightarrow> fst (exitIfStatement t c a) = Same (IfStatement t c a)"
  by (cases t) (simp_all add: exitIfStatement_def)

lemma exitSwitchStatement_zero:
  "snd (exitSwitchStatement d cs) = 0 \<Longrightarrow>
   fst (exitSwitchStatement d cs) = Same (SwitchStatement d cs)"
  by (cases d) (simp_all add: exitSwitchStatement_def)

lemma exitThrowStatement_zero:
  "snd (exitThrowStatement a) = 0 \<Longrightarrow> fst (exitThrowStatement a) = Same (ThrowStatement a)"
  by (cases a) (simp_all add: exitThrowStatement_def)

lemma exitForInStatement_zero:
  "snd (exitForInStatement l r b) = 0 \<Longrightarrow>
   fst (exitForInStatement l r b) = Same (ForInStatement l r b)"
  by (cases r) (simp_all add: exitForInStatement_def)

lemma exitVariableDeclaration_zero:
  "snd (snd (exitVariableDeclaration k ds)) = 0 \<Longrightarrow>
   exitVariableDeclaration k ds = (None, VariableDeclaration k ds, 0)"
  by (auto simp: exitVariableDeclaration_def split: list.splits option.splits node.splits)

lemma exitForStatement_zero:
  "snd (snd (exitForStatement i t u b)) = 0 \<Longrightarrow>
   exitForStatement i t u b = (None, ForStatement i t u b, 0)"
  by (auto simp: exitForStatement_def Let_def split: option.splits node.splits if_splits)

lemma walkedFor_zero:
  "snd (walkedFor None i t u b) = 0 \<Longrightarrow> walkedFor None i t u b = (Same (ForStatement i t u b), 0)"
  by (simp add: walkedFor_def Let_def exitForStatement_zero insertedBoth_def placeBefore_def)

lemma walk_list_zero:
  assumes "\<And>x. x \<in> set xs \<Longrightarrow> snd (seqWalk x) = 0 \<Longrightarrow> fst (seqWalk x) = Same x"
    and "sum_list (map (\<lambda>x. snd (seqWalk x)) xs) = 0"
  shows "concat (map (\<lambda>x. inList (fst (seqWalk x))) xs) = xs"
  using assms by (induction xs) simp_all

lemma walk_option_zero:
  assumes "\<And>x. a = Some x \<Longrightarrow> snd (seqWalk x) = 0 \<Longrightarrow> fst (seqWalk x) = Same x"
    and "(case a of None \<Rightarrow> 0 | Some x \<Rightarrow> snd (seqWalk x)) = 0"
  shows "map_option (\<lambda>x. inSlot (fst (seqWalk x))) a = a"
  using assms by (cases a) simp_all

lemma seqWalk_zero: "snd (seqWalk n) = 0 \<Longrightarrow> fst (seqWalk n) = Same n"
proof (induction n)
  case (ExpressionStatement e)
  then show ?case by (simp add: exitExpressionStatement_zero)
next
  case (ReturnStatement a)
  then have "map_option (\<lambda>x. inSlot (fst (seqWalk x))) a = a"
    by (intro walk_option_zero) auto
  with ReturnStatement.prems show ?case by (simp add: exitReturnStatement_zero)
next
  case (IfStatement t c a)
  then have "map_option (\<lambda>x. inSlot (fst (seqWalk x))) a = a"
    by (intro walk_option_zero) auto
  with IfStatement show ?case by (simp add: exitIfStatement_zero)
next
  case (SwitchStatement d cs)
  then have "concat (map (\<lambda>x. inList (fst (seqWalk x))) cs) = cs"
    by (intro walk_list_zero) auto
  with SwitchStatement show ?case by (simp add: exitSwitchStatement_zero)
next
  case (ThrowStatement a)
  then show ?case by (simp add: exitThrowStatement_zero)
next
  case (ForInStatement l r b)
  then show ?case by (simp add: exitForInStatement_zero)
next
  case (VariableDeclaration k ds)
  then have "concat (map (\<lambda>x. inList (fst (seqWalk x))) ds) = ds"
    by (intro walk_list_zero) auto
  with VariableDeclaration.prems show ?case
    by (simp add: exitVariableDeclaration_zero placeBefore_def)
next
  case (ForStatement i t u b)
  have i: "(case i of None \<Rightarrow> None | Some x \<Rightarrow> fst (forInit (fst (seqWalk x)))) = None"
    "map_option (\<lambda>x. snd (forInit (fst (seqWalk x)))) i = i"
    using ForStatement by (cases i; simp add: forInit_def Let_def)+
  have t: "map_option (\<lambda>x. inSlot (fst (seqWalk x))) t = t"
    using ForStatement by (intro walk_option_zero) (auto simp: Let_def)
  have u: "map_option (\<lambda>x. inSlot (fst (seqWalk x))) u = u"
    using ForStatement by (intro walk_option_zero) (auto simp: Let_def)
  have b: "inSlot (fst (seqWalk b)) = b"
    using ForStatement by (simp add: Let_def)
  from ForStatement.prems have "snd (walkedFor None i t u b) = 0"
    by (simp add: Let_def i t u b)
  then show ?case by (simp add: Let_def i t u b walkedFor_zero)
next
  case (ArrayExpression es)
  then have "concat (map (\<lambda>x. inList (fst (seqWalk x))) es) = es"
    by (intro walk_list_zero) auto
  then show ?case by simp
next
  case (SequenceExpression es)
  then have "concat (map (\<lambda>x. inList (fst (seqWalk x))) es) = es"
    by (intro walk_list_zero) auto
  then show ?case by simp
next
  case (CallExpression c as cs)
  then have "concat (map (\<lambda>x. inList (fst (seqWalk x))) as) = as"
    by (intro walk_list_zero) auto
  with CallExpression show ?case by simp
next
  case (FunctionExpression fid ps body)
  then have "concat (map (\<lambda>x. inList (fst (seqWalk x))) ps) = ps"
    by (intro walk_list_zero) auto
  with FunctionExpression show ?case by simp
next
  case (BlockStatement ss)
  then have "concat (map (\<lambda>x. inList (fst (seqWalk x))) ss) = ss"
    by (intro walk_list_zero) auto
  then show ?case by simp
next
  case (SwitchCase t ss)
  then have ss: "concat (map (\<lambda>x. inList (fst (seqWalk x))) ss) = ss"
    by (intro walk_list_zero) auto
  from SwitchCase have "map_option (\<lambda>x. inSlot (fst (seqWalk x))) t = t"
    by (intro walk_option_zero) auto
  with ss show ?case by simp
next
  case (VariableDeclarator i init)
  then have "map_option (\<lambda>x. inSlot (fst (seqWalk x))) init = init"
    by (intro walk_option_zero) auto
  with VariableDeclarator show ?case by simp
next
  case (FunctionDeclaration name ps body)
  then have "concat (map (\<lambda>x. inList (fst (seqWalk x))) ps) = ps"
    by (intro walk_list_zero) auto
  with FunctionDeclaration show ?case by simp
next
  case (Program ss)
  then have "concat (map (\<lambda>x. inList (fst (seqWalk x))) ss) = ss"
    by (intro walk_list_zero) auto
  then show ?case by simp
qed simp_all

lemma settled_walk_list:
  "list_all settled es \<Longrightarrow>
   concat (map (\<lambda>x. inList (fst (seqWalk x))) es) = es
   \<and> sum_list (map (\<lambda>x. snd (seqWalk x)) es) = 0"
  by (induction es) (simp_all add: settled_def)

lemma settled_walk_option:
  "pred_option settled a \<Longrightarrow>
   map_option (\<lambda>x. inSlot (fst (seqWalk x))) a = a
   \<and> (case a of None \<Rightarrow> 0 | Some x \<Rightarrow> snd (seqWalk x)) = 0"
  by (cases a) (simp_all add: settled_def)

lemma pop_last: "es \<noteq> [] \<Longrightarrow> pop es = Some (last es)"
  by (simp add: pop_def)

lemma popNode_last: "es \<noteq> [] \<Longrightarrow> popNode es = last es"
  by (simp add: popNode_def pop_def)

text \<open>
  C5, as the claim states it, fails for the two positions of a \<^verbatim>\<open>for\<close> statement. In
  \<^verbatim>\<open>for (i = 0, j = 1;;) {}\<close> every expression of the sequence becomes a statement before
  the loop, the final one too, and \<^verbatim>\<open>init\<close> is left empty. In \<^verbatim>\<open>for (;; i++, j++);\<close>
  the leading expression is not put before the loop: it becomes the statement of a new
  block body.
\<close>

theorem sequence_for_positions:
  "sequence
     (Program [ForStatement
        (Some (SequenceExpression
           [AssignmentExpression ''='' (Identifier ''i'') (NumericLiteral 0),
            AssignmentExpression ''='' (Identifier ''j'') (NumericLiteral 1)]))
        None None (BlockStatement [])])
   = (Program
        [ExpressionStatement (AssignmentExpression ''='' (Identifier ''i'') (NumericLiteral 0)),
         ExpressionStatement (AssignmentExpression ''='' (Identifier ''j'') (NumericLiteral 1)),
         ForStatement None None None (BlockStatement [])], 1)
   \<and> sequence
     (Program [ForStatement None None
        (Some (SequenceExpression
           [UpdateExpression ''++'' False (Identifier ''i''),
            UpdateExpression ''++'' False (Identifier ''j'')]))
        EmptyStatement])
   = (Program
        [ForStatement None None (Some (UpdateExpression ''++'' False (Identifier ''j'')))
           (BlockStatement [ExpressionStatement (UpdateExpression ''++'' False (Identifier ''i''))])],
      1)"
  by (simp add: sequence_def walkedFor_def exitForStatement_def insertedBoth_def placeBefore_def
      pop_def forInit_def Let_def)

text \<open>
  C5, amended. Let \<open>e1, ..., en\<close> (\<open>n > 0\<close>) and the other children of the node be settled
  (the walk finds nothing to split inside them). An expression statement of the sequence
  is replaced by the \<open>n\<close> expression statements of \<open>e1, ..., en\<close>, in order. Where the
  sequence is the argument of a \<^verbatim>\<open>return\<close> or \<^verbatim>\<open>throw\<close>, the test of an \<^verbatim>\<open>if\<close>, the
  discriminant of a \<^verbatim>\<open>switch\<close>, the right side of a \<^verbatim>\<open>for-in\<close> or the initialiser of
  the single declarator of a declaration, \<open>e1, ..., e(n-1)\<close> become statements before the
  node and \<open>en\<close> stays in the role; for a declaration that is the \<^verbatim>\<open>init\<close> of a \<^verbatim>\<open>for\<close>
  statement the statements go before the \<^verbatim>\<open>for\<close> statement. Where the sequence is the
  \<^verbatim>\<open>init\<close> of a \<^verbatim>\<open>for\<close> statement, with any test, update and body, all of
  \<open>e1, ..., en\<close> become statements before the loop and \<^verbatim>\<open>init\<close> is emptied. Where it is
  the \<^verbatim>\<open>update\<close> of a \<^verbatim>\<open>for\<close> statement with an empty body, with any test and any
  \<^verbatim>\<open>init\<close> that is no sequence, \<open>e1, ..., e(n-1)\<close> become the statements of a new block
  body and \<open>en\<close> stays the update; where both \<^verbatim>\<open>init\<close> and \<^verbatim>\<open>update\<close> are sequences and
  the body is empty, both happen and two changes are counted. (In the two \<^verbatim>\<open>init\<close>
  cases the update \<open>u\<close> and the body \<open>b\<close> are such that the rule of the update does
  not apply.) The statements that stand at the place of a statement of the program body
  are spliced into the body at its position. \<^verbatim>\<open>a = 1, b = 2; console.log(a);\<close> becomes
  \<^verbatim>\<open>a = 1; b = 2; console.log(a);\<close>, with one change counted.
\<close>

theorem sequence_splits:
  assumes "list_all settled es" and "es \<noteq> []"
    and "settled c" and "pred_option settled a" and "list_all settled cs" and "settled b"
    and "settled l" and "settled ident" and "pred_option settled t"
    and "pred_option settled u" and "\<forall>xs. u = Some (SequenceExpression xs) \<longrightarrow> b \<noteq> EmptyStatement"
    and "pred_option settled i" and "\<forall>xs. i \<noteq> Some (SequenceExpression xs)"
    and "list_all settled us" and "us \<noteq> []"
  shows "seqWalk (ExpressionStatement (SequenceExpression es))
           = (Many (map ExpressionStatement es), 1)
    \<and> seqWalk (ReturnStatement (Some (SequenceExpression es)))
        = (Many (map ExpressionStatement (butlast es) @ [ReturnStatement (Some (last es))]), 1)
    \<and> seqWalk (ThrowStatement (SequenceExpression es))
        = (Many (map ExpressionStatement (butlast es) @ [ThrowStatement (last es)]), 1)
    \<and> seqWalk (IfStatement (SequenceExpression es) c a)
        = (Many (map ExpressionStatement (butlast es) @ [IfStatement (last es) c a]), 1)
    \<and> seqWalk (SwitchStatement (SequenceExpression es) cs)
        = (Many (map ExpressionStatement (butlast es) @ [SwitchStatement (last es) cs]), 1)
    \<and> seqWalk (ForInStatement l (SequenceExpression es) b)
        = (Many (map ExpressionStatement (butlast es) @ [ForInStatement l (last es) b]), 1)
    \<and> seqWalk (VariableDeclaration k [VariableDeclarator ident (Some (SequenceExpression es))])
        = (Many (map ExpressionStatement (butlast es)
                 @ [VariableDeclaration k [VariableDeclarator ident (Some (last es))]]), 1)
    \<and> seqWalk (ForStatement
                 (Some (VariableDeclaration k
                          [VariableDeclarator ident (Some (SequenceExpression es))]))
                 t u b)
        = (Many (map ExpressionStatement (butlast es)
                 @ [ForStatement
                      (Some (VariableDeclaration k [VariableDeclarator ident (Some (last es))]))
                      t u b]), 1)
    \<and> seqWalk (ForStatement (Some (SequenceExpression es)) t u b)
        = (Many (map ExpressionStatement es @ [ForStatement None t u b]), 1)
    \<and> seqWalk (ForStatement i t (Some (SequenceExpression es)) EmptyStatement)
        = (Same (ForStatement i t (Some (last es))
                   (BlockStatement (map ExpressionStatement (butlast es)))), 1)
    \<and> seqWalk (ForStatement (Some (SequenceExpression es)) t (Some (SequenceExpression us))
                 EmptyStatement)
        = (Many (map ExpressionStatement es
                 @ [ForStatement None t (Some (last us))
                      (BlockStatement (map ExpressionStatement (butlast us)))]), 2)
    \<and> fst (sequence (Program (pre @ [s] @ post)))
        = Program (concat (map (\<lambda>x. inList (fst (seqWalk x))) pre)
                   @ inList (fst (seqWalk s))
                   @ concat (map (\<lambda>x. inList (fst (seqWalk x))) post))
    \<and> sequence
        (Program
           [ExpressionStatement
              (SequenceExpression
                 [AssignmentExpression ''='' (Identifier ''a'') (NumericLiteral 1),
                  AssignmentExpression ''='' (Identifier ''b'') (NumericLiteral 2)]),
            ExpressionStatement
              (CallExpression (MemberExpression (Identifier ''console'') (Identifier ''log'') False)
                 [Identifier ''a''] [])])
        = (Program
             [ExpressionStatement (AssignmentExpression ''='' (Identifier ''a'') (NumericLiteral 1)),
              ExpressionStatement (AssignmentExpression ''='' (Identifier ''b'') (NumericLiteral 2)),
              ExpressionStatement
                (CallExpression
                   (MemberExpression (Identifier ''console'') (Identifier ''log'') False)
                   [Identifier ''a''] [])], 1)"
proof -
  note es = settled_walk_list [OF assms(1)]
  note last = pop_last [OF assms(2)] popNode_last [OF assms(2)]
  note a = settled_walk_option [OF assms(4)]
  note cs = settled_walk_list [OF assms(5)]
  note t = settled_walk_option [OF assms(9)]
  note u = settled_walk_option [OF assms(10)]
  note i = settled_walk_option [OF assms(12)]
  note us = settled_walk_list [OF assms(14)]
  note last_us = pop_last [OF assms(15)] popNode_last [OF assms(15)]
  have quiet: "exitForStatement None t u b = (None, ForStatement None t u b, 0)"
    "exitForStatement (Some (VariableDeclaration k [VariableDeclarator ident (Some (last es))])) t u b
       = (None,
          ForStatement (Some (VariableDeclaration k [VariableDeclarator ident (Some (last es))])) t u b,
          0)"
    "exitForStatement (Some (SequenceExpression es)) t u b
       = (Some (map ExpressionStatement es), ForStatement None t u b, 1)"
    using assms(11) by (auto simp: exitForStatement_def split: option.splits node.splits)
  have init_kept: "fst (exitForStatement i t (Some (SequenceExpression es)) EmptyStatement) = None"
    "fst (snd (exitForStatement i t (Some (SequenceExpression es)) EmptyStatement))
       = ForStatement i t (Some (last es)) (BlockStatement (map ExpressionStatement (butlast es)))"
    "snd (snd (exitForStatement i t (Some (SequenceExpression es)) EmptyStatement)) = 1"
    using assms(13) by (auto simp: exitForStatement_def last split: option.splits node.splits)
  have c: "seqWalk c = (Same c, 0)" and b: "seqWalk b = (Same b, 0)"
    and l: "seqWalk l = (Same l, 0)" and ident: "seqWalk ident = (Same ident, 0)"
    using assms by (simp_all add: settled_def)
  have stmt: "seqWalk (ExpressionStatement (SequenceExpression es))
           = (Many (map ExpressionStatement es), 1)"
    by (simp add: es exitExpressionStatement_def)
  have ret: "seqWalk (ReturnStatement (Some (SequenceExpression es)))
        = (Many (map ExpressionStatement (butlast es) @ [ReturnStatement (Some (last es))]), 1)"
    by (simp add: es exitReturnStatement_def last)
  have thr: "seqWalk (ThrowStatement (SequenceExpression es))
        = (Many (map ExpressionStatement (butlast es) @ [ThrowStatement (last es)]), 1)"
    by (simp add: es exitThrowStatement_def last)
  have cond: "seqWalk (IfStatement (SequenceExpression es) c a)
        = (Many (map ExpressionStatement (butlast es) @ [IfStatement (last es) c a]), 1)"
    by (simp add: es c a exitIfStatement_def last)
  have sw: "seqWalk (SwitchStatement (SequenceExpression es) cs)
        = (Many (map ExpressionStatement (butlast es) @ [SwitchStatement (last es) cs]), 1)"
    by (simp add: es cs exitSwitchStatement_def last)
  have forin: "seqWalk (ForInStatement l (SequenceExpression es) b)
        = (Many (map ExpressionStatement (butlast es) @ [ForInStatement l (last es) b]), 1)"
    by (simp add: es l b exitForInStatement_def last)
  have decl: "seqWalk (VariableDeclaration k [VariableDeclarator ident (Some (SequenceExpression es))])
        = (Many (map ExpressionStatement (butlast es)
                 @ [VariableDeclaration k [VariableDeclarator ident (Some (last es))]]), 1)"
    by (simp add: es ident exitVariableDeclaration_def placeBefore_def last)
  have fordecl: "seqWalk (ForStatement
                 (Some (VariableDeclaration k
                          [VariableDeclarator ident (Some (SequenceExpression es))]))
                 t u b)
        = (Many (map ExpressionStatement (butlast es)
                 @ [ForStatement
                      (Some (VariableDeclaration k [VariableDeclarator ident (Some (last es))]))
                      t u b]), 1)"
    by (simp add: es ident t u b exitVariableDeclaration_def placeBefore_def last forInit_def
        walkedFor_def quiet insertedBoth_def)
  have forinit: "seqWalk (ForStatement (Some (SequenceExpression es)) t u b)
        = (Many (map ExpressionStatement es @ [ForStatement None t u b]), 1)"
    by (simp add: es t u b forInit_def walkedFor_def quiet insertedBoth_def placeBefore_def)
  have forupd: "seqWalk (ForStatement i t (Some (SequenceExpression es)) EmptyStatement)
        = (Same (ForStatement i t (Some (last es))
                   (BlockStatement (map ExpressionStatement (butlast es)))), 1)"
  proof (cases i)
    case None
    thus ?thesis
      using init_kept by (simp add: es t walkedFor_def insertedBoth_def placeBefore_def Let_def)
  next
    case (Some x)
    with assms(12) have "seqWalk x = (Same x, 0)"
      by (simp add: settled_def)
    with Some show ?thesis
      using init_kept
      by (simp add: es t forInit_def walkedFor_def insertedBoth_def placeBefore_def Let_def)
  qed
  have forboth: "seqWalk (ForStatement (Some (SequenceExpression es)) t (Some (SequenceExpression us))
                 EmptyStatement)
        = (Many (map ExpressionStatement es
                 @ [ForStatement None t (Some (last us))
                      (BlockStatement (map ExpressionStatement (butlast us)))]), 2)"
    by (simp add: es us t forInit_def walkedFor_def exitForStatement_def insertedBoth_def
        placeBefore_def last_us)
  have place: "fst (sequence (Program (pre @ [s] @ post)))
        = Program (concat (map (\<lambda>x. inList (fst (seqWalk x))) pre)
                   @ inList (fst (seqWalk s))
                   @ concat (map (\<lambda>x. inList (fst (seqWalk x))) post))"
    by (simp add: sequence_def)
  have scenario: "sequence
        (Program
           [ExpressionStatement
              (SequenceExpression
                 [AssignmentExpression ''='' (Identifier ''a'') (NumericLiteral 1),
                  AssignmentExpression ''='' (Identifier ''b'') (NumericLiteral 2)]),
            ExpressionStatement
              (CallExpression (MemberExpression (Identifier ''console'') (Identifier ''log'') False)
                 [Identifier ''a''] [])])
        = (Program
             [ExpressionStatement (AssignmentExpression ''='' (Identifier ''a'') (NumericLiteral 1)),
              ExpressionStatement (AssignmentExpression ''='' (Identifier ''b'') (NumericLiteral 2)),
              ExpressionStatement
                (CallExpression
                   (MemberExpression (Identifier ''console'') (Identifier ''log'') False)
                   [Identifier ''a''] [])], 1)"
    by (simp add: sequence_def exitExpressionStatement_def)
  from stmt ret thr cond sw forin decl fordecl forinit forupd forboth place scenario
  show ?thesis by blast
qed

theorem sequence_splits_witness:
  "list_all settled [Identifier ''f'', Identifier ''g''] \<and> [Identifier ''f'', Identifier ''g''] \<noteq> []
   \<and> settled EmptyStatement \<and> pred_option settled None \<and> list_all settled []
   \<and> settled (BlockStatement [])
   \<and> settled (Identifier ''o'') \<and> settled (Identifier ''x'')
   \<and> pred_option settled (Some (BinaryExpression ''<'' (Identifier ''i'') (Identifier ''n'')))
   \<and> pred_option settled (Some (UpdateExpression ''++'' False (Identifier ''i'')))
   \<and> seqWalk (ExpressionStatement (SequenceExpression [Identifier ''f'', Identifier ''g'']))
       = (Many [ExpressionStatement (Identifier ''f''), ExpressionStatement (Identifier ''g'')], 1)
   \<and> seqWalk (ReturnStatement (Some (SequenceExpression [Identifier ''f'', Identifier ''g''])))
       = (Many [ExpressionStatement (Identifier ''f''), ReturnStatement (Some (Identifier ''g''))], 1)
   \<and> seqWalk (ForStatement (Some (SequenceExpression [Identifier ''f'', Identifier ''g'']))
                (Some (BinaryExpression ''<'' (Identifier ''i'') (Identifier ''n'')))
                (Some (UpdateExpression ''++'' False (Identifier ''i'')))
                (BlockStatement []))
       = (Many [ExpressionStatement (Identifier ''f''), ExpressionStatement (Identifier ''g''),
                ForStatement None
                  (Some (BinaryExpression ''<'' (Identifier ''i'') (Identifier ''n'')))
                  (Some (UpdateExpression ''++'' False (Identifier ''i'')))
                  (BlockStatement [])], 1)
   \<and> seqWalk (ForStatement (Some (Identifier ''o''))
                (Some (BinaryExpression ''<'' (Identifier ''i'') (Identifier ''n'')))
                (Some (SequenceExpression [Identifier ''f'', Identifier ''g'']))
                EmptyStatement)
       = (Same (ForStatement (Some (Identifier ''o''))
                  (Some (BinaryExpression ''<'' (Identifier ''i'') (Identifier ''n'')))
                  (Some (Identifier ''g''))
                  (BlockStatement [ExpressionStatement (Identifier ''f'')])), 1)"
proof -
  let ?t = "Some (BinaryExpression ''<'' (Identifier ''i'') (Identifier ''n''))"
  let ?u = "Some (UpdateExpression ''++'' False (Identifier ''i''))"
  have h: "list_all settled [Identifier ''f'', Identifier ''g'']"
    "[Identifier ''f'', Identifier ''g''] \<noteq> []"
    "settled EmptyStatement" "pred_option settled None" "list_all settled []"
    "settled (BlockStatement [])"
    "settled (Identifier ''o'')" "settled (Identifier ''x'')"
    "pred_option settled ?t" "pred_option settled ?u"
    "\<forall>xs. ?u = Some (SequenceExpression xs) \<longrightarrow> BlockStatement [] \<noteq> EmptyStatement"
    "pred_option settled (Some (Identifier ''o''))"
    "\<forall>xs. Some (Identifier ''o'') \<noteq> Some (SequenceExpression xs)"
    by (simp_all add: settled_def)
  show ?thesis
    using h sequence_splits [OF h(1) h(2) h(3) h(4) h(5) h(6) h(7) h(8) h(9) h(10) h(11) h(12)
          h(13) h(1) h(2), of "''var''" "[]" EmptyStatement "[]"]
    by simp
qed

text \<open>
  C9, as the claim states it, fails: on \<^verbatim>\<open>return a, (b, c);\<close> one run of the transform
  gives \<^verbatim>\<open>a; return b, c;\<close> (the callback takes the last expression of the outer
  sequence, itself a sequence, as the new argument and does not visit the statement
  again); a second run changes the tree once more, to \<^verbatim>\<open>a; b; return c;\<close>.
\<close>

theorem sequence_not_idempotent:
  "sequence
     (Program [ReturnStatement
        (Some (SequenceExpression
           [Identifier ''a'', SequenceExpression [Identifier ''b'', Identifier ''c'']]))])
   = (Program [ExpressionStatement (Identifier ''a''),
               ReturnStatement (Some (SequenceExpression [Identifier ''b'', Identifier ''c'']))], 1)
   \<and> sequence
     (Program [ExpressionStatement (Identifier ''a''),
               ReturnStatement (Some (SequenceExpression [Identifier ''b'', Identifier ''c'']))])
   = (Program [ExpressionStatement (Identifier ''a''), ExpressionStatement (Identifier ''b''),
               ReturnStatement (Some (Identifier ''c''))], 1)"
  by (simp add: sequence_def exitExpressionStatement_def exitReturnStatement_def pop_def)

text \<open>
  C9, amended. A run of the \<open>sequence\<close> transform that reports zero changes returns the
  tree it was given; so from the first run that reports zero changes on, every further
  run yields the identical tree and reports zero changes.
\<close>

theorem sequence_zero_changes_fixed:
  assumes "snd (sequence x) = 0"
  shows "sequence x = (x, 0) \<and> sequence (fst (sequence x)) = sequence x"
proof -
  from assms have "snd (seqWalk x) = 0" by (simp add: sequence_def)
  then have "fst (seqWalk x) = Same x" by (rule seqWalk_zero)
  with assms have "sequence x = (x, 0)" by (simp add: sequence_def)
  then show ?thesis by simp
qed

theorem sequence_zero_changes_fixed_witness:
  "snd (sequence (Program [ExpressionStatement (Identifier ''a''),
                           ReturnStatement (Some (Identifier ''c''))])) = 0
   \<and> sequence (Program [ExpressionStatement (Identifier ''a''),
                         ReturnStatement (Some (Identifier ''c''))])
     = (Program [ExpressionStatement (Identifier ''a''),
                 ReturnStatement (Some (Identifier ''c''))], 0)"
proof -
  have z: "snd (sequence (Program [ExpressionStatement (Identifier ''a''),
                                   ReturnStatement (Some (Identifier ''c''))])) = 0"
    by (simp add: sequence_def exitExpressionStatement_def exitReturnStatement_def)
  from z sequence_zero_changes_fixed [OF z] show ?thesis by simp
qed

subsection \<open>Unreachable branches\<close>

text \<open>
  C1. The code does what the claim says for a test that evaluates to a constant:
  \<^verbatim>\<open>if(false){x()}else{y()}\<close> becomes \<^verbatim>\<open>y();\<close>. It departs from the claim in two places.
  A test that does not evaluate to a constant is taken as false: in
  \<^verbatim>\<open>if (x) { a() } else { b() }\<close> with a free \<^verbatim>\<open>x\<close> the statement is replaced by
  \<^verbatim>\<open>b();\<close>, and \<^verbatim>\<open>if (x) { a() }\<close> is removed. And the renaming of a hoisted declaration
  changes the declaring identifier only: in \<^verbatim>\<open>if (true) { let a = 2; f(a); }\<close>, with
  \<^verbatim>\<open>a\<close> bound outside, the result is \<^verbatim>\<open>let _a = 2; f(a);\<close>, whose \<^verbatim>\<open>f(a)\<close> now reads the
  outer \<^verbatim>\<open>a\<close>.
\<close>

theorem removeUnusedBlock_nonconstant_test:
  "removeUnusedBlock evaluate_literals (\<lambda>name. False) example_uid
     (Program [IfStatement (BooleanLiteral False)
        (BlockStatement [ExpressionStatement (CallExpression (Identifier ''x'') [] [])])
        (Some (BlockStatement [ExpressionStatement (CallExpression (Identifier ''y'') [] [])]))])
   = Program [ExpressionStatement (CallExpression (Identifier ''y'') [] [])]
   \<and> evaluate_literals (Identifier ''x'') = None
   \<and> removeUnusedBlock evaluate_literals (\<lambda>name. False) example_uid
     (Program [IfStatement (Identifier ''x'')
        (BlockStatement [ExpressionStatement (CallExpression (Identifier ''a'') [] [])])
        (Some (BlockStatement [ExpressionStatement (CallExpression (Identifier ''b'') [] [])]))])
   = Program [ExpressionStatement (CallExpression (Identifier ''b'') [] [])]
   \<and> removeUnusedBlock evaluate_literals (\<lambda>name. False) example_uid
     (Program [IfStatement (Identifier ''x'')
        (BlockStatement [ExpressionStatement (CallExpression (Identifier ''a'') [] [])])
        None])
   = Program []
   \<and> removeUnusedBlock evaluate_literals (\<lambda>name. name = ''a'') example_uid
     (Program [VariableDeclaration ''let'' [VariableDeclarator (Identifier ''a'') (Some (NumericLiteral 1))],
        IfStatement (BooleanLiteral True)
          (BlockStatement
             [VariableDeclaration ''let''
                [VariableDeclarator (Identifier ''a'') (Some (NumericLiteral 2))],
              ExpressionStatement (CallExpression (Identifier ''f'') [Identifier ''a''] [])])
          None])
   = Program [VariableDeclaration ''let'' [VariableDeclarator (Identifier ''a'') (Some (NumericLiteral 1))],
        VariableDeclaration ''let'' [VariableDeclarator (Identifier ''_a'') (Some (NumericLiteral 2))],
        ExpressionStatement (CallExpression (Identifier ''f'') [Identifier ''a''] [])]"
  by (simp add: removeUnusedBlock_def process_def evaluateTruthy_def replace_def rename_def
      renameDeclared_def renameDeclarator_def inAlternate_def example_uid_def)

subsection \<open>Addresses\<close>

lemma list_length1: "length xs = Suc 0 \<Longrightarrow> [xs ! 0] = xs"
  by (auto simp: length_Suc_conv)

lemma list_length2: "length xs = Suc (Suc 0) \<Longrightarrow> [xs ! 0, xs ! Suc 0] = xs"
  by (auto simp: length_Suc_conv)

lemma list_length3: "length xs = Suc (Suc (Suc 0)) \<Longrightarrow> [xs ! 0, xs ! Suc 0, xs ! Suc (Suc 0)] = xs"
  by (auto simp: length_Suc_conv)

lemma list_length3': "length xs = Suc (Suc (Suc 0)) \<Longrightarrow> [xs ! 0, xs ! Suc 0, xs ! 2] = xs"
  by (auto simp: length_Suc_conv)

lemma list_length4:
  "length xs = Suc (Suc (Suc (Suc 0))) \<Longrightarrow> [xs ! 0, xs ! Suc 0, xs ! Suc (Suc 0), xs ! Suc (Suc (Suc 0))] = xs"
  by (auto simp: length_Suc_conv)

lemma list_head_drop: "length xs = Suc k \<Longrightarrow> xs ! 0 # drop (Suc 0) xs = xs"
  by (cases xs) auto

lemma list_take_last: "length xs = Suc k \<Longrightarrow> take k xs @ [xs ! k] = xs"
  by (simp add: take_Suc_conv_app_nth [symmetric])

lemma children_rebuild: "length xs = length (children n) \<Longrightarrow> children (rebuild n xs) = xs"
  by (cases n)
     (auto simp: reopt_def list_length1 list_length2 list_length3 list_length3' list_length4 list_head_drop
        list_take_last split: option.splits)
lemma getAt_replaceAt_same: "getAt ast r \<noteq> None \<Longrightarrow> getAt (replaceAt r v ast) r = Some v"
proof (induction r arbitrary: ast)
  case Nil
  show ?case by simp
next
  case (Cons i r)
  from Cons.prems have i: "i < length (children ast)"
    by (auto split: if_splits)
  with Cons.prems have "getAt (children ast ! i) r \<noteq> None"
    by simp
  hence "getAt (replaceAt r v (children ast ! i)) r = Some v"
    by (rule Cons.IH)
  with i show ?case
    by (simp add: children_rebuild)
qed

lemma getAt_replaceAt_other:
  "\<not> below r q \<Longrightarrow> \<not> below q r \<Longrightarrow> getAt (replaceAt r v ast) q = getAt ast q"
proof (induction r arbitrary: q ast)
  case Nil
  thus ?case by (simp add: below_def)
next
  case (Cons i r)
  show ?case
  proof (cases q)
    case Nil
    with Cons.prems show ?thesis by (simp add: below_def)
  next
    case (Cons j q')
    show ?thesis
    proof (cases "i < length (children ast)")
      case False
      thus ?thesis by simp
    next
      case True
      show ?thesis
      proof (cases "j = i")
        case False
        with True Cons show ?thesis
          by (simp add: children_rebuild)
      next
        case same: True
        from Cons.prems Cons same have "\<not> below r q'" and "\<not> below q' r"
          by (simp_all add: below_def)
        hence "getAt (replaceAt r v (children ast ! i)) q' = getAt (children ast ! i) q'"
          by (rule Cons.IH)
        with True Cons same show ?thesis
          by (simp add: children_rebuild)
      qed
    qed
  qed
qed

lemma leaf_below:
  "getAt ast r = Some x \<Longrightarrow> children x = [] \<Longrightarrow> getAt ast q \<noteq> None \<Longrightarrow> below r q \<Longrightarrow> q = r"
proof (induction r arbitrary: ast q)
  case Nil
  thus ?case by (cases q) auto
next
  case (Cons i r)
  from Cons.prems(4) obtain q' where q: "q = i # q'" and b: "below r q'"
    by (cases q) (auto simp: below_def)
  from Cons.prems(1) have i: "i < length (children ast)"
    by (auto split: if_splits)
  from Cons.prems i q have "getAt (children ast ! i) r = Some x"
    and "getAt (children ast ! i) q' \<noteq> None"
    by simp_all
  with Cons.prems(2) b have "q' = r"
    by (intro Cons.IH)
  with q show ?case by simp
qed

lemma leaves_incomparable:
  assumes "getAt ast r = Some x" and "children x = []"
      and "getAt ast q = Some y" and "children y = []" and "q \<noteq> r"
  shows "\<not> below r q \<and> \<not> below q r"
  using assms leaf_below [of ast r x q] leaf_below [of ast q y r] by auto

lemma fold_replaceAt_leaves:
  assumes "children v = []"
      and "\<forall>r\<in>S. \<exists>x. getAt ast r = Some x \<and> children x = []"
      and "set refs \<subseteq> S"
  shows "(\<forall>r\<in>set refs. getAt (fold (\<lambda>r. replaceAt r v) refs ast) r = Some v)
       \<and> (\<forall>r\<in>S. r \<notin> set refs \<longrightarrow> getAt (fold (\<lambda>r. replaceAt r v) refs ast) r = getAt ast r)"
  using assms(2,3)
proof (induction refs arbitrary: ast)
  case Nil
  show ?case by simp
next
  case (Cons r0 refs)
  let ?ast = "replaceAt r0 v ast"
  from Cons.prems have r0: "r0 \<in> S" by simp
  with Cons.prems obtain x0 where x0: "getAt ast r0 = Some x0" "children x0 = []"
    by blast
  hence at0: "getAt ?ast r0 = Some v"
    by (simp add: getAt_replaceAt_same)
  have other: "getAt ?ast r = getAt ast r" if "r \<in> S" "r \<noteq> r0" for r
  proof -
    from that Cons.prems obtain x where "getAt ast r = Some x" "children x = []"
      by blast
    with x0 that have "\<not> below r0 r \<and> \<not> below r r0"
      using leaves_incomparable [of ast r0 x0 r x] by auto
    thus ?thesis by (simp add: getAt_replaceAt_other)
  qed
  have leaves: "\<forall>r\<in>S. \<exists>x. getAt ?ast r = Some x \<and> children x = []"
  proof
    fix r assume "r \<in> S"
    show "\<exists>x. getAt ?ast r = Some x \<and> children x = []"
    proof (cases "r = r0")
      case True
      with at0 assms(1) show ?thesis by simp
    next
      case False
      with \<open>r \<in> S\<close> Cons.prems other show ?thesis by auto
    qed
  qed
  from Cons.prems have "set refs \<subseteq> S" by simp
  with leaves have IH:
    "(\<forall>r\<in>set refs. getAt (fold (\<lambda>r. replaceAt r v) refs ?ast) r = Some v)
     \<and> (\<forall>r\<in>S. r \<notin> set refs \<longrightarrow> getAt (fold (\<lambda>r. replaceAt r v) refs ?ast) r = getAt ?ast r)"
    by (rule Cons.IH)
  show ?case
  proof (intro conjI ballI impI)
    fix r assume "r \<in> set (r0 # refs)"
    show "getAt (fold (\<lambda>r. replaceAt r v) (r0 # refs) ast) r = Some v"
    proof (cases "r \<in> set refs")
      case True
      with IH show ?thesis by simp
    next
      case False
      with \<open>r \<in> set (r0 # refs)\<close> have "r = r0" by simp
      with False IH r0 at0 show ?thesis by simp
    qed
  next
    fix r assume "r \<in> S" "r \<notin> set (r0 # refs)"
    with IH other show "getAt (fold (\<lambda>r. replaceAt r v) (r0 # refs) ast) r = getAt ast r"
      by simp
  qed
qed

lemma removeAt_nonempty:
  "p \<noteq> [] \<Longrightarrow>
   removeAt ast p =
     (case getAt ast (butlast p) of
        None \<Rightarrow> (ast, None)
      | Some parent \<Rightarrow>
          (case removeChild parent (last p) of
             Shrunk n \<Rightarrow> (replaceAt (butlast p) n ast, Some p)
           | Filled n \<Rightarrow> (replaceAt (butlast p) n ast, None)
           | Escalate \<Rightarrow> removeAt ast (butlast p)))"
proof (cases p)
  case Nil
  moreover assume "p \<noteq> []"
  ultimately show ?thesis by simp
next
  case (Cons i p')
  show ?thesis unfolding Cons by (rule removeAt.simps(2))
qed

lemma removeAt_declarator:
  "getAt ast q = Some (VariableDeclaration k ds) \<Longrightarrow> length ds \<noteq> 1 \<Longrightarrow>
   removeAt ast (q @ [j]) = (replaceAt q (VariableDeclaration k (del j ds)) ast, Some (q @ [j]))"
  by (simp add: removeAt_nonempty)

lemma removeAt_declaration:
  "getAt ast (q @ [i]) = Some (VariableDeclaration k [d]) \<Longrightarrow> getAt ast q = Some parent \<Longrightarrow>
   parent = Program ss \<or> parent = BlockStatement ss \<Longrightarrow>
   removeAt ast (q @ [i, 0]) = (replaceAt q (rebuild parent (del i ss)) ast, Some (q @ [i]))"
  using removeAt_nonempty [of "q @ [i, 0]" ast] removeAt_nonempty [of "q @ [i]" ast]
  by (auto simp: butlast_append)

lemma findUp_here: "getAt ast p = Some n \<Longrightarrow> test n \<Longrightarrow> findUp test ast p = Some p"
  by (subst findUp.simps) simp

lemma findUp_up:
  "getAt ast p = Some n \<Longrightarrow> \<not> test n \<Longrightarrow> p \<noteq> [] \<Longrightarrow>
   findUp test ast p = findUp test ast (butlast p)"
  by (subst findUp.simps) simp

subsection \<open>Decoder functions by call count\<close>









text \<open>
  Where the first declaration of the name is in a case of a \<^verbatim>\<open>switch\<close> statement the
  function raises.
\<close>

lemma findDecryptFnByCallCount_raises:
  "findDecryptFnByCallCount switch_bindings 1 True [] switch_body = Inl TypeError"
  by code_simp



subsection \<open>Constant inlining\<close>

lemma fold_replaceWith:
  "fold (\<lambda>r. replaceWith r v) refs st
     = (fold (\<lambda>r. replaceAt r (fst v)) refs (fst st), snd st @ map (\<lambda>r. (r, snd v)) refs)"
  by (induction refs arbitrary: st) (simp_all add: replaceWith_def)

lemma inlineReferences_tree:
  "fst (inlineReferences v refs ast) = fold (\<lambda>r. replaceAt r (fst v)) refs ast"
  by (simp add: inlineReferences_def fold_replaceWith)

lemma inlineReferences_stores:
  "snd (inlineReferences v refs ast) = map (\<lambda>r. (r, snd v)) refs"
  by (simp add: inlineReferences_def fold_replaceWith)

lemma inlineReferences_at:
  assumes "children (fst v) = []"
      and "\<forall>r\<in>set refs. \<exists>x. getAt ast r = Some x \<and> children x = []"
  shows "\<forall>r\<in>set refs. getAt (fst (inlineReferences v refs ast)) r = Some (fst v)"
  using fold_replaceAt_leaves [OF assms(1), of "set refs" ast refs] assms(2)
  by (simp add: inlineReferences_tree)

lemma visitConstant_declarator:
  assumes "getAt ast p = Some (VariableDeclarator (Identifier name) (Some lit))"
      and "isStringLiteral lit \<or> isNumericLiteral lit"
      and "getBinding name = Some b" and "isConstant b" and "constantViolations b = []"
  shows "visitConstant getBinding p ast
           = (fst (removeAt (fst (inlineReferences (lit, p @ [1]) (referencePaths b) ast)) p),
              snd (removeAt (fst (inlineReferences (lit, p @ [1]) (referencePaths b) ast)) p),
              snd (inlineReferences (lit, p @ [1]) (referencePaths b) ast),
              Some name)"
  using assms
  by (simp add: visitConstant_def constantValue_def replaceConstantVariable_def bindingName_def)

lemma literal_leaf: "isStringLiteral lit \<or> isNumericLiteral lit \<Longrightarrow> children lit = []"
  by (cases lit) simp_all

lemma getAt_append:
  "getAt t (q @ r) = (case getAt t q of None \<Rightarrow> None | Some n \<Rightarrow> getAt n r)"
  by (induction q arbitrary: t) simp_all

lemma getAt_replaceAt_under: "getAt t q \<noteq> None \<Longrightarrow> getAt (replaceAt q v t) (q @ r) = getAt v r"
proof (induction q arbitrary: t)
  case Nil
  show ?case by simp
next
  case (Cons i q)
  from Cons.prems have i: "i < length (children t)"
    by (auto split: if_splits)
  with Cons.prems have "getAt (children t ! i) q \<noteq> None"
    by simp
  hence "getAt (replaceAt q v (children t ! i)) (q @ r) = getAt v r"
    by (rule Cons.IH)
  with i show ?case
    by (simp add: children_rebuild)
qed

lemma shift_sibling: "shift (q @ [j]) (q @ i # r) = q @ (if j < i then i - 1 else i) # r"
  by (simp add: shift_def nth_append)

lemma shift_elsewhere: "\<not> below q r \<Longrightarrow> shift (q @ [j]) r = r"
  by (simp add: shift_def below_def)

lemma del_nth: "i < length xs \<Longrightarrow> i \<noteq> j \<Longrightarrow> del j xs ! (if j < i then i - 1 else i) = xs ! i"
  by (auto simp: del_def nth_append min_def)

lemma del_length: "i < length xs \<Longrightarrow> i \<noteq> j \<Longrightarrow> (if j < i then i - 1 else i) < length (del j xs)"
  by (auto simp: del_def min_def)

lemma getAt_taken_out:
  assumes "getAt t q = Some parent" and "children parent' = del j (children parent)"
      and "getAt t r = Some x" and "children x = []" and "r \<noteq> q" and "\<not> below (q @ [j]) r"
  shows "getAt (replaceAt q parent' t) (shift (q @ [j]) r) = Some x"
proof (cases "below q r")
  case True
  then obtain s where r: "r = q @ s"
    by (metis below_def append_take_drop_id)
  with assms(5) obtain i s' where s: "s = i # s'"
    by (cases s) auto
  from assms(6) r s have ij: "i \<noteq> j"
    by (simp add: below_def)
  from assms(1,3) r s have at: "getAt parent (i # s') = Some x"
    by (simp add: getAt_append)
  hence i: "i < length (children parent)" and x: "getAt (children parent ! i) s' = Some x"
    by (auto split: if_splits)
  have "getAt (replaceAt q parent' t) (shift (q @ [j]) r)
          = getAt parent' ((if j < i then i - 1 else i) # s')"
    using assms(1) by (simp add: r s shift_sibling getAt_replaceAt_under del: getAt.simps)
  also have "\<dots> = getAt (children parent ! i) s'"
    using del_nth [OF i ij] del_length [OF i ij] assms(2) by simp
  finally show ?thesis
    using x by simp
next
  case False
  have "\<not> below r q"
  proof
    assume "below r q"
    with assms(1,3,4) have "q = r"
      using leaf_below [of t r x q] by simp
    with assms(5) show False by simp
  qed
  with False have "getAt (replaceAt q parent' t) r = getAt t r"
    by (simp add: getAt_replaceAt_other)
  with False assms(3) show ?thesis
    by (simp add: shift_elsewhere)
qed

lemma visitAll_unchanged:
  "\<forall>q\<in>set ps. visitConstant getBinding q ast = (ast, None, [], None) \<Longrightarrow> visitAll getBinding ps ast = ast"
  by (induction ps) (simp_all add: after_def scopeAfter_def unbind_def)

lemma visitAll_append:
  "\<forall>q\<in>set pre. visitConstant getBinding q ast = (ast, None, [], None) \<Longrightarrow>
   visitAll getBinding (pre @ ps) ast = visitAll getBinding ps ast"
  by (induction pre) (simp_all add: after_def scopeAfter_def unbind_def)

text \<open>
  C3 as stated, that every reference path receives a clone of the literal, a fresh node
  and not the shared initialiser node, fails on \<^verbatim>\<open>let a = "x"; f(a); g(a);\<close>. The
  callback of the declarator reads the node in its slot \<^verbatim>\<open>init\<close>, at address \<open>[0, 0, 1]\<close>,
  and stores this object at the argument of \<open>f\<close> and at the argument of \<open>g\<close>: the two
  references hold the initialiser node itself, one node shared by both.
\<close>

theorem replaceConstant_shares:
  "visitConstant shared_scope [0, 0] shared_program
     = (Program
          [ExpressionStatement (CallExpression (Identifier ''f'') [StringLiteral ''x''] []),
           ExpressionStatement (CallExpression (Identifier ''g'') [StringLiteral ''x''] [])],
        Some [0],
        [([1, 0, 1], [0, 0, 1]), ([2, 0, 1], [0, 0, 1])],
        Some ''a'')"
  by code_simp

text \<open>
  C3, amended. At any point of the walk, let the node at address \<open>p\<close> be the declarator of
  \<open>name\<close> with a string or numeric literal \<open>lit\<close> as initialiser, let the scope hold a
  binding for \<open>name\<close> that is constant and has no constant violations, and let the
  reference paths of the binding be places of the identifier in the tree. Then the
  callback stores at every reference path the initialiser node itself, the object read
  from the slot \<^verbatim>\<open>init\<close> of the declarator, which all the references then share: no clone
  is made. Every reference path holds a node equal to the literal. The declarator is
  removed: it is taken out of a declaration of several, and a declaration of this
  declarator alone is taken out of the statements of the program or block that holds it;
  the reference paths outside the removed node, moved with the removal, hold the literal
  in the tree that is left. The walk goes on over the nodes that are left, at their new
  addresses, in the scope without the binding of \<open>name\<close>. Where the callbacks of the
  other nodes change nothing, \<open>replaceConstant\<close> returns the tree that this callback
  leaves: \<^verbatim>\<open>let a = "debugger"; f(a);\<close> becomes \<^verbatim>\<open>f("debugger");\<close>, and
  \<^verbatim>\<open>let a = 1, b = g(); f(a, b);\<close> becomes \<^verbatim>\<open>let b = g(); f(1, b);\<close>.
\<close>

theorem replaceConstant_inlines:
  assumes "getAt ast p = Some (VariableDeclarator (Identifier name) (Some lit))"
      and "isStringLiteral lit \<or> isNumericLiteral lit"
      and "getBinding name = Some b" and "isConstant b" and "constantViolations b = []"
      and "\<forall>r\<in>set (referencePaths b). getAt ast r = Some (Identifier name)"
      and "inl = fst (inlineReferences (lit, p @ [1]) (referencePaths b) ast)"
      and "ast' = fst (removeAt inl p)" and "g = snd (removeAt inl p)"
  shows "visitConstant getBinding p ast
           = (ast', g, map (\<lambda>r. (r, p @ [1])) (referencePaths b), Some name)
       \<and> (\<forall>r\<in>set (referencePaths b). getAt inl r = Some lit)
       \<and> (\<forall>ps. visitAll getBinding (p # ps) ast
                 = visitAll ((scopeAfter g getBinding)(name := None)) (after g ps) ast')
       \<and> (\<forall>pre post.
             visited ast = pre @ p # post
             \<and> (\<forall>q\<in>set pre. visitConstant getBinding q ast = (ast, None, [], None))
             \<and> (\<forall>q\<in>set (after g post).
                   visitConstant ((scopeAfter g getBinding)(name := None)) q ast'
                     = (ast', None, [], None))
             \<longrightarrow> replaceConstant getBinding ast = ast')
       \<and> (\<forall>q j k ds.
             p = q @ [j] \<and> getAt inl q = Some (VariableDeclaration k ds) \<and> length ds \<noteq> 1 \<longrightarrow>
             ast' = replaceAt q (VariableDeclaration k (del j ds)) inl \<and> g = Some p
             \<and> (\<forall>r\<in>set (referencePaths b). \<not> below p r \<longrightarrow> getAt ast' (shift p r) = Some lit))
       \<and> (\<forall>q i k d parent ss.
             p = q @ [i, 0]
             \<and> getAt inl (q @ [i]) = Some (VariableDeclaration k [d])
             \<and> getAt inl q = Some parent
             \<and> (parent = Program ss \<or> parent = BlockStatement ss) \<longrightarrow>
             ast' = replaceAt q (rebuild parent (del i ss)) inl \<and> g = Some (q @ [i])
             \<and> (\<forall>r\<in>set (referencePaths b).
                   \<not> below (q @ [i]) r \<longrightarrow> getAt ast' (shift (q @ [i]) r) = Some lit))"
proof -
  have visit: "visitConstant getBinding p ast = (ast', g, map (\<lambda>r. (r, p @ [1])) (referencePaths b), Some name)"
    using visitConstant_declarator [of ast p name lit getBinding b] assms(1-5,7-9)
    by (simp add: inlineReferences_stores)
  have refs: "\<forall>r\<in>set (referencePaths b). getAt inl r = Some lit"
    using inlineReferences_at [of "(lit, p @ [1])" "referencePaths b" ast] literal_leaf [OF assms(2)]
      assms(6,7)
    by simp
  have step: "visitAll getBinding (p # ps) ast = visitAll ((scopeAfter g getBinding)(name := None)) (after g ps) ast'"
    for ps
    by (simp add: visit unbind_def)
  have pass: "replaceConstant getBinding ast = ast'"
    if "visited ast = pre @ p # post"
      "\<forall>q\<in>set pre. visitConstant getBinding q ast = (ast, None, [], None)"
      "\<forall>q\<in>set (after g post). visitConstant ((scopeAfter g getBinding)(name := None)) q ast' = (ast', None, [], None)"
    for pre post
  proof -
    have "replaceConstant getBinding ast = visitAll getBinding (p # post) ast"
      using that(1,2) by (simp add: replaceConstant_def visitAll_append)
    also have "\<dots> = visitAll ((scopeAfter g getBinding)(name := None)) (after g post) ast'"
      by (rule step)
    also have "\<dots> = ast'"
      using that(3) by (rule visitAll_unchanged)
    finally show ?thesis .
  qed
  have leaf: "children lit = []"
    using assms(2) by (rule literal_leaf)
  have several: "ast' = replaceAt q (VariableDeclaration k (del j ds)) inl \<and> g = Some p"
    if "p = q @ [j]" "getAt inl q = Some (VariableDeclaration k ds)" "length ds \<noteq> 1"
    for q j k ds
    using that assms(8,9) by (simp add: removeAt_declarator)
  have several_refs: "getAt ast' (shift p r) = Some lit"
    if "p = q @ [j]" "getAt inl q = Some (VariableDeclaration k ds)" "length ds \<noteq> 1"
      "r \<in> set (referencePaths b)" "\<not> below p r"
    for q j k ds r
  proof -
    from that(4) refs have r: "getAt inl r = Some lit"
      by simp
    with that(2) assms(2) have "r \<noteq> q"
      by auto
    with that(2) r leaf that(5)
    have "getAt (replaceAt q (VariableDeclaration k (del j ds)) inl) (shift (q @ [j]) r) = Some lit"
      unfolding that(1) by (intro getAt_taken_out [where parent = "VariableDeclaration k ds"]) simp_all
    with several [OF that(1-3)] that(1) show ?thesis
      by simp
  qed
  have alone: "ast' = replaceAt q (rebuild parent (del i ss)) inl \<and> g = Some (q @ [i])"
    if "p = q @ [i, 0]" "getAt inl (q @ [i]) = Some (VariableDeclaration k [d])"
      "getAt inl q = Some parent" "parent = Program ss \<or> parent = BlockStatement ss"
    for q i k d parent ss
    using that assms(8,9) removeAt_declaration [of inl q i k d parent ss] by simp
  have alone_refs: "getAt ast' (shift (q @ [i]) r) = Some lit"
    if "p = q @ [i, 0]" "getAt inl (q @ [i]) = Some (VariableDeclaration k [d])"
      "getAt inl q = Some parent" "parent = Program ss \<or> parent = BlockStatement ss"
      "r \<in> set (referencePaths b)" "\<not> below (q @ [i]) r"
    for q i k d parent ss r
  proof -
    from that(5) refs have r: "getAt inl r = Some lit"
      by simp
    with that(3,4) assms(2) have "r \<noteq> q"
      by auto
    moreover from that(4) have "children (rebuild parent (del i ss)) = del i (children parent)"
      by auto
    ultimately
    have "getAt (replaceAt q (rebuild parent (del i ss)) inl) (shift (q @ [i]) r) = Some lit"
      using that(3,6) r leaf by (intro getAt_taken_out [where parent = parent]) simp_all
    with alone [OF that(1-4)] show ?thesis
      by simp
  qed
  show ?thesis
  proof (intro conjI allI impI)
    show "visitConstant getBinding p ast = (ast', g, map (\<lambda>r. (r, p @ [1])) (referencePaths b), Some name)"
      by (rule visit)
    show "\<forall>r\<in>set (referencePaths b). getAt inl r = Some lit"
      by (rule refs)
    show "visitAll getBinding (p # ps) ast = visitAll ((scopeAfter g getBinding)(name := None)) (after g ps) ast'"
      for ps
      by (rule step)
    show "replaceConstant getBinding ast = ast'"
      if "visited ast = pre @ p # post
          \<and> (\<forall>q\<in>set pre. visitConstant getBinding q ast = (ast, None, [], None))
          \<and> (\<forall>q\<in>set (after g post). visitConstant ((scopeAfter g getBinding)(name := None)) q ast' = (ast', None, [], None))"
      for pre post
      using that pass [of pre post] by simp
    show "ast' = replaceAt q (VariableDeclaration k (del j ds)) inl"
      if "p = q @ [j] \<and> getAt inl q = Some (VariableDeclaration k ds) \<and> length ds \<noteq> 1"
      for q j k ds
      using that several [of q j k ds] by simp
    show "g = Some p"
      if "p = q @ [j] \<and> getAt inl q = Some (VariableDeclaration k ds) \<and> length ds \<noteq> 1"
      for q j k ds
      using that several [of q j k ds] by simp
    show "\<forall>r\<in>set (referencePaths b). \<not> below p r \<longrightarrow> getAt ast' (shift p r) = Some lit"
      if "p = q @ [j] \<and> getAt inl q = Some (VariableDeclaration k ds) \<and> length ds \<noteq> 1"
      for q j k ds
      using that several_refs [of q j k ds] by blast
    show "ast' = replaceAt q (rebuild parent (del i ss)) inl"
      if "p = q @ [i, 0]
          \<and> getAt inl (q @ [i]) = Some (VariableDeclaration k [d])
          \<and> getAt inl q = Some parent
          \<and> (parent = Program ss \<or> parent = BlockStatement ss)"
      for q i k d parent ss
      using that alone [of q i k d parent ss] by blast
    show "g = Some (q @ [i])"
      if "p = q @ [i, 0]
          \<and> getAt inl (q @ [i]) = Some (VariableDeclaration k [d])
          \<and> getAt inl q = Some parent
          \<and> (parent = Program ss \<or> parent = BlockStatement ss)"
      for q i k d parent ss
      using that alone [of q i k d parent ss] by blast
    show "\<forall>r\<in>set (referencePaths b).
            \<not> below (q @ [i]) r \<longrightarrow> getAt ast' (shift (q @ [i]) r) = Some lit"
      if "p = q @ [i, 0]
          \<and> getAt inl (q @ [i]) = Some (VariableDeclaration k [d])
          \<and> getAt inl q = Some parent
          \<and> (parent = Program ss \<or> parent = BlockStatement ss)"
      for q i k d parent ss
      using that alone_refs [of q i k d parent ss] by blast
  qed
qed

theorem replaceConstant_inlines_witness:
  "getAt several_program [0, 0]
     = Some (VariableDeclarator (Identifier ''a'') (Some (NumericLiteral 1)))
   \<and> getAt several_program [1, 0, 1] = Some (Identifier ''a'')
   \<and> visited several_program = [[0, 0], [0, 1]]
   \<and> visitConstant several_scope [0, 0] several_program
       = (several_result, Some [0, 0], [([1, 0, 1], [0, 0, 1])], Some ''a'')
   \<and> getAt several_inlined [1, 0, 1] = Some (NumericLiteral 1)
   \<and> several_result
       = replaceAt [0]
           (VariableDeclaration ''let''
              [VariableDeclarator (Identifier ''b'') (Some (CallExpression (Identifier ''g'') [] []))])
           several_inlined
   \<and> getAt several_result [1, 0, 1] = Some (NumericLiteral 1)
   \<and> replaceConstant several_scope several_program = several_result
   \<and> getAt inline_program [0, 0]
       = Some (VariableDeclarator (Identifier ''a'') (Some (StringLiteral ''debugger'')))
   \<and> getAt inline_program [1, 0, 1] = Some (Identifier ''a'')
   \<and> visited inline_program = [[0, 0]]
   \<and> replaceConstant inline_scope inline_program
       = Program [ExpressionStatement (CallExpression (Identifier ''f'') [StringLiteral ''debugger''] [])]"
proof -
  let ?b = "\<lparr>isConstant = True, constantViolations = [], referencePaths = [[1, 0, 1]],
             bindingPath = [0, 0]\<rparr>"
  have d: "getAt several_program [0, 0]
             = Some (VariableDeclarator (Identifier ''a'') (Some (NumericLiteral 1)))"
    by (simp add: several_program_def)
  have l: "isStringLiteral (NumericLiteral 1) \<or> isNumericLiteral (NumericLiteral 1)"
    by simp
  have s: "several_scope ''a'' = Some ?b"
    by (simp add: several_scope_def)
  have c: "isConstant ?b" and n: "constantViolations ?b = []"
    by simp_all
  have r: "\<forall>r\<in>set (referencePaths ?b). getAt several_program r = Some (Identifier ''a'')"
    by (simp add: several_program_def)
  have i: "several_inlined
             = fst (inlineReferences (NumericLiteral 1, [0, 0] @ [1]) (referencePaths ?b) several_program)"
    by (simp add: several_inlined_def several_program_def inlineReferences_def replaceWith_def)
  have e: "removeAt several_inlined [0, 0] = (several_result, Some [0, 0])"
    by (simp add: several_inlined_def several_result_def del_def)
  have a: "several_result = fst (removeAt several_inlined [0, 0])"
    and g: "Some [0, 0] = snd (removeAt several_inlined [0, 0])"
    unfolding e by simp_all
  note t = replaceConstant_inlines
             [of several_program "[0, 0]" "''a''" "NumericLiteral 1" several_scope ?b
                 several_inlined several_result "Some [0, 0]", OF d l s c n r i a g]
  have v: "visited several_program = [] @ [0, 0] # [[0, 1]]"
    by code_simp
  have pre: "\<forall>q\<in>set []. visitConstant several_scope q several_program = (several_program, None, [], None)"
    by simp
  have rest: "after (Some [0, 0]) [[0, 1]] = [[0, 0]]"
    by (simp add: after_def below_def shift_def)
  have post: "\<forall>q\<in>set (after (Some [0, 0]) [[0, 1]]).
               visitConstant ((scopeAfter (Some [0, 0]) several_scope)(''a'' := None)) q several_result
                 = (several_result, None, [], None)"
    unfolding rest by (simp add: several_result_def visitConstant_def constantValue_def)
  from t have visit: "visitConstant several_scope [0, 0] several_program
                        = (several_result, Some [0, 0], [([1, 0, 1], [0, 0, 1])], Some ''a'')"
    by simp
  from t have stored: "getAt several_inlined [1, 0, 1] = Some (NumericLiteral 1)"
    by simp
  from t [THEN conjunct2, THEN conjunct2, THEN conjunct2, THEN conjunct1, rule_format,
          of "[]" "[[0, 1]]"] v pre post
  have pass: "replaceConstant several_scope several_program = several_result"
    by blast
  have at_q: "getAt several_inlined [0]
                = Some (VariableDeclaration ''let''
                    [VariableDeclarator (Identifier ''a'') (Some (NumericLiteral 1)),
                     VariableDeclarator (Identifier ''b'')
                       (Some (CallExpression (Identifier ''g'') [] []))])"
    by (simp add: several_inlined_def)
  from t [THEN conjunct2, THEN conjunct2, THEN conjunct2, THEN conjunct2, THEN conjunct1,
          rule_format,
          of "[0]" 0 "''let''"
             "[VariableDeclarator (Identifier ''a'') (Some (NumericLiteral 1)),
               VariableDeclarator (Identifier ''b'') (Some (CallExpression (Identifier ''g'') [] []))]"]
    at_q
  have taken: "several_result
                 = replaceAt [0]
                     (VariableDeclaration ''let''
                        [VariableDeclarator (Identifier ''b'')
                           (Some (CallExpression (Identifier ''g'') [] []))])
                     several_inlined
               \<and> getAt several_result (shift [0, 0] [1, 0, 1]) = Some (NumericLiteral 1)"
    by (simp add: del_def below_def)
  have moved: "shift [0, 0] [1, 0, 1] = [1, 0, 1]"
    by (simp add: shift_def)
  let ?inl = "Program
                [VariableDeclaration ''let''
                   [VariableDeclarator (Identifier ''a'') (Some (StringLiteral ''debugger''))],
                 ExpressionStatement
                   (CallExpression (Identifier ''f'') [StringLiteral ''debugger''] [])]"
  let ?res = "Program
                [ExpressionStatement
                   (CallExpression (Identifier ''f'') [StringLiteral ''debugger''] [])]"
  have d': "getAt inline_program [0, 0]
              = Some (VariableDeclarator (Identifier ''a'') (Some (StringLiteral ''debugger'')))"
    by (simp add: inline_program_def)
  have l': "isStringLiteral (StringLiteral ''debugger'') \<or> isNumericLiteral (StringLiteral ''debugger'')"
    by simp
  have s': "inline_scope ''a'' = Some ?b"
    by (simp add: inline_scope_def)
  have r': "\<forall>r\<in>set (referencePaths ?b). getAt inline_program r = Some (Identifier ''a'')"
    by (simp add: inline_program_def)
  have i': "?inl = fst (inlineReferences (StringLiteral ''debugger'', [0, 0] @ [1]) (referencePaths ?b)
                        inline_program)"
    by (simp add: inline_program_def inlineReferences_def replaceWith_def)
  have e': "removeAt ?inl [0, 0] = (?res, Some [0])"
    by (simp add: del_def)
  have a': "?res = fst (removeAt ?inl [0, 0])" and g': "Some [0] = snd (removeAt ?inl [0, 0])"
    unfolding e' by simp_all
  note t' = replaceConstant_inlines
              [of inline_program "[0, 0]" "''a''" "StringLiteral ''debugger''" inline_scope ?b
                  ?inl ?res "Some [0]", OF d' l' s' c n r' i' a' g']
  have v': "visited inline_program = [] @ [0, 0] # []"
    by code_simp
  have pre': "\<forall>q\<in>set []. visitConstant inline_scope q inline_program = (inline_program, None, [], None)"
    by simp
  have post': "\<forall>q\<in>set (after (Some [0]) []).
                visitConstant ((scopeAfter (Some [0]) inline_scope)(''a'' := None)) q ?res
                  = (?res, None, [], None)"
    by (simp add: after_def)
  from t' [THEN conjunct2, THEN conjunct2, THEN conjunct2, THEN conjunct1, rule_format,
           of "[]" "[]"] v' pre' post'
  have pass': "replaceConstant inline_scope inline_program = ?res"
    by blast
  from d r v visit stored pass taken moved d' r' v' pass' show ?thesis
    by simp
qed

lemma replaceConstant_example:
  "replaceConstant inline_scope inline_program
     = Program [ExpressionStatement (CallExpression (Identifier ''f'') [StringLiteral ''debugger''] [])]"
  by code_simp

lemma replaceConstant_cascade:
  "replaceConstant cascade_scope cascade_program
     = Program [ExpressionStatement (CallExpression (Identifier ''f'') [NumericLiteral 1] [])]"
  by code_simp

subsection \<open>Control-flow flattening\<close>

lemma element_toString: "i < length arr \<Longrightarrow> element arr (toString i) = arr ! i"
  by (simp add: element_def arrayIndex_def fromDecimal_toString)

lemma sequences_indices:
  "\<forall>i\<in>set idxs. i < length arr \<Longrightarrow>
   sequences (map toString idxs) arr = filter (\<lambda>s. s \<noteq> ContinueStatement) (map (\<lambda>i. arr ! i) idxs)"
  by (simp add: sequences_def element_toString cong: map_cong)

lemma switchWalk_only:
  assumes "visitSwitchStatement p ast = Inr (ast', g1, g2, True)"
      and "\<forall>q\<in>set inner. below p q"
  shows "switchWalk (p # inner) ast = Inr ast'"
proof -
  from assms(2) have "skipped True p inner = []"
    by (simp add: skipped_def)
  hence "after g2 (after g1 (skipped True p inner)) = []"
    by (cases g1; cases g2) (simp_all add: after_def)
  with assms(1) show ?thesis
    by simp
qed

lemma find_append':
  "List.find P (xs @ ys) = (case List.find P xs of None \<Rightarrow> List.find P ys | Some x \<Rightarrow> Some x)"
  by (induction xs) simp_all

lemma find_map': "List.find P (map f xs) = map_option f (List.find (\<lambda>x. P (f x)) xs)"
  by (induction xs) simp_all

lemma firstSplit_declaration:
  assumes "prop = StringLiteral ''split'' \<or> prop = Identifier ''split''"
  shows "firstSplit (BlockStatement
           (VariableDeclaration k
              (VariableDeclarator (Identifier order)
                 (Some (CallExpression (MemberExpression (StringLiteral alphabet) prop c) args cm))
               # ds) # ss)) = Some [0, 0, 1, 0]"
  using assms
  by (auto simp: firstSplit_def find_append' find_map' splitString_def propertyName_def)

lemma flat_step:
  assumes pr: "prop = StringLiteral ''split'' \<or> prop = Identifier ''split''"
      and al: "alphabetDecl = VariableDeclarator (Identifier order)
                   (Some (CallExpression (MemberExpression (StringLiteral alphabet) prop c) args cm))"
      and lo: "isLoop loop" and jl: "j < length (children loop)"
      and jb: "children loop ! j = BlockStatement (SwitchStatement disc cases # rest)"
      and tr: "ast = Program [FunctionDeclaration fname ps
                  (BlockStatement (VariableDeclaration k (alphabetDecl # d # ds) # mid @ loop # post))]"
  shows "visitSwitchStatement [0, length ps, Suc (length mid), j, 0] ast =
           Inr (Program [FunctionDeclaration fname ps
                  (BlockStatement (VariableDeclaration k (d # ds) # mid @ post
                     @ sequences (splitOn CHR ''|'' alphabet) (myArr cases)))],
                Some [0, length ps, 0, 0], Some [0, length ps, Suc (length mid)], True)"
proof -
  let ?p = "[0, length ps, Suc (length mid), j, 0]"
  let ?body = "VariableDeclaration k (alphabetDecl # d # ds) # mid @ loop # post"
  have at_p: "getAt ast ?p = Some (SwitchStatement disc cases)"
    by (simp add: tr jl jb nth_append)
  have at_body: "getAt ast [0, length ps, Suc (length mid), j] = Some (BlockStatement (SwitchStatement disc cases # rest))"
    by (simp add: tr jl jb nth_append)
  have at_loop: "getAt ast [0, length ps, Suc (length mid)] = Some loop"
    by (simp add: tr nth_append)
  have at_block: "getAt ast [0, length ps] = Some (BlockStatement ?body)"
    by (simp add: tr nth_append)
  have no_loop: "\<not> isLoop (BlockStatement (SwitchStatement disc cases # rest))"
    by (simp add: isLoop_def)
  have lp: "findParent isLoop ast ?p = Some [0, length ps, Suc (length mid)]"
    using findUp_up [OF at_body, of isLoop] no_loop findUp_here [OF at_loop, of isLoop] lo
    by (simp add: findParent_def del: getAt.simps)
  have bp: "findParent isBlockStatement ast [0, length ps, Suc (length mid)] = Some [0, length ps]"
    using findUp_here [OF at_block, of isBlockStatement]
    by (simp add: findParent_def isBlockStatement_def del: getAt.simps)
  let ?call = "CallExpression (MemberExpression (StringLiteral alphabet) prop c) args cm"
  let ?ast1 = "Program [FunctionDeclaration fname ps
                 (BlockStatement (VariableDeclaration k (d # ds) # mid @ loop # post))]"
  let ?seqs = "sequences (splitOn CHR ''|'' alphabet) (myArr cases)"
  let ?ast2 = "Program [FunctionDeclaration fname ps
                 (BlockStatement (VariableDeclaration k (d # ds) # mid @ loop # post @ ?seqs))]"
  let ?ast3 = "Program [FunctionDeclaration fname ps
                 (BlockStatement (VariableDeclaration k (d # ds) # mid @ post @ ?seqs))]"
  have split: "firstSplit (BlockStatement ?body) = Some [0, 0, 1, 0]"
    unfolding al using pr by (rule firstSplit_declaration)
  have at_call: "getAt ast [0, length ps, 0, 0, Suc 0] = Some ?call"
    by (simp add: tr al nth_append)
  have at_alphabet: "getAt ast [0, length ps, 0, 0] = Some alphabetDecl"
    by (simp add: tr nth_append)
  have at_declaration: "getAt ast [0, length ps, 0] = Some (VariableDeclaration k (alphabetDecl # d # ds))"
    by (simp add: tr nth_append)
  have dp: "findParent isVariableDeclarator ast [0, length ps, 0, 0, Suc 0, 0] = Some [0, length ps, 0, 0]"
    using findUp_up [OF at_call, of isVariableDeclarator]
      findUp_here [OF at_alphabet, of isVariableDeclarator]
    by (simp add: findParent_def isVariableDeclarator_def al del: getAt.simps)
  have taken: "removeAt ast [0, length ps, 0, 0] =
      (replaceAt [0, length ps, 0] (VariableDeclaration k (d # ds)) ast, Some [0, length ps, 0, 0])"
    using removeAt_declarator [OF at_declaration, of 0] by (simp add: del_def)
  have ast1: "replaceAt [0, length ps, 0] (VariableDeclaration k (d # ds)) ast = ?ast1"
    by (simp add: tr nth_append)
  have removed: "removeDeclarator ast [0, length ps, 0, 0, Suc 0, 0] = (?ast1, Some [0, length ps, 0, 0])"
    unfolding removeDeclarator_def dp by (simp add: taken ast1 del: removeAt.simps replaceAt.simps)
  have live: "\<not> detached ast [0, length ps, 0, 0, Suc 0, 0] [0, length ps, Suc (length mid), j, 0]"
    unfolding detached_def dp by (simp add: below_def)
  have shuffer: "shufferArr (BlockStatement ?body) [0, 0, Suc 0, 0] = splitOn CHR ''|'' alphabet"
    using pr by (auto simp: shufferArr_def al splitString_def propertyName_def)
  have cases_p: "casesAt ast [0, length ps, Suc (length mid), j, 0] = cases"
    using at_p by (simp add: casesAt_def del: getAt.simps)
  have pushed: "pushBody [0, length ps] ?seqs ?ast1 = ?ast2"
    by (simp add: pushBody_def nth_append)
  have at_loop2: "getAt ?ast2 [0, length ps, Suc (length mid)] = Some loop"
    by (simp add: nth_append)
  have at_block2: "getAt ?ast2 [0, length ps] =
      Some (BlockStatement (VariableDeclaration k (d # ds) # mid @ loop # post @ ?seqs))"
    by (simp add: nth_append)
  have taken2: "removeAt ?ast2 [0, length ps, Suc (length mid)] = (?ast3, Some [0, length ps, Suc (length mid)])"
    by (subst removeAt_nonempty) (simp_all add: nth_append del_def)
  have loop_gone: "removeLoop [0, length ps, Suc (length mid), j, 0] ?ast2
      = (?ast3, Some [0, length ps, Suc (length mid)])"
    unfolding removeLoop_def using at_loop2 taken2
    by (simp add: lo del: getAt.simps removeAt.simps)
  have shift_b: "shiftBy (Some [0, length ps, 0, 0]) [0, length ps] = [0, length ps]"
    by (simp add: shiftBy_def shift_def)
  have shift_p: "shiftBy (Some [0, length ps, 0, 0]) [0, length ps, Suc (length mid), j, 0]
      = [0, length ps, Suc (length mid), j, 0]"
    by (simp add: shiftBy_def shift_def)
  show ?thesis
    unfolding visitSwitchStatement_def
    using live
    by (simp add: lp bp at_block split removed shuffer cases_p shift_b shift_p pushed loop_gone
          del: getAt.simps removeAt.simps)
qed

text \<open>
  What the pass does to a function of the shape it is written for. Let the body of a
  function begin with a declaration of several declarators whose first is
  \<^verbatim>\<open>order = "..."["split"](...)\<close> (or \<^verbatim>\<open>"...".split(...)\<close>), and let a \<^verbatim>\<open>while\<close> or \<^verbatim>\<open>for\<close>
  loop of the body have a block as body whose first statement is a \<^verbatim>\<open>switch\<close>. Let
  \<open>transformForLoop\<close> leave the program as it is, let the program have no \<^verbatim>\<open>switch\<close>
  outside this one, and let the alphabet split on \<^verbatim>\<open>|\<close> be the decimal renderings of
  indices \<open>idxs\<close> into the cases that have a string literal as test. Then the pass
  returns the function without the alphabet declarator and without the loop, with the
  first statements of those cases, taken by position in the order \<open>idxs\<close> and without
  the \<^verbatim>\<open>continue\<close> statements among them, appended at the end of the body, after the
  statements that followed the loop.
\<close>

lemma controlFlowFlat_appends:
  assumes "prop = StringLiteral ''split'' \<or> prop = Identifier ''split''"
      and "alphabetDecl = VariableDeclarator (Identifier order)
             (Some (CallExpression (MemberExpression (StringLiteral alphabet) prop c) args cm))"
      and "loop = WhileStatement test block \<or> loop = ForStatement init t u block"
      and "block = BlockStatement (SwitchStatement disc cases # rest)"
      and "ast = Program [FunctionDeclaration fname ps
             (BlockStatement (VariableDeclaration k (alphabetDecl # d # ds) # mid @ loop # post))]"
      and "transformForLoop ast = ast"
      and "switches ast = [0, length ps, Suc (length mid), length (children loop) - 1, 0] # inner"
      and "\<forall>q\<in>set inner. below [0, length ps, Suc (length mid), length (children loop) - 1, 0] q"
      and "splitOn CHR ''|'' alphabet = map toString idxs"
      and "\<forall>i\<in>set idxs. i < length (myArr cases)"
  shows "controlFlowFlat ast =
           Inr (Program [FunctionDeclaration fname ps
             (BlockStatement (VariableDeclaration k (d # ds) # mid @ post
                @ filter (\<lambda>s. s \<noteq> ContinueStatement) (map (\<lambda>i. myArr cases ! i) idxs)))])"
proof -
  let ?j = "length (children loop) - 1"
  from assms(3) have lo: "isLoop loop" and jl: "?j < length (children loop)"
    and jb: "children loop ! ?j = block"
    by (auto simp: isLoop_def nth_append)
  from flat_step [OF assms(1,2) lo jl jb [unfolded assms(4)] assms(5)]
  have "switchWalk ([0, length ps, Suc (length mid), ?j, 0] # inner) ast =
          Inr (Program [FunctionDeclaration fname ps
                 (BlockStatement (VariableDeclaration k (d # ds) # mid @ post
                    @ sequences (splitOn CHR ''|'' alphabet) (myArr cases)))])"
    using assms(8) by (rule switchWalk_only)
  thus ?thesis
    using assms(6,7,9) sequences_indices [OF assms(10)]
    by (simp add: controlFlowFlat_def)
qed

text \<open>
  On the example of the doc comment the four statements come out in the order of the
  alphabet, as the comment has it; the declarator of the counter stays.
\<close>

lemma controlFlowFlat_example:
  "controlFlowFlat flat_program =
     Inr (Program
       [FunctionDeclaration ''a'' []
          (BlockStatement
             [VariableDeclaration ''var'' [flat_counter],
              flat_case1, flat_case3, flat_case2, flat_case0])])"
  by code_simp

text \<open>The example of the doc comment of \<^verbatim>\<open>transformForLoop\<close>.\<close>

lemma transformForLoop_example:
  "transformForLoop loop_example =
     Program
       [VariableDeclaration ''var''
          [VariableDeclarator (Identifier ''a'') (Some (NumericLiteral 1))],
        VariableDeclaration ''var''
          [VariableDeclarator (Identifier ''w'')
             (Some (CallExpression
                      (MemberExpression (StringLiteral ''2|1|2|3'') (StringLiteral ''split'') True)
                      [StringLiteral ''|''] []))],
        ForStatement (Some (UnaryExpression ''void'' (NumericLiteral 0))) None None
          (BlockStatement [BreakStatement])]"
  by code_simp

text \<open>
  C4. The pass does not put the statements where the loop was, does not emit the
  statements of a case, and does not order the cases by the alphabet, on three functions
  with the flattening idiom. (1) With \<^verbatim>\<open>g();\<close> after the loop of a function that runs
  \<^verbatim>\<open>f(); g();\<close> the result is \<^verbatim>\<open>function a() { var i = 0; g(); f(); }\<close>: the statements
  are pushed to the end of the body of the block. (2) Of the case
  \<^verbatim>\<open>case "0": f(); h(); continue;\<close> the result has \<^verbatim>\<open>f();\<close> alone: the first statement of
  a case is taken. (3) With the alphabet \<^verbatim>\<open>"1|0"\<close> and the cases
  \<^verbatim>\<open>case "1": f(); continue; case "0": g(); continue;\<close> the result is \<^verbatim>\<open>g(); f();\<close>: an
  entry of the alphabet picks the case by its position among the cases, not by its
  label.
\<close>

theorem controlFlowFlat_misplaces:
  "controlFlowFlat flat_then =
     Inr (Program
       [FunctionDeclaration ''a'' []
          (BlockStatement
             [VariableDeclaration ''var'' [flat_counter], flat_call ''g'', flat_call ''f''])])
   \<and> controlFlowFlat flat_two =
     Inr (Program
       [FunctionDeclaration ''a'' []
          (BlockStatement [VariableDeclaration ''var'' [flat_counter], flat_call ''f''])])
   \<and> controlFlowFlat flat_swapped =
     Inr (Program
       [FunctionDeclaration ''a'' []
          (BlockStatement
             [VariableDeclaration ''var'' [flat_counter], flat_call ''g'', flat_call ''f''])])"
  by code_simp

end
